theory Spec2Isabelle
  imports Complex_Main "HOL-Library.AList"
begin

section \<open>Common conventions\<close>

text \<open>
  The pipeline is Python. Text (\<open>str\<close>) is modelled as \<open>string\<close>; a non-ASCII
  literal of the source is given by its UTF-8 bytes. Python floats that carry scores,
  confidences, averages and temperatures are modelled as exact rationals. An exception
  is a value of type \<open>error\<close>, and a function that may raise returns \<open>error + 'a\<close>
  with \<open>Inl\<close> for the exception. Calls to the external collaborators (similarity store,
  search provider, language model, persistence) are oracle parameters of the functions
  that use them.
\<close>

datatype error =
    BackendError string
  | NameError
  | TypeError
  | AttributeError
  | KeyError
  | IndexError
  | ZeroDivisionError
  | ValueError

section \<open>Knowledge stage (protocols/knowledge.py)\<close>

text \<open>One entry of \<open>relevant_info\<close>: the dict \<open>{content, score, source}\<close>.\<close>

record info =
  content :: string
  score :: rat
  source :: string

record knowledge_context =
  relevant_info :: "info list"
  sources :: "string list"
  confidence :: rat





definition get_default :: "'a option \<Rightarrow> 'a \<Rightarrow> 'a" where
  "get_default v d = (case v of None \<Rightarrow> d | Some x \<Rightarrow> x)"






text \<open>
  \<open>_deduplicate_and_rank\<close>. The dict \<open>unique_info\<close> keeps insertion order, so it is an
  association list: a new content is appended, a better-scored duplicate replaces the
  stored entry in place. \<open>sorted(..., reverse=True)\<close> is stable: it reverses, sorts
  ascending and reverses again.
\<close>

definition dedup_step :: "(string \<times> info) list \<Rightarrow> info \<Rightarrow> (string \<times> info) list" where
  "dedup_step u i =
     (case map_of u (content i) of
        None \<Rightarrow> u @ [(content i, i)]
      | Some old \<Rightarrow> if score i > score old then AList.update (content i) i u else u)"

definition unique_info :: "info list \<Rightarrow> (string \<times> info) list" where
  "unique_info xs = foldl dedup_step [] xs"

definition sorted_reverse :: "('a \<Rightarrow> 'k::linorder) \<Rightarrow> 'a list \<Rightarrow> 'a list" where
  "sorted_reverse f xs = rev (sort_key f (rev xs))"

definition deduplicate_and_rank :: "info list \<Rightarrow> info list" where
  "deduplicate_and_rank xs = sorted_reverse score (map snd (unique_info xs))"





text \<open>Concrete inputs used to exercise the theorems below.\<close>

definition sample_infos :: "info list" where
  "sample_infos =
     [\<lparr>content = ''a'', score = 1 / 2, source = ''vector_db''\<rparr>,
      \<lparr>content = ''b'', score = 9 / 10, source = ''web''\<rparr>,
      \<lparr>content = ''a'', score = 4 / 5, source = ''web''\<rparr>]"







section \<open>Python values\<close>

text \<open>
  The values that travel in \<open>Dict[str, Any]\<close> arguments and in parsed JSON: \<open>None\<close>,
  booleans, numbers, strings, lists and dicts. A dict is an association list in
  insertion order; lookup takes the entry of a key.
\<close>

datatype json =
    JNull
  | JBool bool
  | JNum rat
  | JStr string
  | JArr "json list"
  | JObj "(string \<times> json) list"

type_synonym dict = "(string \<times> json) list"

text \<open>Truthiness, as \<open>if v:\<close> tests it.\<close>

fun truthy :: "json \<Rightarrow> bool" where
  "truthy JNull = False"
| "truthy (JBool b) = b"
| "truthy (JNum n) = (n \<noteq> 0)"
| "truthy (JStr s) = (s \<noteq> [])"
| "truthy (JArr xs) = (xs \<noteq> [])"
| "truthy (JObj kvs) = (kvs \<noteq> [])"

text \<open>\<open>d.get(k)\<close> and \<open>d.get(k, default)\<close>.\<close>

definition dict_get :: "dict \<Rightarrow> string \<Rightarrow> json" where
  "dict_get d k = (case map_of d k of None \<Rightarrow> JNull | Some v \<Rightarrow> v)"

definition dict_get_default :: "dict \<Rightarrow> string \<Rightarrow> json \<Rightarrow> json" where
  "dict_get_default d k dflt = (case map_of d k of None \<Rightarrow> dflt | Some v \<Rightarrow> v)"

text \<open>\<open>d.update(other)\<close>: each entry of \<open>other\<close> is stored in turn.\<close>

definition dict_update :: "dict \<Rightarrow> dict \<Rightarrow> dict" where
  "dict_update d other = foldl (\<lambda>acc kv. AList.update (fst kv) (snd kv) acc) d other"

text \<open>Sequencing of computations that may raise.\<close>

definition ebind :: "error + 'a \<Rightarrow> ('a \<Rightarrow> error + 'b) \<Rightarrow> error + 'b" where
  "ebind m f = (case m of Inl e \<Rightarrow> Inl e | Inr x \<Rightarrow> f x)"

text \<open>\<open>sub in s\<close> and \<open>s.startswith(p)\<close> on strings.\<close>

fun starts_with :: "string \<Rightarrow> string \<Rightarrow> bool" where
  "starts_with s [] = True"
| "starts_with [] (p # ps) = False"
| "starts_with (c # cs) (p # ps) = (c = p \<and> starts_with cs ps)"

fun str_contains :: "string \<Rightarrow> string \<Rightarrow> bool" where
  "str_contains [] sub = (sub = [])"
| "str_contains (c # cs) sub = (starts_with (c # cs) sub \<or> str_contains cs sub)"

text \<open>
  \<open>len(s)\<close> counts code points: the bytes of the UTF-8 form that are not continuation
  bytes.
\<close>

definition is_continuation :: "char \<Rightarrow> bool" where
  "is_continuation c = (128 \<le> (of_char c :: nat) \<and> (of_char c :: nat) < 192)"

definition py_len :: "string \<Rightarrow> nat" where
  "py_len s = length (filter (\<lambda>c. \<not> is_continuation c) s)"

text \<open>
  The operations of the source on a value of unknown shape: \<open>k in v\<close>, \<open>len(v)\<close>,
  \<open>v[0]\<close> and \<open>v[k]\<close> for a string key. Each raises on the shapes Python rejects.
\<close>

fun py_in :: "string \<Rightarrow> json \<Rightarrow> error + bool" where
  "py_in k (JObj kvs) = Inr (map_of kvs k \<noteq> None)"
| "py_in k (JArr xs) = Inr (JStr k \<in> set xs)"
| "py_in k (JStr s) = Inr (str_contains s k)"
| "py_in k v = Inl TypeError"

fun py_length :: "json \<Rightarrow> error + nat" where
  "py_length (JObj kvs) = Inr (length kvs)"
| "py_length (JArr xs) = Inr (length xs)"
| "py_length (JStr s) = Inr (py_len s)"
| "py_length v = Inl TypeError"

fun py_first :: "json \<Rightarrow> error + json" where
  "py_first (JArr []) = Inl IndexError"
| "py_first (JArr (x # xs)) = Inr x"
| "py_first (JStr []) = Inl IndexError"
| "py_first (JStr (c # cs)) = Inr (JStr (c # takeWhile is_continuation cs))"
| "py_first (JObj kvs) = Inl KeyError"
| "py_first v = Inl TypeError"

fun py_item :: "json \<Rightarrow> string \<Rightarrow> error + json" where
  "py_item (JObj kvs) k = (case map_of kvs k of None \<Rightarrow> Inl KeyError | Some v \<Rightarrow> Inr v)"
| "py_item v k = Inl TypeError"

text \<open>
  The code points of a string, each with its UTF-8 bytes, and \<open>for x in v\<close>: the
  items a loop over a value visits.
\<close>

definition code_points :: "string \<Rightarrow> string list" where
  "code_points s =
     foldr (\<lambda>c gs. case gs of
                      [] \<Rightarrow> [[c]]
                    | g # rest \<Rightarrow>
                        (case g of
                           [] \<Rightarrow> [c] # rest
                         | b # bs \<Rightarrow> if is_continuation b then (c # g) # rest
                                     else [c] # g # rest)) s []"

fun py_iter :: "json \<Rightarrow> error + json list" where
  "py_iter (JArr xs) = Inr xs"
| "py_iter (JObj kvs) = Inr (map (\<lambda>kv. JStr (fst kv)) kvs)"
| "py_iter (JStr s) = Inr (map JStr (code_points s))"
| "py_iter v = Inl TypeError"

text \<open>\<open>v.get(k, default)\<close> on a value that may not be a dict.\<close>

fun py_get :: "json \<Rightarrow> string \<Rightarrow> json \<Rightarrow> error + json" where
  "py_get (JObj kvs) k dflt = Inr (dict_get_default kvs k dflt)"
| "py_get v k dflt = Inl AttributeError"

text \<open>\<open>sep.join(v)\<close>: every item must be a string.\<close>

fun join_strings :: "string \<Rightarrow> string list \<Rightarrow> string" where
  "join_strings sep [] = []"
| "join_strings sep [x] = x"
| "join_strings sep (x # y # ys) = x @ sep @ join_strings sep (y # ys)"

fun as_strings :: "json list \<Rightarrow> error + string list" where
  "as_strings [] = Inr []"
| "as_strings (JStr s # xs) = ebind (as_strings xs) (\<lambda>ss. Inr (s # ss))"
| "as_strings (v # xs) = Inl TypeError"

definition py_join :: "string \<Rightarrow> json \<Rightarrow> error + string" where
  "py_join sep v =
     ebind (py_iter v) (\<lambda>items. ebind (as_strings items) (\<lambda>ss. Inr (join_strings sep ss)))"

section \<open>Generation backend adapter (services/llm.py)\<close>

text \<open>
  The attributes of \<open>settings\<close> that \<open>LLMService.__init__\<close> reads with \<open>getattr\<close>;
  \<open>None\<close> is an attribute the settings object does not have. The \<open>Settings\<close> class of
  core/config.py declares none of the three.
\<close>

record settings =
  LLM_API_KEY :: "string option"
  LLM_DEFAULT_MODEL :: "string option"
  LLM_API_BASE_URL :: "string option"

definition config_settings :: settings where
  "config_settings =
     \<lparr>LLM_API_KEY = None, LLM_DEFAULT_MODEL = None, LLM_API_BASE_URL = None\<rparr>"

record llm_service =
  api_key :: string
  default_model :: string
  api_base_url :: string
  test_mode :: bool

text \<open>\<open>x or y\<close> on an optional string: an absent or empty \<open>x\<close> gives \<open>y\<close>.\<close>

definition key_override :: "string option \<Rightarrow> string option" where
  "key_override k = (case k of None \<Rightarrow> None | Some s \<Rightarrow> if s = [] then None else Some s)"

definition LLMService_init :: "settings \<Rightarrow> string option \<Rightarrow> llm_service" where
  "LLMService_init st key =
     (let k = (case key_override key of
                 Some s \<Rightarrow> s
               | None \<Rightarrow> get_default (LLM_API_KEY st) ''sk-test'')
      in \<lparr>api_key = k,
          default_model = get_default (LLM_DEFAULT_MODEL st) ''gpt-3.5-turbo'',
          api_base_url = get_default (LLM_API_BASE_URL st) ''https://api.openai.com/v1'',
          test_mode = (starts_with k ''sk-dummy'' \<or> starts_with k ''sk-test'')\<rparr>)"

text \<open>
  A prompt is kept as the template that builds it and the values filled in; the fixed
  wording of a template and the rendering of a filled-in value are not modelled. The
  enhanced prompt of the generation stage has the original request, the items of the
  reference information, the key points, and the request restated; an empty list is a
  section left out.
\<close>

datatype prompt =
    Enhanced string "json list" "json list"
  | RequestAnalysis string
  | KnowledgeEvaluation string string
  | KeyPointExtraction string json json json string
  | ResponsePlanning string json json json "json list"
  | ConversationalRewrite string
  | MarkdownRewrite string
  | JsonRewrite string
  | CodeRewrite string string
  | TableRewrite string
  | FeedbackAnalysis string
  | ImprovementSuggestion json json json json json

text \<open>The arguments of \<open>generate_text\<close>.\<close>

record gen_request =
  req_prompt :: prompt
  req_max_tokens :: json
  req_temperature :: json
  req_model :: json
  req_options :: dict

text \<open>
  The backend: the service object that is called (with its credential) and the request.
  Its result is the text of \<open>generate_text\<close>, or the exception it raises once its
  retries are used up.
\<close>

type_synonym llm_backend = "llm_service \<Rightarrow> gen_request \<Rightarrow> error + string"


text \<open>
  \<open>_extract_generated_text\<close>. \<open>lower\<close> is \<open>str.lower\<close> and \<open>dumps\<close> is \<open>json.dumps\<close>, both
  taken from the Python library. The value returned is whatever the field holds, so the
  result is a Python value.
\<close>

definition openai_choice :: "dict \<Rightarrow> error + json option" where
  "openai_choice result =
     (if map_of result ''choices'' = None then Inr None
      else ebind (py_item (JObj result) ''choices'') (\<lambda>choices.
           ebind (py_length choices) (\<lambda>n.
           if \<not> n > 0 then Inr None
           else ebind (py_first choices) (\<lambda>c0.
                ebind (py_in ''message'' c0) (\<lambda>has_message.
                ebind (if has_message
                       then ebind (py_item c0 ''message'') (py_in ''content'')
                       else Inr False) (\<lambda>has_content.
                if has_content
                then ebind (py_item c0 ''message'') (\<lambda>m.
                     ebind (py_item m ''content'') (\<lambda>v. Inr (Some v)))
                else ebind (py_in ''text'' c0) (\<lambda>has_text.
                     if has_text then ebind (py_item c0 ''text'') (\<lambda>v. Inr (Some v))
                     else Inr None)))))))"

definition generic_text :: "(json \<Rightarrow> string) \<Rightarrow> dict \<Rightarrow> json" where
  "generic_text dumps result =
     (case map_of result ''text'' of
        Some v \<Rightarrow> v
      | None \<Rightarrow>
          (case map_of result ''generated_text'' of
             Some v \<Rightarrow> v
           | None \<Rightarrow>
               (case map_of result ''output'' of
                  Some v \<Rightarrow> v
                | None \<Rightarrow> JStr (dumps (JObj result)))))"

definition extract_generated_text ::
  "(string \<Rightarrow> string) \<Rightarrow> (json \<Rightarrow> string) \<Rightarrow> dict \<Rightarrow> string \<Rightarrow> error + json" where
  "extract_generated_text lower dumps result model =
     (if str_contains (lower model) ''openai'' \<or> str_contains (lower model) ''gpt''
      then ebind (openai_choice result) (\<lambda>found.
             case found of Some v \<Rightarrow> Inr v | None \<Rightarrow> Inr (generic_text dumps result))
      else if str_contains (lower model) ''anthropic'' \<or> str_contains (lower model) ''claude''
      then (case map_of result ''completion'' of
              Some v \<Rightarrow> Inr v
            | None \<Rightarrow> Inr (generic_text dumps result))
      else Inr (generic_text dumps result))"

text \<open>The two tests on the model name.\<close>

definition gpt_family :: "(string \<Rightarrow> string) \<Rightarrow> string \<Rightarrow> bool" where
  "gpt_family lower model =
     (str_contains (lower model) ''openai'' \<or> str_contains (lower model) ''gpt'')"

definition claude_family :: "(string \<Rightarrow> string) \<Rightarrow> string \<Rightarrow> bool" where
  "claude_family lower model =
     (str_contains (lower model) ''anthropic'' \<or> str_contains (lower model) ''claude'')"

text \<open>
  The shapes of a response that the OpenAI branch reads without raising whatever the
  other fields are: no \<open>choices\<close> entry, an empty list, or a list whose first element is
  an object whose \<open>message\<close>, when present, is an object. \<open>choice_text\<close> is the value
  the branch finds: the message content of the first choice, else the \<open>text\<close> of the
  first choice.
\<close>

definition choices_well_formed :: "dict \<Rightarrow> bool" where
  "choices_well_formed result =
     (case map_of result ''choices'' of
        None \<Rightarrow> True
      | Some (JArr []) \<Rightarrow> True
      | Some (JArr (JObj c0 # rest)) \<Rightarrow>
          (case map_of c0 ''message'' of
             None \<Rightarrow> True
           | Some (JObj m) \<Rightarrow> True
           | Some other \<Rightarrow> False)
      | Some other \<Rightarrow> False)"

definition choice_text :: "dict \<Rightarrow> json option" where
  "choice_text result =
     (case map_of result ''choices'' of
        Some (JArr (JObj c0 # rest)) \<Rightarrow>
          (case map_of c0 ''message'' of
             Some (JObj m) \<Rightarrow>
               (case map_of m ''content'' of
                  Some v \<Rightarrow> Some v
                | None \<Rightarrow> map_of c0 ''text'')
           | other \<Rightarrow> map_of c0 ''text'')
      | other \<Rightarrow> None)"

text \<open>
  The extraction that the specification describes: one fixed order of probes for every
  model, chat-completion content first, then the completion field, then \<open>text\<close>,
  \<open>generated_text\<close> and \<open>output\<close>, and the serialised response last.
\<close>

definition chat_content :: "dict \<Rightarrow> json option" where
  "chat_content result =
     (case map_of result ''choices'' of
        Some (JArr (JObj c0 # rest)) \<Rightarrow>
          (case map_of c0 ''message'' of
             Some (JObj m) \<Rightarrow> map_of m ''content''
           | _ \<Rightarrow> None)
      | _ \<Rightarrow> None)"

definition spec_extract :: "(json \<Rightarrow> string) \<Rightarrow> dict \<Rightarrow> json" where
  "spec_extract dumps result =
     (case chat_content result of
        Some v \<Rightarrow> v
      | None \<Rightarrow>
          (case map_of result ''completion'' of
             Some v \<Rightarrow> v
           | None \<Rightarrow> generic_text dumps result))"

text \<open>
  Concrete responses for the examples, a stand-in serialiser, and \<open>str.lower\<close> on the
  strings of ASCII characters, which the model names of the examples are: the letters
  A to Z are mapped to a to z and every other ASCII character is kept.
\<close>

definition lower_char :: "char \<Rightarrow> char" where
  "lower_char c =
     (let n = (of_char c :: nat) in if 65 \<le> n \<and> n \<le> 90 then char_of (n + 32) else c)"

definition ascii_lower :: "string \<Rightarrow> string" where
  "ascii_lower s = map lower_char s"

definition completion_and_text :: dict where
  "completion_and_text = [(''completion'', JStr ''A''), (''text'', JStr ''B'')]"

definition chat_response :: dict where
  "chat_response =
     [(''choices'', JArr [JObj [(''message'', JObj [(''content'', JStr ''hi'')])]])]"

definition legacy_response :: dict where
  "legacy_response = [(''choices'', JArr [JObj [(''text'', JStr ''legacy'')]])]"

definition generated_response :: dict where
  "generated_response = [(''generated_text'', JStr ''g'')]"

definition output_response :: dict where
  "output_response = [(''output'', JStr ''o'')]"

definition unknown_response :: dict where
  "unknown_response = [(''id'', JStr ''r1'')]"

definition show_json :: "json \<Rightarrow> string" where
  "show_json v = ''<json>''"

definition empty_choices_response :: dict where
  "empty_choices_response = [(''choices'', JArr []), (''text'', JStr ''t'')]"

definition message_without_content :: dict where
  "message_without_content =
     [(''choices'', JArr [JObj [(''message'', JObj [(''role'', JStr ''assistant'')])]]),
      (''output'', JStr ''o'')]"

definition numeric_choices_response :: dict where
  "numeric_choices_response = [(''choices'', JNum 3), (''text'', JStr ''t'')]"

definition object_choices_response :: dict where
  "object_choices_response = [(''choices'', JObj [(''a'', JNull)]), (''text'', JStr ''t'')]"

section \<open>Generation stage (protocols/generation.py)\<close>

text \<open>
  The options dict that the stage assembles takes entries from request data, so its
  keys can be any hashable value: a string, a number, a boolean or \<open>None\<close>. Python
  compares keys with \<open>==\<close>, under which \<open>True\<close> is 1 and \<open>False\<close> is 0; \<open>norm_key\<close> maps a
  key to the representative of its class, and \<open>key_map\<close> is the dict as a map on these
  representatives. \<open>d[k] = v\<close> replaces the value of an equal key, which keeps its place
  and its first spelling, and appends a new key.
\<close>

type_synonym pydict = "(json \<times> json) list"

fun norm_key :: "json \<Rightarrow> json" where
  "norm_key (JBool b) = JNum (if b then 1 else 0)"
| "norm_key k = k"

definition key_map :: "pydict \<Rightarrow> json \<rightharpoonup> json" where
  "key_map d = map_of (map (\<lambda>kv. (norm_key (fst kv), snd kv)) d)"

definition py_lookup :: "pydict \<Rightarrow> json \<Rightarrow> json option" where
  "py_lookup d k = key_map d (norm_key k)"

fun py_setitem :: "pydict \<Rightarrow> json \<Rightarrow> json \<Rightarrow> pydict" where
  "py_setitem [] k v = [(k, v)]"
| "py_setitem ((k', v') # rest) k v =
     (if norm_key k' = norm_key k then (k', v) # rest else (k', v') # py_setitem rest k v)"

fun hashable :: "json \<Rightarrow> bool" where
  "hashable (JArr xs) = False"
| "hashable (JObj kvs) = False"
| "hashable k = True"

text \<open>
  \<open>d.update(v)\<close> for a value \<open>v\<close> of any shape. A dict gives its entries. Any other value
  is iterated, and each element is in turn made a sequence, which must have two items,
  a key and a value; the key must be hashable. An element that cannot be iterated and
  an unhashable key raise \<open>TypeError\<close>, an element of another length \<open>ValueError\<close>; the
  first element that fails decides.
\<close>

definition pair_of :: "json \<Rightarrow> error + json \<times> json" where
  "pair_of item =
     ebind (py_iter item) (\<lambda>xs.
       case xs of
         [k, v] \<Rightarrow> if hashable k then Inr (k, v) else Inl TypeError
       | _ \<Rightarrow> Inl ValueError)"

fun pairs_from :: "json list \<Rightarrow> error + (json \<times> json) list" where
  "pairs_from [] = Inr []"
| "pairs_from (item # items) =
     ebind (pair_of item) (\<lambda>kv. ebind (pairs_from items) (\<lambda>kvs. Inr (kv # kvs)))"

definition pairs_of :: "json \<Rightarrow> error + (json \<times> json) list" where
  "pairs_of v =
     (case v of
        JObj other \<Rightarrow> Inr (map (\<lambda>kv. (JStr (fst kv), snd kv)) other)
      | _ \<Rightarrow> ebind (py_iter v) pairs_from)"

definition set_items :: "pydict \<Rightarrow> (json \<times> json) list \<Rightarrow> pydict" where
  "set_items d kvs = foldl (\<lambda>acc kv. py_setitem acc (fst kv) (snd kv)) d kvs"

definition update_with :: "pydict \<Rightarrow> json \<Rightarrow> error + pydict" where
  "update_with d v = ebind (pairs_of v) (\<lambda>kvs. Inr (set_items d kvs))"

text \<open>
  The call of \<open>generate_text\<close> that the stage makes, with the options dict it has
  assembled, and the backend that answers it: the service object that is called (with
  its credential) and the request; the result is the text, or the exception raised
  once the retries are used up.
\<close>

record generation_request =
  gr_prompt :: prompt
  gr_max_tokens :: json
  gr_temperature :: json
  gr_model :: json
  gr_options :: pydict

type_synonym generation_backend = "llm_service \<Rightarrow> generation_request \<Rightarrow> error + string"

text \<open>
  \<open>_prepare_payload\<close> of services/llm.py: what \<open>generate_text\<close> sends for such a call.
  The payload has the keys \<open>model\<close>, \<open>messages\<close>, \<open>max_tokens\<close> and \<open>temperature\<close>; the
  options can replace the content of the system message, add \<open>response_format\<close>, and
  add every other entry whose key the payload does not have yet.
\<close>

record payload =
  pl_model :: json
  pl_system_content :: json
  pl_user_content :: prompt
  pl_max_tokens :: json
  pl_temperature :: json
  pl_response_format :: "json option"
  pl_extra :: pydict

definition payload_has_key :: "payload \<Rightarrow> json \<Rightarrow> bool" where
  "payload_has_key pl k =
     (k = JStr ''model'' \<or> k = JStr ''messages'' \<or> k = JStr ''max_tokens'' \<or>
      k = JStr ''temperature'' \<or>
      (k = JStr ''response_format'' \<and> pl_response_format pl \<noteq> None) \<or>
      py_lookup (pl_extra pl) k \<noteq> None)"

definition add_option :: "payload \<Rightarrow> json \<times> json \<Rightarrow> payload" where
  "add_option pl kv =
     (if fst kv \<noteq> JStr ''system_prompt'' \<and> fst kv \<noteq> JStr ''format'' \<and>
         \<not> payload_has_key pl (fst kv)
      then pl\<lparr>pl_extra := pl_extra pl @ [kv]\<rparr>
      else pl)"

definition prepare_payload :: "prompt \<Rightarrow> json \<Rightarrow> json \<Rightarrow> json \<Rightarrow> pydict \<Rightarrow> payload" where
  "prepare_payload pr max_tokens temperature model options =
     (let base = \<lparr>pl_model = model,
                  pl_system_content = JStr ''You are a helpful assistant.'',
                  pl_user_content = pr, pl_max_tokens = max_tokens,
                  pl_temperature = temperature, pl_response_format = None,
                  pl_extra = []\<rparr>
      in if options = [] then base
         else
           (let p1 = (case py_lookup options (JStr ''system_prompt'') of
                        Some v \<Rightarrow> if truthy v then base\<lparr>pl_system_content := v\<rparr> else base
                      | None \<Rightarrow> base);
                p2 = (if py_lookup options (JStr ''format'') = Some (JStr ''json'')
                      then p1\<lparr>pl_response_format :=
                                Some (JObj [(''type'', JStr ''json_object'')])\<rparr>
                      else p1)
            in foldl add_option p2 options))"

text \<open>The payload of a request on a service: \<open>model or self.default_model\<close> first.\<close>

definition request_payload :: "llm_service \<Rightarrow> generation_request \<Rightarrow> payload" where
  "request_payload svc req =
     prepare_payload (gr_prompt req) (gr_max_tokens req) (gr_temperature req)
       (if truthy (gr_model req) then gr_model req else JStr (default_model svc))
       (gr_options req)"

text \<open>The protocol object.\<close>

record history_entry =
  h_prompt :: string
  h_content :: string
  h_timestamp :: string
  h_params :: dict

record generation_protocol =
  gp_llm_service :: llm_service
  generation_history :: "history_entry list"
  gp_metadata :: dict
  gp_execution_log :: "string list"

definition ContentGenerationProtocol_init :: "settings \<Rightarrow> generation_protocol" where
  "ContentGenerationProtocol_init st =
     \<lparr>gp_llm_service = LLMService_init st None,
      generation_history = [],
      gp_metadata = [],
      gp_execution_log = []\<rparr>"

definition gp_log_execution :: "string \<Rightarrow> generation_protocol \<Rightarrow> generation_protocol" where
  "gp_log_execution step p = p\<lparr>gp_execution_log := gp_execution_log p @ [step]\<rparr>"

text \<open>\<open>_prepare_generation_params\<close>.\<close>

definition prepare_generation_params ::
  "string \<Rightarrow> dict \<Rightarrow> dict \<Rightarrow> dict \<Rightarrow> error + pydict" where
  "prepare_generation_params prompt reasoning_result knowledge_context ctx =
     (let p0 = [(JStr ''format'', dict_get_default ctx ''format'' (JStr ''text'')),
                (JStr ''domain'', dict_get ctx ''domain'')];
          p1 = (if truthy (dict_get reasoning_result ''suggested_format'')
                then py_setitem p0 (JStr ''format'')
                       (dict_get reasoning_result ''suggested_format'')
                else p0);
          p2 = (if truthy (dict_get reasoning_result ''tone'')
                then py_setitem p1 (JStr ''tone'') (dict_get reasoning_result ''tone'')
                else p1);
          p3 = (if truthy (dict_get knowledge_context ''sources'')
                then py_setitem p2 (JStr ''sources'') (dict_get knowledge_context ''sources'')
                else p2)
      in if truthy (dict_get ctx ''options'') then update_with p3 (dict_get ctx ''options'')
         else Inr p3)"

text \<open>Lines 61 to 74 of \<open>generate\<close>: the client's \<open>llm_config\<close> on top of the context.\<close>

record sampling =
  s_model :: json
  s_max_tokens :: json
  s_temperature :: json
  s_options :: pydict

definition apply_llm_config :: "dict \<Rightarrow> pydict \<Rightarrow> dict option \<Rightarrow> error + sampling" where
  "apply_llm_config ctx generation_params llm_config =
     (let base = \<lparr>s_model = JNull,
                  s_max_tokens = dict_get_default ctx ''max_tokens'' (JNum 1000),
                  s_temperature = dict_get_default ctx ''temperature'' (JNum (7 / 10)),
                  s_options = generation_params\<rparr>
      in case llm_config of
           None \<Rightarrow> Inr base
         | Some cfg \<Rightarrow>
             if cfg = [] then Inr base
             else
               (let s1 = base\<lparr>s_model := dict_get cfg ''model''\<rparr>;
                    s2 = (if truthy (dict_get cfg ''max_tokens'')
                          then s1\<lparr>s_max_tokens := dict_get cfg ''max_tokens''\<rparr> else s1);
                    s3 = (if dict_get cfg ''temperature'' \<noteq> JNull
                          then s2\<lparr>s_temperature := dict_get cfg ''temperature''\<rparr> else s2)
                in if truthy (dict_get cfg ''options'')
                   then ebind (update_with (s_options s3) (dict_get cfg ''options''))
                          (\<lambda>opts. Inr (s3\<lparr>s_options := opts\<rparr>))
                   else Inr s3))"

definition build_enhanced_prompt :: "string \<Rightarrow> dict \<Rightarrow> dict \<Rightarrow> error + prompt" where
  "build_enhanced_prompt prompt reasoning_result knowledge_context =
     ebind (if truthy (dict_get knowledge_context ''relevant_info'')
            then ebind (py_iter (dict_get knowledge_context ''relevant_info''))
                   (\<lambda>items. Inr items)
            else Inr []) (\<lambda>info_part.
     ebind (if truthy (dict_get reasoning_result ''key_points'')
            then ebind (py_iter (dict_get reasoning_result ''key_points''))
                   (\<lambda>items. Inr items)
            else Inr []) (\<lambda>points_part.
     Inr (Enhanced prompt info_part points_part)))"

definition store_generation_history ::
  "string \<Rightarrow> string \<Rightarrow> string \<Rightarrow> dict \<Rightarrow> generation_protocol \<Rightarrow> generation_protocol" where
  "store_generation_history now prompt text ctx p =
     p\<lparr>generation_history := generation_history p @
          [\<lparr>h_prompt = prompt, h_content = text, h_timestamp = now,
            h_params = [(''max_tokens'', dict_get ctx ''max_tokens''),
                        (''temperature'', dict_get ctx ''temperature''),
                        (''format'', dict_get ctx ''format''),
                        (''domain'', dict_get ctx ''domain'')]\<rparr>],
       gp_metadata := AList.update ''last_generation''
          (JObj [(''timestamp'', JStr now),
                 (''prompt_length'', JNum (of_nat (py_len prompt))),
                 (''content_length'', JNum (of_nat (py_len text)))])
          (gp_metadata p)\<rparr>"

text \<open>
  The credential swap of \<open>generate\<close>: the stored key is saved and replaced when an
  override is passed, and put back in the \<open>finally\<close> block when the saved key is truthy.
\<close>

definition swap_api_key :: "string option \<Rightarrow> generation_protocol \<Rightarrow> generation_protocol" where
  "swap_api_key key p =
     (case key_override key of
        None \<Rightarrow> p
      | Some k \<Rightarrow> p\<lparr>gp_llm_service := (gp_llm_service p)\<lparr>api_key := k\<rparr>\<rparr>)"

definition restore_api_key :: "string option \<Rightarrow> generation_protocol \<Rightarrow> generation_protocol" where
  "restore_api_key original_api_key p =
     (case key_override original_api_key of
        None \<Rightarrow> p
      | Some k \<Rightarrow> p\<lparr>gp_llm_service := (gp_llm_service p)\<lparr>api_key := k\<rparr>\<rparr>)"

text \<open>
  \<open>generate\<close> is a coroutine on an instance that the requests of the server share: it
  runs up to \<open>await llm_service.generate_text(...)\<close>, is suspended there while the
  backend answers, and runs to its end when it is resumed; other calls on the same
  instance can run in between. The model has the two parts. \<open>generate_begin\<close> ends with
  the instance as the call leaves it at the \<open>await\<close> and the call's own local state
  (the saved key, the service object it calls, and the request), or with the exception
  of a call that raises before it awaits. \<open>generate_end\<close> resumes a call with the
  outcome of \<open>generate_text\<close>, on the instance as it is then: the \<open>finally\<close> block, the
  log entry and the history.
\<close>

record pending_call =
  pc_original_api_key :: "string option"
  pc_service :: llm_service
  pc_request :: generation_request
  pc_prompt :: string
  pc_context :: dict

definition generate_begin ::
  "settings \<Rightarrow> generation_protocol \<Rightarrow> string \<Rightarrow> dict \<Rightarrow> dict \<Rightarrow> dict \<Rightarrow> dict option \<Rightarrow>
   string option \<Rightarrow> generation_protocol \<times> (error + pending_call)" where
  "generate_begin st p prompt reasoning_result knowledge_context ctx llm_config key =
     (case prepare_generation_params prompt reasoning_result knowledge_context ctx of
        Inl e \<Rightarrow> (gp_log_execution ''generation_error'' p, Inl e)
      | Inr generation_params \<Rightarrow>
          (let p1 = gp_log_execution ''generation_start'' p in
           case apply_llm_config ctx generation_params llm_config of
             Inl e \<Rightarrow> (gp_log_execution ''generation_error'' p1, Inl e)
           | Inr s \<Rightarrow>
               (let original_api_key =
                      (if key_override key \<noteq> None then Some (api_key (gp_llm_service p1))
                       else None);
                    p2 = swap_api_key key p1;
                    svc = (if key_override key \<noteq> None then LLMService_init st key
                           else gp_llm_service p2)
                in case build_enhanced_prompt prompt reasoning_result knowledge_context of
                     Inl e \<Rightarrow>
                       (gp_log_execution ''generation_error''
                          (restore_api_key original_api_key p2), Inl e)
                   | Inr enhanced \<Rightarrow>
                       (p2, Inr \<lparr>pc_original_api_key = original_api_key,
                                 pc_service = svc,
                                 pc_request =
                                   \<lparr>gr_prompt = enhanced, gr_max_tokens = s_max_tokens s,
                                    gr_temperature = s_temperature s, gr_model = s_model s,
                                    gr_options = s_options s\<rparr>,
                                 pc_prompt = prompt, pc_context = ctx\<rparr>))))"

definition generate_end ::
  "string \<Rightarrow> generation_protocol \<Rightarrow> pending_call \<Rightarrow> error + string \<Rightarrow>
   generation_protocol \<times> (error + string)" where
  "generate_end now p pc outcome =
     (let p3 = restore_api_key (pc_original_api_key pc) p
      in case outcome of
           Inl e \<Rightarrow> (gp_log_execution ''generation_error'' p3, Inl e)
         | Inr text \<Rightarrow>
             (store_generation_history now (pc_prompt pc) text (pc_context pc)
                (gp_log_execution ''generation_complete'' p3), Inr text))"

text \<open>A call that is resumed, if it was suspended.\<close>

definition resume ::
  "string \<Rightarrow> generation_backend \<Rightarrow> generation_protocol \<Rightarrow> error + pending_call \<Rightarrow>
   generation_protocol \<times> (error + string)" where
  "resume now backend p begun =
     (case begun of
        Inl e \<Rightarrow> (p, Inl e)
      | Inr pc \<Rightarrow> generate_end now p pc (backend (pc_service pc) (pc_request pc)))"

text \<open>A call of \<open>generate\<close> during which no other call runs on the instance.\<close>

definition generate ::
  "generation_backend \<Rightarrow> settings \<Rightarrow> string \<Rightarrow> generation_protocol \<Rightarrow> string \<Rightarrow> dict \<Rightarrow>
   dict \<Rightarrow> dict \<Rightarrow> dict option \<Rightarrow> string option \<Rightarrow> generation_protocol \<times> (error + string)" where
  "generate backend st now p prompt reasoning_result knowledge_context ctx llm_config key =
     (let begun = generate_begin st p prompt reasoning_result knowledge_context ctx
                    llm_config key
      in resume now backend (fst begun) (snd begun))"

text \<open>
  Two calls that overlap: the first is suspended when the second begins, and is resumed
  before the second.
\<close>

definition overlapping ::
  "generation_backend \<Rightarrow> settings \<Rightarrow> string \<Rightarrow> generation_protocol \<Rightarrow> string \<Rightarrow> string option \<Rightarrow>
   string \<Rightarrow> string option \<Rightarrow>
   generation_protocol \<times> (error + string) \<times> (error + string)" where
  "overlapping backend st now p prompt1 key1 prompt2 key2 =
     (let begun1 = generate_begin st p prompt1 [] [] [] None key1;
          begun2 = generate_begin st (fst begun1) prompt2 [] [] [] None key2;
          ended1 = resume now backend (fst begun2) (snd begun1);
          ended2 = resume now backend (fst ended1) (snd begun2)
      in (fst ended2, snd ended1, snd ended2))"

text \<open>
  The layers of the options dict, as maps from option keys to values; a later layer
  overrides an earlier one. A layer is there when the source's test finds it.
\<close>

definition context_defaults :: "dict \<Rightarrow> json \<rightharpoonup> json" where
  "context_defaults ctx =
     [JStr ''format'' \<mapsto> dict_get_default ctx ''format'' (JStr ''text''),
      JStr ''domain'' \<mapsto> dict_get ctx ''domain'']"

definition hint :: "dict \<Rightarrow> string \<Rightarrow> string \<Rightarrow> json \<rightharpoonup> json" where
  "hint d k name =
     (if truthy (dict_get d k) then [JStr name \<mapsto> dict_get d k] else Map.empty)"

definition reasoning_hints :: "dict \<Rightarrow> json \<rightharpoonup> json" where
  "reasoning_hints rr = hint rr ''suggested_format'' ''format'' ++ hint rr ''tone'' ''tone''"

definition knowledge_hints :: "dict \<Rightarrow> json \<rightharpoonup> json" where
  "knowledge_hints kc = hint kc ''sources'' ''sources''"

definition options_of :: "dict \<Rightarrow> json \<rightharpoonup> json" where
  "options_of d =
     (if truthy (dict_get d ''options'')
      then (case pairs_of (dict_get d ''options'') of
              Inr kvs \<Rightarrow> key_map (rev kvs)
            | Inl e \<Rightarrow> Map.empty)
      else Map.empty)"

definition override_options :: "dict option \<Rightarrow> json \<rightharpoonup> json" where
  "override_options llm_config = (case llm_config of None \<Rightarrow> Map.empty | Some cfg \<Rightarrow> options_of cfg)"

definition options_layers :: "dict \<Rightarrow> dict \<Rightarrow> dict \<Rightarrow> dict option \<Rightarrow> json \<rightharpoonup> json" where
  "options_layers ctx rr kc llm_config =
     context_defaults ctx ++ reasoning_hints rr ++ knowledge_hints kc ++ options_of ctx ++
     override_options llm_config"

definition override_value :: "dict option \<Rightarrow> string \<Rightarrow> json" where
  "override_value llm_config k = (case llm_config of None \<Rightarrow> JNull | Some cfg \<Rightarrow> dict_get cfg k)"

text \<open>The example of the specification.\<close>

definition example_context :: dict where
  "example_context = [(''temperature'', JNum (7 / 10))]"

definition example_reasoning :: dict where
  "example_reasoning = [(''tone'', JStr ''formal'')]"

definition example_override :: dict where
  "example_override = [(''temperature'', JNum (2 / 10)), (''options'', JObj [(''x'', JNum 1)])]"

definition example_params :: pydict where
  "example_params =
     [(JStr ''format'', JStr ''text''), (JStr ''domain'', JNull),
      (JStr ''tone'', JStr ''formal'')]"

definition example_sampling :: sampling where
  "example_sampling =
     \<lparr>s_model = JNull, s_max_tokens = JNum 1000, s_temperature = JNum (2 / 10),
      s_options = [(JStr ''format'', JStr ''text''), (JStr ''domain'', JNull),
                   (JStr ''tone'', JStr ''formal''), (JStr ''x'', JNum 1)]\<rparr>"

text \<open>
  A context whose options name a temperature, an override whose options name one, and
  options given as a list of pairs.
\<close>

definition options_temperature_context :: dict where
  "options_temperature_context =
     [(''temperature'', JNum (7 / 10)),
      (''options'', JObj [(''temperature'', JNum (1 / 10))])]"

definition options_temperature_override :: dict where
  "options_temperature_override = [(''options'', JObj [(''temperature'', JNum (1 / 10))])]"

definition paired_options_context :: dict where
  "paired_options_context =
     [(''options'', JArr [JArr [JStr ''x'', JNum 1], JArr [JBool True, JStr ''b'']])]"

definition options_temperature_request :: generation_request where
  "options_temperature_request =
     \<lparr>gr_prompt = Enhanced ''q'' [] [], gr_max_tokens = JNum 1000,
      gr_temperature = JNum (7 / 10), gr_model = JNull,
      gr_options = [(JStr ''format'', JStr ''text''), (JStr ''domain'', JNull),
                    (JStr ''temperature'', JNum (1 / 10))]\<rparr>"

text \<open>Backends for the examples.\<close>

definition echo_backend :: generation_backend where
  "echo_backend svc req = Inr (api_key svc)"

definition unavailable_backend :: generation_backend where
  "unavailable_backend svc req = Inl (BackendError ''unavailable'')"

definition failing_backend :: llm_backend where
  "failing_backend svc req = Inl (BackendError ''unavailable'')"

definition expecting_backend :: generation_backend where
  "expecting_backend svc req =
     (if gr_temperature req = JNum (2 / 10) \<and>
         py_lookup (gr_options req) (JStr ''tone'') = Some (JStr ''formal'') \<and>
         py_lookup (gr_options req) (JStr ''x'') = Some (JNum 1)
      then Inr ''ok'' else Inl (BackendError ''unexpected request''))"

section \<open>Reasoning stage (protocols/reasoning.py)\<close>

text \<open>
  Every step asks for JSON with the same sampling and parses the reply with
  \<open>json.loads\<close> (the parameter \<open>loads\<close>, \<open>None\<close> for a reply that does not parse). The
  call and the parse stand in the step's \<open>try\<close> block: whatever they raise, the step
  returns its default.
\<close>

definition json_request :: "prompt \<Rightarrow> nat \<Rightarrow> gen_request" where
  "json_request pr max_tokens =
     \<lparr>req_prompt = pr, req_max_tokens = JNum (of_nat max_tokens),
      req_temperature = JNum (3 / 10), req_model = JNull,
      req_options = [(''format'', JStr ''json'')]\<rparr>"

definition llm_json ::
  "llm_backend \<Rightarrow> (string \<Rightarrow> json option) \<Rightarrow> llm_service \<Rightarrow> gen_request \<Rightarrow> json \<Rightarrow> json" where
  "llm_json backend loads svc req dflt =
     (case backend svc req of
        Inl e \<Rightarrow> dflt
      | Inr text \<Rightarrow> (case loads text of None \<Rightarrow> dflt | Some v \<Rightarrow> v))"

text \<open>The literal "no related information" of \<open>_evaluate_knowledge\<close>, in UTF-8.\<close>

definition no_related_info :: string where
  "no_related_info =
     map char_of
      [0xEA, 0xB4, 0x80, 0xEB, 0xA0, 0xA8, 0x20, 0xEC, 0xA0, 0x95, 0xEB, 0xB3, 0xB4,
       0x20, 0xEC, 0x97, 0x86, 0xEC, 0x9D, 0x8C :: nat]"

definition request_analysis_default :: json where
  "request_analysis_default =
     JObj [(''intent'', JStr ''unknown''), (''domain'', JStr ''general''),
           (''complexity'', JStr ''medium''), (''keywords'', JArr [])]"

definition knowledge_evaluation_default :: json where
  "knowledge_evaluation_default =
     JObj [(''sufficiency'', JStr ''unknown''), (''gaps'', JArr []),
           (''reliability'', JStr ''medium'')]"

definition key_points_default :: json where
  "key_points_default =
     JObj [(''points'', JArr []), (''importance'', JArr []), (''relevance'', JArr [])]"

definition response_plan_default :: json where
  "response_plan_default =
     JObj [(''format'', JStr ''text''), (''tone'', JStr ''neutral''),
           (''structure'', JStr ''default''), (''sections'', JArr [])]"

definition analyze_request ::
  "llm_backend \<Rightarrow> (string \<Rightarrow> json option) \<Rightarrow> llm_service \<Rightarrow> string \<Rightarrow> json" where
  "analyze_request backend loads svc query =
     llm_json backend loads svc (json_request (RequestAnalysis query) 300)
       request_analysis_default"

definition knowledge_text :: "dict \<Rightarrow> error + string" where
  "knowledge_text kc =
     py_join [CHR 0x0A, CHR 0x0A] (dict_get_default kc ''relevant_info'' (JArr []))"

definition evaluate_knowledge ::
  "llm_backend \<Rightarrow> (string \<Rightarrow> json option) \<Rightarrow> llm_service \<Rightarrow> string \<Rightarrow> dict \<Rightarrow> error + json" where
  "evaluate_knowledge backend loads svc query kc =
     (if \<not> truthy (dict_get kc ''relevant_info'')
      then Inr (JObj [(''sufficiency'', JStr ''insufficient''),
                      (''gaps'', JArr [JStr no_related_info]),
                      (''reliability'', JStr ''low'')])
      else ebind (knowledge_text kc) (\<lambda>kt.
             Inr (llm_json backend loads svc (json_request (KnowledgeEvaluation query kt) 300)
                    knowledge_evaluation_default)))"

definition extract_key_points ::
  "llm_backend \<Rightarrow> (string \<Rightarrow> json option) \<Rightarrow> llm_service \<Rightarrow> string \<Rightarrow> dict \<Rightarrow> json \<Rightarrow>
   error + json" where
  "extract_key_points backend loads svc query kc request_analysis =
     ebind (knowledge_text kc) (\<lambda>kt.
     ebind (py_get request_analysis ''intent'' (JStr ''unknown'')) (\<lambda>i.
     ebind (py_get request_analysis ''domain'' (JStr ''general'')) (\<lambda>d.
     ebind (py_get request_analysis ''complexity'' (JStr ''medium'')) (\<lambda>c.
       Inr (llm_json backend loads svc (json_request (KeyPointExtraction query i d c kt) 500)
              key_points_default)))))"

definition plan_response ::
  "llm_backend \<Rightarrow> (string \<Rightarrow> json option) \<Rightarrow> llm_service \<Rightarrow> string \<Rightarrow> json \<Rightarrow> json \<Rightarrow>
   error + json" where
  "plan_response backend loads svc query key_points request_analysis =
     ebind (py_get key_points ''points'' (JArr [])) (\<lambda>pts.
     ebind (py_iter pts) (\<lambda>items.
     ebind (py_get request_analysis ''intent'' (JStr ''unknown'')) (\<lambda>i.
     ebind (py_get request_analysis ''domain'' (JStr ''general'')) (\<lambda>d.
     ebind (py_get request_analysis ''complexity'' (JStr ''medium'')) (\<lambda>c.
       Inr (llm_json backend loads svc (json_request (ResponsePlanning query i d c items) 400)
              response_plan_default))))))"

text \<open>\<open>LLMService(api_key=api_key) if api_key else self.llm_service\<close>.\<close>

definition service_for :: "settings \<Rightarrow> llm_service \<Rightarrow> string option \<Rightarrow> llm_service" where
  "service_for st self_service key =
     (if key_override key \<noteq> None then LLMService_init st key else self_service)"

text \<open>
  The body of the \<open>try\<close> block of \<open>analyze\<close>: the four steps, the result dict and the
  recorded steps. \<open>self_service\<close> is the instance's own service, used when no key is
  passed.
\<close>

definition analyze_chain ::
  "llm_backend \<Rightarrow> (string \<Rightarrow> json option) \<Rightarrow> settings \<Rightarrow> llm_service \<Rightarrow> string \<Rightarrow> dict \<Rightarrow>
   string option \<Rightarrow> error + dict \<times> (string \<times> json) list" where
  "analyze_chain backend loads st self_service query kc key =
     ebind (py_length (dict_get_default kc ''relevant_info'' (JArr []))) (\<lambda>info_count.
     let svc = service_for st self_service key;
         request_analysis = analyze_request backend loads svc query
     in
     ebind (evaluate_knowledge backend loads svc query kc) (\<lambda>knowledge_evaluation.
     ebind (extract_key_points backend loads svc query kc request_analysis) (\<lambda>key_points.
     ebind (plan_response backend loads svc query key_points request_analysis) (\<lambda>response_plan.
     ebind (py_get request_analysis ''intent'' JNull) (\<lambda>intent.
     ebind (py_get request_analysis ''domain'' JNull) (\<lambda>domain.
     ebind (py_get request_analysis ''complexity'' JNull) (\<lambda>complexity.
     ebind (py_get knowledge_evaluation ''sufficiency'' JNull) (\<lambda>sufficiency.
     ebind (py_get key_points ''points'' (JArr [])) (\<lambda>points.
     ebind (py_get response_plan ''format'' JNull) (\<lambda>fmt.
     ebind (py_get response_plan ''tone'' JNull) (\<lambda>tone.
     ebind (py_get response_plan ''structure'' JNull) (\<lambda>structure.
     ebind (py_length points) (\<lambda>key_points_count.
       Inr ([(''intent'', intent), (''domain'', domain), (''complexity'', complexity),
             (''knowledge_sufficiency'', sufficiency), (''key_points'', points),
             (''suggested_format'', fmt), (''tone'', tone), (''structure'', structure)],
            [(''request_analysis'', request_analysis),
             (''knowledge_evaluation'', knowledge_evaluation),
             (''key_points_extraction'', key_points),
             (''response_planning'', response_plan)]))))))))))))))"

definition fallback_result :: dict where
  "fallback_result =
     [(''intent'', JStr ''unknown''), (''domain'', JStr ''general''),
      (''complexity'', JStr ''medium''), (''knowledge_sufficiency'', JStr ''unknown''),
      (''key_points'', JArr []), (''suggested_format'', JStr ''text''),
      (''tone'', JStr ''neutral''), (''structure'', JStr ''default'')]"

definition analyze ::
  "llm_backend \<Rightarrow> (string \<Rightarrow> json option) \<Rightarrow> settings \<Rightarrow> llm_service \<Rightarrow> string \<Rightarrow> dict \<Rightarrow>
   string option \<Rightarrow> dict" where
  "analyze backend loads st self_service query kc key =
     (case analyze_chain backend loads st self_service query kc key of
        Inl e \<Rightarrow> fallback_result
      | Inr r \<Rightarrow> fst r)"

text \<open>
  A reply that fails to parse, for a given request: the backend returns a text and
  \<open>json.loads\<close> rejects it.
\<close>

definition parse_fails ::
  "llm_backend \<Rightarrow> (string \<Rightarrow> json option) \<Rightarrow> llm_service \<Rightarrow> gen_request \<Rightarrow> bool" where
  "parse_fails backend loads svc req =
     (case backend svc req of Inl e \<Rightarrow> False | Inr text \<Rightarrow> loads text = None)"

text \<open>The requests of the four steps, as \<open>analyze\<close> issues them.\<close>

definition step1_request :: "string \<Rightarrow> gen_request" where
  "step1_request query = json_request (RequestAnalysis query) 300"

definition step2_request :: "string \<Rightarrow> string \<Rightarrow> gen_request" where
  "step2_request query kt = json_request (KnowledgeEvaluation query kt) 300"

definition step3_request :: "string \<Rightarrow> json \<Rightarrow> json \<Rightarrow> json \<Rightarrow> string \<Rightarrow> gen_request" where
  "step3_request query i d c kt = json_request (KeyPointExtraction query i d c kt) 500"

definition step4_request :: "string \<Rightarrow> json \<Rightarrow> json \<Rightarrow> json \<Rightarrow> json list \<Rightarrow> gen_request" where
  "step4_request query i d c items = json_request (ResponsePlanning query i d c items) 400"

text \<open>
  The request that step 3 and step 4 issue, when the step gets as far as calling the
  model.
\<close>

definition issued_step3 ::
  "llm_backend \<Rightarrow> (string \<Rightarrow> json option) \<Rightarrow> llm_service \<Rightarrow> string \<Rightarrow> dict \<Rightarrow>
   error + gen_request" where
  "issued_step3 backend loads svc query kc =
     (let request_analysis = analyze_request backend loads svc query in
      ebind (knowledge_text kc) (\<lambda>kt.
      ebind (py_get request_analysis ''intent'' (JStr ''unknown'')) (\<lambda>i.
      ebind (py_get request_analysis ''domain'' (JStr ''general'')) (\<lambda>d.
      ebind (py_get request_analysis ''complexity'' (JStr ''medium'')) (\<lambda>c.
        Inr (step3_request query i d c kt))))))"

definition issued_step4 ::
  "llm_backend \<Rightarrow> (string \<Rightarrow> json option) \<Rightarrow> llm_service \<Rightarrow> string \<Rightarrow> dict \<Rightarrow>
   error + gen_request" where
  "issued_step4 backend loads svc query kc =
     (let request_analysis = analyze_request backend loads svc query in
      ebind (extract_key_points backend loads svc query kc request_analysis) (\<lambda>key_points.
      ebind (py_get key_points ''points'' (JArr [])) (\<lambda>pts.
      ebind (py_iter pts) (\<lambda>items.
      ebind (py_get request_analysis ''intent'' (JStr ''unknown'')) (\<lambda>i.
      ebind (py_get request_analysis ''domain'' (JStr ''general'')) (\<lambda>d.
      ebind (py_get request_analysis ''complexity'' (JStr ''medium'')) (\<lambda>c.
        Inr (step4_request query i d c items))))))))"

text \<open>The keys of a result dict, in order.\<close>

definition result_keys :: "string list" where
  "result_keys =
     [''intent'', ''domain'', ''complexity'', ''knowledge_sufficiency'', ''key_points'',
      ''suggested_format'', ''tone'', ''structure'']"

text \<open>A parsed reply that is an object whose \<open>points\<close>, when present, is a list.\<close>

definition object_reply :: "json \<Rightarrow> bool" where
  "object_reply v =
     (case v of
        JObj kvs \<Rightarrow>
          (case map_of kvs ''points'' of None \<Rightarrow> True | Some (JArr xs) \<Rightarrow> True | Some w \<Rightarrow> False)
      | _ \<Rightarrow> False)"

text \<open>
  An example: the reply to the request analysis is not JSON, the replies to the other
  steps are. \<open>example_loads\<close> stands for \<open>json.loads\<close> on the replies of the example.
\<close>

definition example_backend :: llm_backend where
  "example_backend svc req =
     (case req_prompt req of
        RequestAnalysis q \<Rightarrow> Inr ''not json''
      | KnowledgeEvaluation q kt \<Rightarrow> Inr ''reply2''
      | KeyPointExtraction q i d c kt \<Rightarrow> Inr ''reply3''
      | ResponsePlanning q i d c items \<Rightarrow> Inr ''reply4''
      | _ \<Rightarrow> Inl (BackendError ''unavailable''))"

definition garbled_backend :: llm_backend where
  "garbled_backend svc req = Inr ''not json''"

definition example_loads :: "string \<Rightarrow> json option" where
  "example_loads text =
     (if text = ''reply2'' then Some (JObj [(''sufficiency'', JStr ''sufficient'')])
      else if text = ''reply3'' then Some (JObj [(''points'', JArr [JStr ''p1''])])
      else if text = ''reply4''
      then Some (JObj [(''format'', JStr ''markdown''), (''tone'', JStr ''formal''),
                       (''structure'', JStr ''sequential'')])
      else None)"

definition example_service :: llm_service where
  "example_service = LLMService_init config_settings None"

definition text_knowledge :: dict where
  "text_knowledge = [(''relevant_info'', JArr [JStr ''MCP is a protocol''])]"

definition dict_knowledge :: dict where
  "dict_knowledge =
     [(''relevant_info'',
       JArr [JObj [(''content'', JStr ''MCP is a protocol''), (''score'', JNum (9 / 10)),
                   (''source'', JStr ''vector_db'')]])]"

text \<open>An example in which the reply to every step is JSON.\<close>

definition answering_backend :: llm_backend where
  "answering_backend svc req =
     (case req_prompt req of
        RequestAnalysis q \<Rightarrow> Inr ''reply1''
      | KnowledgeEvaluation q kt \<Rightarrow> Inr ''reply2''
      | KeyPointExtraction q i d c kt \<Rightarrow> Inr ''reply3''
      | ResponsePlanning q i d c items \<Rightarrow> Inr ''reply4''
      | _ \<Rightarrow> Inl (BackendError ''unavailable''))"

definition answering_loads :: "string \<Rightarrow> json option" where
  "answering_loads text =
     (if text = ''reply1''
      then Some (JObj [(''intent'', JStr ''question''), (''domain'', JStr ''protocols''),
                       (''complexity'', JStr ''low'')])
      else example_loads text)"

section \<open>Formatting stage (protocols/communication.py)\<close>

text \<open>
  The helper methods call \<open>llm_service.generate_text\<close>, but \<open>llm_service\<close> is a local
  variable of \<open>format_response\<close> and no parameter or global of the helpers. The
  parameter \<open>llm\<close> of the helpers is what the name \<open>llm_service\<close> resolves to inside
  them: \<open>None\<close> when it is unbound, as in the module as written, where evaluating the
  name raises \<open>NameError\<close> inside the helper's \<open>try\<close> block; \<open>Some f\<close> for a bound
  service whose \<open>generate_text\<close> is \<open>f\<close>.
\<close>

type_synonym helper_llm = "(gen_request \<Rightarrow> error + string) option"

definition module_llm_service :: helper_llm where
  "module_llm_service = None"

definition call_llm :: "helper_llm \<Rightarrow> gen_request \<Rightarrow> error + string" where
  "call_llm llm req = (case llm of None \<Rightarrow> Inl NameError | Some f \<Rightarrow> f req)"

definition rewrite_request :: "prompt \<Rightarrow> nat \<Rightarrow> rat \<Rightarrow> dict \<Rightarrow> gen_request" where
  "rewrite_request pr max_tokens temperature options =
     \<lparr>req_prompt = pr, req_max_tokens = JNum (of_nat max_tokens),
      req_temperature = JNum temperature, req_model = JNull, req_options = options\<rparr>"

definition nl :: string where
  "nl = [CHR 0x0A]"

text \<open>\<open>s.split(sep)\<close> for a separator \<open>c # cs\<close>.\<close>

fun split_acc :: "char \<Rightarrow> string \<Rightarrow> string \<Rightarrow> string \<Rightarrow> string list" where
  "split_acc c cs acc [] = [rev acc]"
| "split_acc c cs acc (x # xs) =
     (if x = c \<and> starts_with xs cs then rev acc # split_acc c cs [] (drop (length cs) xs)
      else split_acc c cs (x # acc) xs)"

definition split_lines :: "string \<Rightarrow> string list" where
  "split_lines s = split_acc (CHR 0x0A) [] [] s"

definition split_sentences :: "string \<Rightarrow> string list" where
  "split_sentences s = split_acc (CHR ''.'') '' '' [] s"

text \<open>The loop of \<open>_format_as_text\<close> that closes a paragraph after every third sentence.\<close>

fun group_sentences :: "string list \<Rightarrow> string list \<Rightarrow> string list" where
  "group_sentences current [] =
     (if current \<noteq> [] then [join_strings ''. '' current @ ''.''] else [])"
| "group_sentences current (s # ss) =
     (if length (current @ [s]) \<ge> 3
      then (join_strings ''. '' (current @ [s]) @ ''.'') # group_sentences [] ss
      else group_sentences (current @ [s]) ss)"

definition format_as_text :: "helper_llm \<Rightarrow> string \<Rightarrow> dict \<Rightarrow> string" where
  "format_as_text llm text ctx =
     (let text1 = (if \<not> str_contains text (nl @ nl)
                   then join_strings (nl @ nl) (group_sentences [] (split_sentences text))
                   else text)
      in if dict_get_default ctx ''tone'' (JStr ''neutral'') = JStr ''conversational''
         then (case call_llm llm (rewrite_request (ConversationalRewrite text1)
                                    (py_len text1 + 100) (4 / 10) []) of
                 Inl e \<Rightarrow> text1
               | Inr rewritten \<Rightarrow> rewritten)
         else text1)"

text \<open>The heuristic of \<open>_format_as_markdown\<close>: the first line becomes a heading and every line is followed by an empty one.\<close>

definition markdown_fallback :: "string \<Rightarrow> string" where
  "markdown_fallback text =
     (let lines = split_lines text;
          lines1 = (case lines of [] \<Rightarrow> [] | l # ls \<Rightarrow> (''# '' @ l) # ls)
      in join_strings nl (concat (map (\<lambda>line. [line, []]) lines1)))"

definition markdown_request :: "string \<Rightarrow> gen_request" where
  "markdown_request text = rewrite_request (MarkdownRewrite text) (py_len text + 200) (3 / 10) []"

definition format_as_markdown :: "helper_llm \<Rightarrow> string \<Rightarrow> dict \<Rightarrow> string" where
  "format_as_markdown llm text ctx =
     (case call_llm llm (markdown_request text) of
        Inr markdown_content \<Rightarrow> markdown_content
      | Inl e \<Rightarrow> markdown_fallback text)"

definition format_as_json :: "(json \<Rightarrow> string) \<Rightarrow> helper_llm \<Rightarrow> string \<Rightarrow> dict \<Rightarrow> string" where
  "format_as_json dumps llm text ctx =
     (case call_llm llm (rewrite_request (JsonRewrite text) (py_len text + 200) (2 / 10)
                           [(''format'', JStr ''json'')]) of
        Inr json_content \<Rightarrow> json_content
      | Inl e \<Rightarrow> dumps (JObj [(''content'', JStr text)]))"

text \<open>A value placed in an f-string: a string as it is, another value as \<open>str\<close> renders it.\<close>

definition fstr :: "(json \<Rightarrow> string) \<Rightarrow> json \<Rightarrow> string" where
  "fstr render v = (case v of JStr s \<Rightarrow> s | _ \<Rightarrow> render v)"

definition code_block :: "string \<Rightarrow> string \<Rightarrow> string" where
  "code_block language code = ''```'' @ language @ nl @ code @ nl @ ''```''"

definition format_as_code :: "(json \<Rightarrow> string) \<Rightarrow> helper_llm \<Rightarrow> string \<Rightarrow> dict \<Rightarrow> string" where
  "format_as_code render llm text ctx =
     (let language = fstr render (dict_get_default ctx ''code_language'' (JStr ''python''))
      in case call_llm llm (rewrite_request (CodeRewrite language text) (py_len text + 200)
                              (2 / 10) []) of
           Inr code_content \<Rightarrow> code_block language code_content
         | Inl e \<Rightarrow> code_block language text)"

definition format_as_table :: "helper_llm \<Rightarrow> string \<Rightarrow> dict \<Rightarrow> string" where
  "format_as_table llm text ctx =
     (case call_llm llm (rewrite_request (TableRewrite text) (py_len text + 300) (3 / 10) []) of
        Inr table_content \<Rightarrow> table_content
      | Inl e \<Rightarrow> text)"

text \<open>Decimal digits of a number, for the numbering of the sources.\<close>

function show_nat :: "nat \<Rightarrow> string" where
  "show_nat n =
     (if n < 10 then [char_of (48 + n)] else show_nat (n div 10) @ [char_of (48 + n mod 10)])"
  by pat_completeness auto
termination
  by (relation "measure id") auto

text \<open>The word "sources" of the citation block, in UTF-8.\<close>

definition sources_label :: string where
  "sources_label =
     map char_of
      [0xEC, 0xB6, 0x9C, 0xEC, 0xB2, 0x98 :: nat]"

fun numbered :: "(json \<Rightarrow> string) \<Rightarrow> nat \<Rightarrow> json list \<Rightarrow> string list" where
  "numbered render i [] = []"
| "numbered render i (x # xs) =
     (show_nat (i + 1) @ ''. '' @ fstr render x) # numbered render (i + 1) xs"

definition plain_citations :: "string \<Rightarrow> string \<Rightarrow> string" where
  "plain_citations text sources_text = text @ nl @ nl @ sources_label @ '':'' @ nl @ sources_text"

definition add_citations ::
  "(json \<Rightarrow> string) \<Rightarrow> (json \<Rightarrow> string) \<Rightarrow> (string \<Rightarrow> json option) \<Rightarrow> string \<Rightarrow> json \<Rightarrow> json \<Rightarrow>
   error + string" where
  "add_citations render dumps loads text srcs output_format =
     (if \<not> truthy srcs then Inr text
      else ebind (py_iter srcs) (\<lambda>items.
        let sources_text = join_strings nl (numbered render 0 items) in
        if output_format = JStr ''markdown''
        then Inr (text @ nl @ nl @ ''---'' @ nl @ nl @ ''**'' @ sources_label @ '':**'' @ nl @
                  sources_text)
        else if output_format = JStr ''json''
        then (case loads text of
                Some (JObj content_json) \<Rightarrow>
                  Inr (dumps (JObj (AList.update ''sources'' srcs content_json)))
              | _ \<Rightarrow> Inr (plain_citations text sources_text))
        else Inr (plain_citations text sources_text)))"

text \<open>
  The \<open>try\<close> block of \<open>format_response\<close>, and \<open>format_response\<close> with its handler. The
  service object that \<open>format_response\<close> builds from its \<open>api_key\<close> argument is stored
  in a local variable that nothing reads, so the argument is left out.
\<close>

definition format_dispatch ::
  "(json \<Rightarrow> string) \<Rightarrow> (json \<Rightarrow> string) \<Rightarrow> helper_llm \<Rightarrow> string \<Rightarrow> dict \<Rightarrow> string" where
  "format_dispatch render dumps llm text ctx =
     (let output_format = dict_get_default ctx ''format'' (JStr ''text'') in
      if output_format = JStr ''json'' then format_as_json dumps llm text ctx
      else if output_format = JStr ''markdown'' then format_as_markdown llm text ctx
      else if output_format = JStr ''code'' then format_as_code render llm text ctx
      else if output_format = JStr ''table'' then format_as_table llm text ctx
      else format_as_text llm text ctx)"

definition format_response_body ::
  "(json \<Rightarrow> string) \<Rightarrow> (json \<Rightarrow> string) \<Rightarrow> (string \<Rightarrow> json option) \<Rightarrow> helper_llm \<Rightarrow> string \<Rightarrow>
   string \<Rightarrow> dict \<Rightarrow> error + string" where
  "format_response_body render dumps loads llm text prompt ctx =
     (let formatted_response = format_dispatch render dumps llm text ctx in
      if truthy (dict_get_default ctx ''add_citations'' (JBool False)) \<and>
         truthy (dict_get ctx ''sources'')
      then add_citations render dumps loads formatted_response
             (dict_get_default ctx ''sources'' (JArr []))
             (dict_get_default ctx ''format'' (JStr ''text''))
      else Inr formatted_response)"

definition format_response ::
  "(json \<Rightarrow> string) \<Rightarrow> (json \<Rightarrow> string) \<Rightarrow> (string \<Rightarrow> json option) \<Rightarrow> helper_llm \<Rightarrow> string \<Rightarrow>
   string \<Rightarrow> dict \<Rightarrow> error + string" where
  "format_response render dumps loads llm text prompt ctx =
     (case format_response_body render dumps loads llm text prompt ctx of
        Inl e \<Rightarrow> Inr text
      | Inr formatted_response \<Rightarrow> Inr formatted_response)"

text \<open>The citation block that follows markdown content.\<close>

definition markdown_citations :: "(json \<Rightarrow> string) \<Rightarrow> string \<Rightarrow> json list \<Rightarrow> string" where
  "markdown_citations render text items =
     text @ nl @ nl @ ''---'' @ nl @ nl @ ''**'' @ sources_label @ '':**'' @ nl @
     join_strings nl (numbered render 0 items)"

text \<open>Examples.\<close>

definition unavailable_llm :: helper_llm where
  "unavailable_llm = Some (\<lambda>req. Inl (BackendError ''unavailable''))"

definition markdown_context :: dict where
  "markdown_context = [(''format'', JStr ''markdown'')]"

definition cited_context :: dict where
  "cited_context =
     [(''format'', JStr ''markdown''), (''add_citations'', JBool True),
      (''sources'', JArr [JStr ''doc1''])]"

definition bad_sources_context :: dict where
  "bad_sources_context =
     [(''format'', JStr ''markdown''), (''add_citations'', JBool True), (''sources'', JNum 5)]"

definition titled_content :: string where
  "titled_content = ''Title'' @ nl @ ''body''"

section \<open>Learning stage with persistence (protocols/learning.py)\<close>

text \<open>
  The feedback dict of \<open>process_feedback\<close>; \<open>None\<close> is an absent key. Ratings are
  integers.
\<close>

record feedback_data =
  fb_feedback_id :: "string option"
  fb_request_id :: "string option"
  fb_session_id :: "string option"
  fb_user_id :: "string option"
  fb_rating :: "int option"
  fb_feedback_type :: "string option"
  fb_comment :: "string option"
  fb_metadata :: "dict option"

text \<open>The document that \<open>store_feedback\<close> inserts.\<close>

record feedback_doc =
  doc_feedback_id :: "string option"
  doc_request_id :: "string option"
  doc_session_id :: "string option"
  doc_user_id :: "string option"
  doc_rating :: "int option"
  doc_feedback_type :: "string option"
  doc_comment :: "string option"
  doc_metadata :: dict
  doc_timestamp :: string

record analysis =
  sentiment :: string
  improvement_areas :: "string list"
  strengths :: "string list"

record metrics =
  metric_type :: string
  total_feedback_count :: int
  average_rating :: rat
  sentiment_distribution :: "(string \<times> int) list"
  m_improvement_areas :: "(string \<times> int) list"
  m_strengths :: "(string \<times> int) list"
  last_updated :: string

text \<open>
  The persistence collaborator as the protocol uses it, over a store of type \<open>'db\<close>:
  \<open>insert_data(collection, document)\<close> for a feedback document,
  \<open>find_one(metrics_collection, {"metric_type": "feedback_summary"})\<close> and
  \<open>update_one(metrics_collection, {...}, {"$set": metrics}, upsert=True)\<close>.
\<close>

record 'db db_service =
  insert_data :: "'db \<Rightarrow> string \<Rightarrow> feedback_doc \<Rightarrow> error + 'db"
  find_one_metrics :: "'db \<Rightarrow> error + metrics option"
  update_one_metrics :: "'db \<Rightarrow> metrics \<Rightarrow> error + 'db"

text \<open>The tags and keywords of \<open>_analyze_feedback\<close>, in UTF-8.\<close>

definition tag_accuracy_needed :: string where
  "tag_accuracy_needed =
     map char_of
      [0xEC, 0xA0, 0x95, 0xED, 0x99, 0x95, 0xEC, 0x84, 0xB1, 0x20, 0xED, 0x96, 0xA5,
       0xEC, 0x83, 0x81, 0x20, 0xED, 0x95, 0x84, 0xEC, 0x9A, 0x94 :: nat]"

definition tag_high_accuracy :: string where
  "tag_high_accuracy =
     map char_of
      [0xEB, 0x86, 0x92, 0xEC, 0x9D, 0x80, 0x20, 0xEC, 0xA0, 0x95, 0xED, 0x99, 0x95,
       0xEC, 0x84, 0xB1 :: nat]"

definition tag_relevance_needed :: string where
  "tag_relevance_needed =
     map char_of
      [0xEA, 0xB4, 0x80, 0xEB, 0xA0, 0xA8, 0xEC, 0x84, 0xB1, 0x20, 0xED, 0x96, 0xA5,
       0xEC, 0x83, 0x81, 0x20, 0xED, 0x95, 0x84, 0xEC, 0x9A, 0x94 :: nat]"

definition tag_high_relevance :: string where
  "tag_high_relevance =
     map char_of
      [0xEB, 0x86, 0x92, 0xEC, 0x9D, 0x80, 0x20, 0xEA, 0xB4, 0x80, 0xEB, 0xA0, 0xA8,
       0xEC, 0x84, 0xB1 :: nat]"

definition tag_clarity_needed :: string where
  "tag_clarity_needed =
     map char_of
      [0xEB, 0xAA, 0x85, 0xED, 0x99, 0x95, 0xEC, 0x84, 0xB1, 0x20, 0xED, 0x96, 0xA5,
       0xEC, 0x83, 0x81, 0x20, 0xED, 0x95, 0x84, 0xEC, 0x9A, 0x94 :: nat]"

definition tag_high_clarity :: string where
  "tag_high_clarity =
     map char_of
      [0xEB, 0x86, 0x92, 0xEC, 0x9D, 0x80, 0x20, 0xEB, 0xAA, 0x85, 0xED, 0x99, 0x95,
       0xEC, 0x84, 0xB1 :: nat]"

definition tag_completeness_needed :: string where
  "tag_completeness_needed =
     map char_of
      [0xEC, 0x99, 0x84, 0xEC, 0xA0, 0x84, 0xEC, 0x84, 0xB1, 0x20, 0xED, 0x96, 0xA5,
       0xEC, 0x83, 0x81, 0x20, 0xED, 0x95, 0x84, 0xEC, 0x9A, 0x94 :: nat]"

definition tag_high_completeness :: string where
  "tag_high_completeness =
     map char_of
      [0xEB, 0x86, 0x92, 0xEC, 0x9D, 0x80, 0x20, 0xEC, 0x99, 0x84, 0xEC, 0xA0, 0x84,
       0xEC, 0x84, 0xB1 :: nat]"

definition tag_improvement_needed :: string where
  "tag_improvement_needed =
     map char_of
      [0xEA, 0xB0, 0x9C, 0xEC, 0x84, 0xA0, 0x20, 0xED, 0x95, 0x84, 0xEC, 0x9A, 0x94 :: nat]"

definition tag_satisfied :: string where
  "tag_satisfied =
     map char_of
      [0xEC, 0xA0, 0x84, 0xEB, 0xB0, 0x98, 0xEC, 0xA0, 0x81, 0xEC, 0x9C, 0xBC, 0xEB,
       0xA1, 0x9C, 0x20, 0xEB, 0xA7, 0x8C, 0xEC, 0xA1, 0xB1 :: nat]"

definition kw_error :: string where
  "kw_error =
     map char_of
      [0xEC, 0x98, 0xA4, 0xEB, 0xA5, 0x98 :: nat]"

definition kw_wrong :: string where
  "kw_wrong =
     map char_of
      [0xEC, 0x9E, 0x98, 0xEB, 0xAA, 0xBB :: nat]"

definition kw_inaccurate :: string where
  "kw_inaccurate =
     map char_of
      [0xEB, 0xB6, 0x80, 0xEC, 0xA0, 0x95, 0xED, 0x99, 0x95 :: nat]"

definition kw_hard_to_understand :: string where
  "kw_hard_to_understand =
     map char_of
      [0xEC, 0x9D, 0xB4, 0xED, 0x95, 0xB4, 0xED, 0x95, 0x98, 0xEA, 0xB8, 0xB0, 0x20,
       0xEC, 0x96, 0xB4, 0xEB, 0xA0, 0xA4, 0xEC, 0x9B, 0x80 :: nat]"

definition kw_incomplete :: string where
  "kw_incomplete =
     map char_of
      [0xEB, 0xB6, 0x88, 0xEC, 0x99, 0x84, 0xEC, 0xA0, 0x84 :: nat]"

definition kw_unrelated :: string where
  "kw_unrelated =
     map char_of
      [0xEA, 0xB4, 0x80, 0xEB, 0xA0, 0xA8, 0x20, 0xEC, 0x97, 0x86, 0xEC, 0x9D, 0x8C :: nat]"

definition kw_good :: string where
  "kw_good =
     map char_of
      [0xEC, 0xA2, 0x8B, 0xEC, 0x9D, 0x8C :: nat]"

definition kw_accurate :: string where
  "kw_accurate =
     map char_of
      [0xEC, 0xA0, 0x95, 0xED, 0x99, 0x95 :: nat]"

definition kw_clear :: string where
  "kw_clear =
     map char_of
      [0xEB, 0xAA, 0x85, 0xED, 0x99, 0x95 :: nat]"

definition kw_useful :: string where
  "kw_useful =
     map char_of
      [0xEC, 0x9C, 0xA0, 0xEC, 0x9A, 0xA9 :: nat]"

definition kw_helpful :: string where
  "kw_helpful =
     map char_of
      [0xEB, 0x8F, 0x84, 0xEC, 0x9B, 0x80 :: nat]"

definition kw_perfect :: string where
  "kw_perfect =
     map char_of
      [0xEC, 0x99, 0x84, 0xEB, 0xB2, 0xBD :: nat]"

definition negative_keywords :: "string list" where
  "negative_keywords =
     [kw_error, kw_wrong, kw_inaccurate, kw_hard_to_understand, kw_incomplete, kw_unrelated]"

definition positive_keywords :: "string list" where
  "positive_keywords = [kw_good, kw_accurate, kw_clear, kw_useful, kw_helpful, kw_perfect]"

text \<open>
  The keyword loops: the first keyword found in the comment adds the tag, unless the
  tag is already there, and ends the loop.
\<close>

fun scan_keywords :: "string list \<Rightarrow> string \<Rightarrow> string \<Rightarrow> string list \<Rightarrow> string list" where
  "scan_keywords [] comment tag tags = tags"
| "scan_keywords (keyword # rest) comment tag tags =
     (if str_contains comment keyword \<and> tag \<notin> set tags then tags @ [tag]
      else scan_keywords rest comment tag tags)"

definition rate_type :: "int \<Rightarrow> string \<Rightarrow> string \<Rightarrow> analysis \<Rightarrow> analysis" where
  "rate_type rating needed high a =
     (if rating \<le> 3 then a\<lparr>improvement_areas := improvement_areas a @ [needed]\<rparr>
      else a\<lparr>strengths := strengths a @ [high]\<rparr>)"

definition analyze_feedback :: "feedback_data \<Rightarrow> analysis" where
  "analyze_feedback fd =
     (let rating = get_default (fb_rating fd) 0;
          a0 = \<lparr>sentiment = (if rating \<ge> 4 then ''positive''
                            else if rating \<le> 2 then ''negative'' else ''neutral''),
                improvement_areas = [], strengths = []\<rparr>;
          feedback_type = get_default (fb_feedback_type fd) [];
          a1 = (if feedback_type = ''accuracy''
                then rate_type rating tag_accuracy_needed tag_high_accuracy a0
                else if feedback_type = ''relevance''
                then rate_type rating tag_relevance_needed tag_high_relevance a0
                else if feedback_type = ''clarity''
                then rate_type rating tag_clarity_needed tag_high_clarity a0
                else if feedback_type = ''completeness''
                then rate_type rating tag_completeness_needed tag_high_completeness a0
                else a0);
          comment = get_default (fb_comment fd) []
      in if comment \<noteq> []
         then a1\<lparr>improvement_areas :=
                   scan_keywords negative_keywords comment tag_improvement_needed
                     (improvement_areas a1),
                 strengths :=
                   scan_keywords positive_keywords comment tag_satisfied (strengths a1)\<rparr>
         else a1)"

text \<open>
  \<open>store_feedback\<close>: the document it builds, and the call of \<open>insert_data\<close> with it.
\<close>

definition feedback_document ::
  "string \<Rightarrow> string option \<Rightarrow> string option \<Rightarrow> string option \<Rightarrow> string option \<Rightarrow>
   int option \<Rightarrow> string option \<Rightarrow> string option \<Rightarrow> dict option \<Rightarrow> feedback_doc" where
  "feedback_document now feedback_id request_id session_id user_id rating feedback_type
     comment metadata =
     \<lparr>doc_feedback_id = feedback_id, doc_request_id = request_id,
      doc_session_id = session_id, doc_user_id = user_id, doc_rating = rating,
      doc_feedback_type = feedback_type, doc_comment = comment,
      doc_metadata = (case metadata of None \<Rightarrow> [] | Some m \<Rightarrow> m),
      doc_timestamp = now\<rparr>"

definition store_feedback ::
  "'db db_service \<Rightarrow> string \<Rightarrow> 'db \<Rightarrow> string option \<Rightarrow> string option \<Rightarrow> string option \<Rightarrow>
   string option \<Rightarrow> int option \<Rightarrow> string option \<Rightarrow> string option \<Rightarrow> dict option \<Rightarrow> error + 'db" where
  "store_feedback svc now db feedback_id request_id session_id user_id rating feedback_type
     comment metadata =
     insert_data svc db ''feedback''
       (feedback_document now feedback_id request_id session_id user_id rating feedback_type
          comment metadata)"

definition initial_metrics :: "string \<Rightarrow> metrics" where
  "initial_metrics now =
     \<lparr>metric_type = ''feedback_summary'', total_feedback_count = 0, average_rating = 0,
      sentiment_distribution = [(''positive'', 0), (''neutral'', 0), (''negative'', 0)],
      m_improvement_areas = [], m_strengths = [], last_updated = now\<rparr>"

text \<open>\<open>counts[k] += 1\<close> for a key that is there, else \<open>counts[k] = 1\<close>.\<close>

definition count_tag :: "(string \<times> int) list \<Rightarrow> string \<Rightarrow> (string \<times> int) list" where
  "count_tag counts k =
     (case map_of counts k of
        Some n \<Rightarrow> AList.update k (n + 1) counts
      | None \<Rightarrow> AList.update k 1 counts)"

text \<open>
  The update of the metrics document between the read and the write of
  \<open>_update_learning_metrics\<close>.
\<close>

definition bump_metrics :: "string \<Rightarrow> metrics \<Rightarrow> feedback_data \<Rightarrow> analysis \<Rightarrow> error + metrics" where
  "bump_metrics now m fd ar =
     (let n = total_feedback_count m + 1;
          current_total = average_rating m * of_int (n - 1);
          new_total = current_total + of_int (get_default (fb_rating fd) 0)
      in if n = 0 then Inl ZeroDivisionError
         else
           (case map_of (sentiment_distribution m) (sentiment ar) of
              None \<Rightarrow> Inl KeyError
            | Some c \<Rightarrow>
                Inr (m\<lparr>total_feedback_count := n,
                       average_rating := new_total / of_int n,
                       sentiment_distribution :=
                         AList.update (sentiment ar) (c + 1) (sentiment_distribution m),
                       m_improvement_areas :=
                         foldl count_tag (m_improvement_areas m) (improvement_areas ar),
                       m_strengths := foldl count_tag (m_strengths m) (strengths ar),
                       last_updated := now\<rparr>)))"

definition update_learning_metrics ::
  "'db db_service \<Rightarrow> string \<Rightarrow> 'db \<Rightarrow> feedback_data \<Rightarrow> analysis \<Rightarrow> 'db" where
  "update_learning_metrics svc now db fd ar =
     (case ebind (find_one_metrics svc db) (\<lambda>found.
             ebind (bump_metrics now (case found of None \<Rightarrow> initial_metrics now | Some m \<Rightarrow> m)
                      fd ar)
               (update_one_metrics svc db)) of
        Inl e \<Rightarrow> db
      | Inr db' \<Rightarrow> db')"

datatype feedback_result =
    Success "string option" analysis
  | Failure error

definition process_feedback ::
  "'db db_service \<Rightarrow> string \<Rightarrow> 'db \<Rightarrow> feedback_data \<Rightarrow> 'db \<times> feedback_result" where
  "process_feedback svc now db fd =
     (case store_feedback svc now db (fb_feedback_id fd) (fb_request_id fd) (fb_session_id fd)
             (fb_user_id fd) (fb_rating fd) (fb_feedback_type fd) (fb_comment fd)
             (fb_metadata fd) of
        Inl e \<Rightarrow> (db, Failure e)
      | Inr db1 \<Rightarrow>
          (let analysis_result = analyze_feedback fd
           in (update_learning_metrics svc now db1 fd analysis_result,
               Success (fb_feedback_id fd) analysis_result)))"

text \<open>
  \<open>get_learning_metrics\<close>: the stored document, or the zero default without one. An
  exception is reported in the result.
\<close>

definition get_learning_metrics :: "'db db_service \<Rightarrow> string \<Rightarrow> 'db \<Rightarrow> error + metrics" where
  "get_learning_metrics svc now db =
     ebind (find_one_metrics svc db) (\<lambda>found.
       Inr (case found of None \<Rightarrow> initial_metrics now | Some m \<Rightarrow> m))"

text \<open>
  \<open>DatabaseService\<close> of services/database.py, the class whose instance the protocol
  keeps as \<open>db_service\<close>, over the rows of its tables \<open>feedback\<close> and
  \<open>learning_metrics\<close>.

  \<^item> \<open>insert_data\<close> runs in a \<open>try\<close> whose \<open>except Exception\<close> returns -1, so it never
    raises. The document of \<open>store_feedback\<close> has the keys \<open>feedback_id\<close>,
    \<open>request_id\<close>, \<open>comment\<close> and \<open>timestamp\<close>, which are no columns of the table
    \<open>feedback\<close> (\<open>id\<close>, \<open>user_id\<close>, \<open>session_id\<close>, \<open>feedback_type\<close>, \<open>content\<close>,
    \<open>rating\<close>, \<open>metadata\<close>, \<open>created_at\<close>), and it has no \<open>content\<close>, which the
    table requires: the insert is refused, the method returns -1, and the table is as
    before.
  \<^item> \<open>find_one\<close> returns the first row that \<open>find_data\<close> selects and \<open>None\<close> without
    one; \<open>find_data\<close> returns the empty list on every exception. The rows of
    \<open>learning_metrics\<close> are kept here as the documents \<open>find_one\<close> would return.
  \<^item> The class defines \<open>insert_data\<close>, \<open>find_data\<close>, \<open>update_data\<close>, \<open>find_one\<close>,
    \<open>upsert\<close> and \<open>delete_data\<close>, and no \<open>update_one\<close>: the call
    \<open>self.db_service.update_one(...)\<close> raises \<open>AttributeError\<close>.
\<close>

record sql_db =
  feedback_rows :: "feedback_doc list"
  learning_metrics_rows :: "metrics list"

definition DatabaseService :: "sql_db db_service" where
  "DatabaseService =
     \<lparr>insert_data = (\<lambda>db collection doc. Inr db),
      find_one_metrics =
        (\<lambda>db. Inr (case learning_metrics_rows db of [] \<Rightarrow> None | m # rest \<Rightarrow> Some m)),
      update_one_metrics = (\<lambda>db m. Inl AttributeError)\<rparr>"

definition empty_sql_db :: sql_db where
  "empty_sql_db = \<lparr>feedback_rows = [], learning_metrics_rows = []\<rparr>"

text \<open>The three sentiments have a counter.\<close>

definition metrics_ok :: "metrics \<Rightarrow> bool" where
  "metrics_ok m =
     (map_of (sentiment_distribution m) ''positive'' \<noteq> None \<and>
      map_of (sentiment_distribution m) ''neutral'' \<noteq> None \<and>
      map_of (sentiment_distribution m) ''negative'' \<noteq> None \<and>
      total_feedback_count m \<ge> 0)"

text \<open>Examples.\<close>

definition rated :: "int \<Rightarrow> feedback_data" where
  "rated r =
     \<lparr>fb_feedback_id = Some ''f'', fb_request_id = Some ''r'', fb_session_id = None,
      fb_user_id = None, fb_rating = Some r, fb_feedback_type = Some ''accuracy'',
      fb_comment = None, fb_metadata = None\<rparr>"

text \<open>
  The three updates of the metrics document for three feedback records, each computed
  from the result of the one before: what the three calls of \<open>update_one\<close> are given
  when every write is kept.
\<close>

definition three_updates ::
  "string \<Rightarrow> string \<Rightarrow> string \<Rightarrow> feedback_data \<Rightarrow> feedback_data \<Rightarrow> feedback_data \<Rightarrow>
   error + metrics" where
  "three_updates t1 t2 t3 f1 f2 f3 =
     ebind (bump_metrics t1 (initial_metrics t1) f1 (analyze_feedback f1)) (\<lambda>m1.
     ebind (bump_metrics t2 m1 f2 (analyze_feedback f2)) (\<lambda>m2.
     bump_metrics t3 m2 f3 (analyze_feedback f3)))"

section \<open>Adaptive learning in memory (protocols/adaptive_learning.py)\<close>

text \<open>The feedback dict passed to \<open>process_feedback\<close>; \<open>None\<close> is an absent key.\<close>

record raw_feedback =
  rf_id :: "string option"
  rf_type :: "string option"
  rf_content :: "string option"
  rf_rating :: "int option"
  rf_request_id :: "string option"
  rf_user_id :: "string option"
  rf_tags :: "json option"
  rf_metadata :: "json option"
  rf_timestamp :: "string option"

record validated_feedback =
  vf_id :: string
  vf_type :: string
  vf_content :: string
  vf_rating :: int
  vf_request_id :: "string option"
  vf_user_id :: "string option"
  vf_tags :: "json option"
  vf_metadata :: "json option"
  vf_timestamp :: string

text \<open>
  \<open>_validate_feedback\<close>. \<open>stamp\<close> is the clock reading formatted for a generated id and
  \<open>now\<close> the ISO timestamp.
\<close>

definition validate_feedback :: "string \<Rightarrow> string \<Rightarrow> raw_feedback \<Rightarrow> validated_feedback" where
  "validate_feedback stamp now fb =
     \<lparr>vf_id = get_default (rf_id fb) (''feedback_'' @ stamp),
      vf_type = get_default (rf_type fb) ''general'',
      vf_content = get_default (rf_content fb) [],
      vf_rating = min (max (get_default (rf_rating fb) 5) 1) 5,
      vf_request_id = rf_request_id fb,
      vf_user_id = rf_user_id fb,
      vf_tags = rf_tags fb,
      vf_metadata = rf_metadata fb,
      vf_timestamp = get_default (rf_timestamp fb) now\<rparr>"

record feedback_analysis =
  an_sentiment :: json
  an_summary :: json
  an_confidence :: json
  an_aspects :: json

record suggestion =
  sg_id :: string
  sg_feedback_id :: string
  sg_area :: json
  sg_suggestion :: json
  sg_priority :: json
  sg_timestamp :: string
  sg_implemented :: bool

record adaptive_protocol =
  al_llm_service :: llm_service
  feedback_history :: "validated_feedback list"
  improvement_suggestions :: "suggestion list"
  al_last_feedback :: "(string \<times> string \<times> int) option"
  al_average_rating :: "rat option"
  al_execution_log :: "string list"

definition al_log_execution :: "string \<Rightarrow> adaptive_protocol \<Rightarrow> adaptive_protocol" where
  "al_log_execution step p = p\<lparr>al_execution_log := al_execution_log p @ [step]\<rparr>"

text \<open>\<open>_store_feedback\<close>: the history, the last-feedback entry and the average of the stored ratings.\<close>

definition adaptive_store_feedback :: "validated_feedback \<Rightarrow> adaptive_protocol \<Rightarrow> adaptive_protocol" where
  "adaptive_store_feedback v p =
     (let history = feedback_history p @ [v];
          ratings = map vf_rating history
      in p\<lparr>feedback_history := history,
           al_last_feedback := Some (vf_id v, vf_timestamp v, vf_rating v),
           al_average_rating :=
             Some (if ratings = [] then 0
                   else of_int (sum_list ratings) / of_nat (length ratings))\<rparr>)"

text \<open>The summaries and suggestion texts of the source, in UTF-8.\<close>

definition summary_satisfied :: string where
  "summary_satisfied =
     map char_of
      [0xEC, 0x82, 0xAC, 0xEC, 0x9A, 0xA9, 0xEC, 0x9E, 0x90, 0xEA, 0xB0, 0x80, 0x20,
       0xEC, 0x9D, 0x91, 0xEB, 0x8B, 0xB5, 0xEC, 0x97, 0x90, 0x20, 0xEB, 0xA7, 0x8C,
       0xEC, 0xA1, 0xB1, 0xED, 0x96, 0x88, 0xEC, 0x8A, 0xB5, 0xEB, 0x8B, 0x88, 0xEB,
       0x8B, 0xA4, 0x2E :: nat]"

definition summary_moderate :: string where
  "summary_moderate =
     map char_of
      [0xEC, 0x82, 0xAC, 0xEC, 0x9A, 0xA9, 0xEC, 0x9E, 0x90, 0xEA, 0xB0, 0x80, 0x20,
       0xEC, 0x9D, 0x91, 0xEB, 0x8B, 0xB5, 0xEC, 0x97, 0x90, 0x20, 0xEB, 0xB3, 0xB4,
       0xED, 0x86, 0xB5, 0x20, 0xEC, 0x88, 0x98, 0xEC, 0xA4, 0x80, 0xEC, 0x9C, 0xBC,
       0xEB, 0xA1, 0x9C, 0x20, 0xEB, 0xA7, 0x8C, 0xEC, 0xA1, 0xB1, 0xED, 0x96, 0x88,
       0xEC, 0x8A, 0xB5, 0xEB, 0x8B, 0x88, 0xEB, 0x8B, 0xA4, 0x2E :: nat]"

definition summary_dissatisfied :: string where
  "summary_dissatisfied =
     map char_of
      [0xEC, 0x82, 0xAC, 0xEC, 0x9A, 0xA9, 0xEC, 0x9E, 0x90, 0xEA, 0xB0, 0x80, 0x20,
       0xEC, 0x9D, 0x91, 0xEB, 0x8B, 0xB5, 0xEC, 0x97, 0x90, 0x20, 0xEB, 0xB6, 0x88,
       0xEB, 0xA7, 0x8C, 0xEC, 0xA1, 0xB1, 0xED, 0x96, 0x88, 0xEC, 0x8A, 0xB5, 0xEB,
       0x8B, 0x88, 0xEB, 0x8B, 0xA4, 0x2E :: nat]"

definition summary_no_text :: string where
  "summary_no_text =
     map char_of
      [0xED, 0x85, 0x8D, 0xEC, 0x8A, 0xA4, 0xED, 0x8A, 0xB8, 0x20, 0xED, 0x94, 0xBC,
       0xEB, 0x93, 0x9C, 0xEB, 0xB0, 0xB1, 0xEC, 0x9D, 0xB4, 0x20, 0xEC, 0x97, 0x86,
       0xEC, 0x8A, 0xB5, 0xEB, 0x8B, 0x88, 0xEB, 0x8B, 0xA4, 0x2E :: nat]"

definition summary_unavailable :: string where
  "summary_unavailable =
     map char_of
      [0xEB, 0xB6, 0x84, 0xEC, 0x84, 0x9D, 0x20, 0xEB, 0xB6, 0x88, 0xEA, 0xB0, 0x80 :: nat]"

definition summary_error :: string where
  "summary_error =
     map char_of
      [0xED, 0x94, 0xBC, 0xEB, 0x93, 0x9C, 0xEB, 0xB0, 0xB1, 0x20, 0xEB, 0xB6, 0x84,
       0xEC, 0x84, 0x9D, 0x20, 0xEC, 0xA4, 0x91, 0x20, 0xEC, 0x98, 0xA4, 0xEB, 0xA5,
       0x98, 0xEA, 0xB0, 0x80, 0x20, 0xEB, 0xB0, 0x9C, 0xEC, 0x83, 0x9D, 0xED, 0x96,
       0x88, 0xEC, 0x8A, 0xB5, 0xEB, 0x8B, 0x88, 0xEB, 0x8B, 0xA4, 0x2E :: nat]"

definition suggestion_unavailable :: string where
  "suggestion_unavailable =
     map char_of
      [0xEA, 0xB0, 0x9C, 0xEC, 0x84, 0xA0, 0x20, 0xEC, 0xA0, 0x9C, 0xEC, 0x95, 0x88,
       0xEC, 0x9D, 0x84, 0x20, 0xEC, 0x83, 0x9D, 0xEC, 0x84, 0xB1, 0xED, 0x95, 0xA0,
       0x20, 0xEC, 0x88, 0x98, 0x20, 0xEC, 0x97, 0x86, 0xEC, 0x8A, 0xB5, 0xEB, 0x8B,
       0x88, 0xEB, 0x8B, 0xA4, 0x2E :: nat]"

definition suggestion_default :: string where
  "suggestion_default =
     map char_of
      [0xEC, 0x82, 0xAC, 0xEC, 0x9A, 0xA9, 0xEC, 0x9E, 0x90, 0x20, 0xED, 0x94, 0xBC,
       0xEB, 0x93, 0x9C, 0xEB, 0xB0, 0xB1, 0xEC, 0x9D, 0x84, 0x20, 0xEA, 0xB8, 0xB0,
       0xEB, 0xB0, 0x98, 0xEC, 0x9C, 0xBC, 0xEB, 0xA1, 0x9C, 0x20, 0xEC, 0x9D, 0x91,
       0xEB, 0x8B, 0xB5, 0xEC, 0x9D, 0x98, 0x20, 0xED, 0x92, 0x88, 0xEC, 0xA7, 0x88,
       0xEC, 0x9D, 0x84, 0x20, 0xEA, 0xB0, 0x9C, 0xEC, 0x84, 0xA0, 0xED, 0x95, 0x98,
       0xEC, 0x84, 0xB8, 0xEC, 0x9A, 0x94, 0x2E :: nat]"

definition suggestion_error :: string where
  "suggestion_error =
     map char_of
      [0xEA, 0xB0, 0x9C, 0xEC, 0x84, 0xA0, 0x20, 0xEC, 0xA0, 0x9C, 0xEC, 0x95, 0x88,
       0xEC, 0x9D, 0x84, 0x20, 0xEC, 0x83, 0x9D, 0xEC, 0x84, 0xB1, 0xED, 0x95, 0x98,
       0xEB, 0x8A, 0x94, 0x20, 0xEC, 0xA4, 0x91, 0x20, 0xEC, 0x98, 0xA4, 0xEB, 0xA5,
       0x98, 0xEA, 0xB0, 0x80, 0x20, 0xEB, 0xB0, 0x9C, 0xEC, 0x83, 0x9D, 0xED, 0x96,
       0x88, 0xEC, 0x8A, 0xB5, 0xEB, 0x8B, 0x88, 0xEB, 0x8B, 0xA4, 0x2E :: nat]"

definition analyze_rating :: "validated_feedback \<Rightarrow> feedback_analysis" where
  "analyze_rating v =
     (if vf_rating v \<ge> 4
      then \<lparr>an_sentiment = JStr ''positive'', an_summary = JStr summary_satisfied,
            an_confidence = JNum (9 / 10), an_aspects = JObj []\<rparr>
      else if vf_rating v \<ge> 3
      then \<lparr>an_sentiment = JStr ''neutral'', an_summary = JStr summary_moderate,
            an_confidence = JNum (9 / 10), an_aspects = JObj []\<rparr>
      else \<lparr>an_sentiment = JStr ''negative'', an_summary = JStr summary_dissatisfied,
            an_confidence = JNum (9 / 10), an_aspects = JObj []\<rparr>)"

definition failed_analysis :: feedback_analysis where
  "failed_analysis =
     \<lparr>an_sentiment = JStr ''unknown'', an_summary = JStr summary_error,
      an_confidence = JNum (3 / 10), an_aspects = JObj []\<rparr>"

definition analyze_text_feedback ::
  "llm_backend \<Rightarrow> (string \<Rightarrow> json option) \<Rightarrow> llm_service \<Rightarrow> validated_feedback \<Rightarrow>
   feedback_analysis" where
  "analyze_text_feedback backend loads svc v =
     (if vf_content v = []
      then \<lparr>an_sentiment = JStr ''unknown'', an_summary = JStr summary_no_text,
            an_confidence = JNum (1 / 2), an_aspects = JObj []\<rparr>
      else
        (case backend svc (json_request (FeedbackAnalysis (vf_content v)) 500) of
           Inl e \<Rightarrow> failed_analysis
         | Inr text \<Rightarrow>
             (case loads text of
                Some (JObj parsed) \<Rightarrow>
                  \<lparr>an_sentiment = dict_get_default parsed ''sentiment'' (JStr ''unknown''),
                   an_summary = dict_get_default parsed ''summary'' (JStr summary_unavailable),
                   an_confidence = dict_get_default parsed ''confidence'' (JNum (1 / 2)),
                   an_aspects = dict_get_default parsed ''aspects'' (JObj [])\<rparr>
              | _ \<Rightarrow> failed_analysis)))"

text \<open>A value used as a number in arithmetic.\<close>

fun py_num :: "json \<Rightarrow> error + rat" where
  "py_num (JNum r) = Inr r"
| "py_num (JBool b) = Inr (if b then 1 else 0)"
| "py_num v = Inl TypeError"

definition analyze_general_feedback ::
  "llm_backend \<Rightarrow> (string \<Rightarrow> json option) \<Rightarrow> llm_service \<Rightarrow> validated_feedback \<Rightarrow>
   error + feedback_analysis" where
  "analyze_general_feedback backend loads svc v =
     (let rating_analysis = analyze_rating v in
      if vf_content v \<noteq> []
      then (let text_analysis = analyze_text_feedback backend loads svc v in
            ebind (py_num (an_confidence text_analysis)) (\<lambda>c.
              Inr \<lparr>an_sentiment = an_sentiment text_analysis,
                   an_summary = an_summary text_analysis,
                   an_confidence = JNum ((9 / 10 + c) / 2),
                   an_aspects = an_aspects text_analysis\<rparr>))
      else Inr rating_analysis)"

definition adaptive_analyze_feedback ::
  "llm_backend \<Rightarrow> (string \<Rightarrow> json option) \<Rightarrow> llm_service \<Rightarrow> validated_feedback \<Rightarrow>
   error + feedback_analysis" where
  "adaptive_analyze_feedback backend loads svc v =
     (if vf_type v = ''rating_only'' then Inr (analyze_rating v)
      else if vf_type v = ''text_feedback'' then Inr (analyze_text_feedback backend loads svc v)
      else analyze_general_feedback backend loads svc v)"

text \<open>
  \<open>_generate_improvement_suggestion\<close>. The prompt lists the keys of the aspects before
  the \<open>try\<close> block, which raises for truthy aspects that are no dict.
\<close>

definition generate_improvement_suggestion ::
  "llm_backend \<Rightarrow> (string \<Rightarrow> json option) \<Rightarrow> llm_service \<Rightarrow> string \<Rightarrow> string \<Rightarrow>
   validated_feedback \<Rightarrow> feedback_analysis \<Rightarrow> error + suggestion" where
  "generate_improvement_suggestion backend loads svc stamp now v a =
     ebind (if truthy (an_aspects a)
            then (case an_aspects a of
                    JObj kvs \<Rightarrow> Inr (JArr (map (\<lambda>kv. JStr (fst kv)) kvs))
                  | _ \<Rightarrow> Inl AttributeError)
            else Inr JNull) (\<lambda>aspects.
     let made = (\<lambda>area text priority.
                   \<lparr>sg_id = ''suggestion_'' @ stamp, sg_feedback_id = vf_id v,
                    sg_area = area, sg_suggestion = text, sg_priority = priority,
                    sg_timestamp = now, sg_implemented = False\<rparr>);
         failed = made (JStr ''general'') (JStr suggestion_error) (JStr ''low'')
     in Inr (case backend svc
                    (json_request
                       (ImprovementSuggestion (JStr (vf_content v)) (JNum (of_int (vf_rating v)))
                          (an_summary a) (an_sentiment a) aspects) 500) of
               Inl e \<Rightarrow> failed
             | Inr text \<Rightarrow>
                 (case loads text of
                    None \<Rightarrow> made (JStr ''general'') (JStr suggestion_default) (JStr ''medium'')
                  | Some (JObj parsed) \<Rightarrow>
                      made (dict_get_default parsed ''area'' (JStr ''general''))
                           (dict_get_default parsed ''suggestion'' (JStr suggestion_unavailable))
                           (dict_get_default parsed ''priority'' (JStr ''medium''))
                  | Some other \<Rightarrow> failed)))"

record processed =
  res_feedback_id :: string
  res_status :: string
  res_timestamp :: string
  res_analysis :: feedback_analysis

definition adaptive_process_feedback ::
  "llm_backend \<Rightarrow> (string \<Rightarrow> json option) \<Rightarrow> string \<Rightarrow> string \<Rightarrow> adaptive_protocol \<Rightarrow>
   raw_feedback \<Rightarrow> adaptive_protocol \<times> (error + processed)" where
  "adaptive_process_feedback backend loads stamp now p fb =
     (let p1 = al_log_execution ''feedback_processing_start'' p;
          validated = validate_feedback stamp now fb;
          p2 = adaptive_store_feedback validated p1;
          finish = (\<lambda>q analysis_result.
                      (al_log_execution ''feedback_processing_complete'' q,
                       Inr \<lparr>res_feedback_id = vf_id validated, res_status = ''processed'',
                            res_timestamp = now, res_analysis = analysis_result\<rparr>))
      in case adaptive_analyze_feedback backend loads (al_llm_service p2) validated of
           Inl e \<Rightarrow> (al_log_execution ''feedback_processing_error'' p2, Inl e)
         | Inr analysis_result \<Rightarrow>
             if get_default (rf_rating fb) 5 < 4
             then (case generate_improvement_suggestion backend loads (al_llm_service p2)
                          stamp now validated analysis_result of
                     Inl e \<Rightarrow> (al_log_execution ''feedback_processing_error'' p2, Inl e)
                   | Inr improvement \<Rightarrow>
                       finish (p2\<lparr>improvement_suggestions :=
                                    improvement_suggestions p2 @ [improvement]\<rparr>)
                              analysis_result)
             else finish p2 analysis_result)"

text \<open>Examples.\<close>

definition new_adaptive_protocol :: adaptive_protocol where
  "new_adaptive_protocol =
     \<lparr>al_llm_service = LLMService_init config_settings None, feedback_history = [],
      improvement_suggestions = [], al_last_feedback = None, al_average_rating = None,
      al_execution_log = []\<rparr>"

definition unrated_feedback :: raw_feedback where
  "unrated_feedback =
     \<lparr>rf_id = Some ''f1'', rf_type = Some ''rating_only'', rf_content = None,
      rf_rating = None, rf_request_id = None, rf_user_id = None, rf_tags = None,
      rf_metadata = None, rf_timestamp = None\<rparr>"

definition overrated_feedback :: raw_feedback where
  "overrated_feedback = unrated_feedback\<lparr>rf_rating := Some 9\<rparr>"

definition underrated_feedback :: raw_feedback where
  "underrated_feedback = unrated_feedback\<lparr>rf_rating := Some (- 2)\<rparr>"

definition fair_feedback :: raw_feedback where
  "fair_feedback = unrated_feedback\<lparr>rf_rating := Some 3\<rparr>"

text \<open>
  Feedback without a rating that carries text, and an LLM that reports a negative
  sentiment.
\<close>

definition unrated_text_feedback :: raw_feedback where
  "unrated_text_feedback =
     unrated_feedback\<lparr>rf_id := Some ''f2'', rf_type := Some ''text_feedback'',
                       rf_content := Some ''too slow''\<rparr>"

definition unrated_general_feedback :: raw_feedback where
  "unrated_general_feedback =
     unrated_feedback\<lparr>rf_id := Some ''f3'', rf_type := None,
                       rf_content := Some ''too slow''\<rparr>"

definition critic_backend :: llm_backend where
  "critic_backend svc req =
     (case req_prompt req of
        FeedbackAnalysis text \<Rightarrow> Inr ''negative reply''
      | _ \<Rightarrow> Inl (BackendError ''unavailable''))"

definition critic_loads :: "string \<Rightarrow> json option" where
  "critic_loads text =
     (if text = ''negative reply''
      then Some (JObj [(''sentiment'', JStr ''negative''), (''confidence'', JNum (8 / 10))])
      else None)"

section \<open>Properties of the knowledge stage\<close>

subsection \<open>The external-search decision\<close>




subsection \<open>Deduplication and ranking\<close>

lemma dedup_step_distinct:
  "distinct (map fst u) \<Longrightarrow> distinct (map fst (dedup_step u i))"
  by (auto simp: dedup_step_def distinct_update map_of_eq_None_iff split: option.splits)

lemma unique_info_snoc: "unique_info (xs @ [i]) = dedup_step (unique_info xs) i"
  by (simp add: unique_info_def)

lemma unique_info_distinct: "distinct (map fst (unique_info xs))"
proof (induction xs rule: rev_induct)
  case Nil
  show ?case by (simp add: unique_info_def)
next
  case (snoc i xs)
  then show ?case by (simp add: unique_info_snoc dedup_step_distinct)
qed

lemma map_of_dedup_step:
  "map_of (dedup_step u i) k =
     (if k = content i then
        (case map_of u k of
           None \<Rightarrow> Some i
         | Some old \<Rightarrow> if score i > score old then Some i else Some old)
      else map_of u k)"
proof (cases "map_of u (content i)")
  case None
  then show ?thesis
    by (simp add: dedup_step_def map_add_def split: option.splits)
next
  case (Some old)
  then show ?thesis
    by (simp add: dedup_step_def update_conv')
qed

lemma dedup_step_keys:
  "fst ` set (dedup_step u i) = insert (content i) (fst ` set u)"
proof (cases "map_of u (content i)")
  case None
  then show ?thesis by (simp add: dedup_step_def)
next
  case (Some old)
  then have "content i \<in> fst ` set u"
    by (metis map_of_eq_None_iff option.distinct(1))
  with Some show ?thesis
    by (auto simp: dedup_step_def update_keys simp flip: set_map)
qed

lemma unique_info_keys:
  "fst ` set (unique_info xs) = content ` set xs"
proof (induction xs rule: rev_induct)
  case Nil
  show ?case by (simp add: unique_info_def)
next
  case (snoc i xs)
  then show ?case by (simp add: unique_info_snoc dedup_step_keys)
qed

lemma unique_info_best:
  "map_of (unique_info xs) k = Some v \<Longrightarrow>
     v \<in> set xs \<and> content v = k \<and> (\<forall>i \<in> set xs. content i = k \<longrightarrow> score i \<le> score v)"
proof (induction xs arbitrary: v rule: rev_induct)
  case Nil
  then show ?case by (simp add: unique_info_def)
next
  case (snoc i xs)
  let ?u = "unique_info xs"
  from snoc.prems have step: "map_of (dedup_step ?u i) k = Some v"
    by (simp add: unique_info_snoc)
  show ?case
  proof (cases "k = content i")
    case False
    with step have "map_of ?u k = Some v" by (simp add: map_of_dedup_step)
    from snoc.IH[OF this] False show ?thesis by auto
  next
    case True
    show ?thesis
    proof (cases "map_of ?u k")
      case None
      with step True have vi: "v = i" by (simp add: map_of_dedup_step)
      have "content j \<noteq> k" if "j \<in> set xs" for j
      proof
        assume "content j = k"
        with that have "k \<in> content ` set xs" by auto
        moreover have "fst ` set ?u = content ` set xs"
          by (rule unique_info_keys)
        ultimately have "k \<in> fst ` set ?u" by simp
        with None show False by (simp add: map_of_eq_None_iff)
      qed
      with vi True show ?thesis by auto
    next
      case (Some old)
      from snoc.IH[OF Some] have old: "old \<in> set xs" "content old = k"
        "\<forall>j \<in> set xs. content j = k \<longrightarrow> score j \<le> score old" by auto
      show ?thesis
      proof (cases "score i > score old")
        case gt: True
        with step True Some have "v = i" by (simp add: map_of_dedup_step)
        with gt old True show ?thesis by fastforce
      next
        case le: False
        with step True Some have "v = old" by (simp add: map_of_dedup_step)
        with le old True show ?thesis by fastforce
      qed
    qed
  qed
qed


lemma set_sorted_reverse: "set (sorted_reverse f xs) = set xs"
  by (simp add: sorted_reverse_def)

lemma distinct_sorted_reverse: "distinct (sorted_reverse f xs) = distinct xs"
  by (simp add: sorted_reverse_def)

lemma sorted_reverse_descending:
  "sorted_wrt (\<lambda>a b. f a \<ge> f b) (sorted_reverse f xs)"
proof -
  have "sorted (map f (sort_key f (rev xs)))" by simp
  then have "sorted_wrt (\<lambda>a b. f a \<le> f b) (sort_key f (rev xs))"
    by (simp add: sorted_map)
  then show ?thesis
    by (simp add: sorted_reverse_def sorted_wrt_rev)
qed

lemma unique_info_content: "(k, v) \<in> set (unique_info xs) \<Longrightarrow> content v = k"
proof -
  assume "(k, v) \<in> set (unique_info xs)"
  then have "map_of (unique_info xs) k = Some v"
    by (simp add: unique_info_distinct)
  then show ?thesis by (simp add: unique_info_best)
qed

lemma unique_info_values_content:
  "map content (map snd (unique_info xs)) = map fst (unique_info xs)"
  by (auto simp: unique_info_content)

lemma set_deduplicate_and_rank:
  "e \<in> set (deduplicate_and_rank xs) \<longleftrightarrow> map_of (unique_info xs) (content e) = Some e"
proof
  assume "e \<in> set (deduplicate_and_rank xs)"
  then obtain k where "(k, e) \<in> set (unique_info xs)"
    by (auto simp: deduplicate_and_rank_def set_sorted_reverse)
  moreover from this have "content e = k" by (rule unique_info_content)
  ultimately show "map_of (unique_info xs) (content e) = Some e"
    by (simp add: unique_info_distinct)
next
  assume "map_of (unique_info xs) (content e) = Some e"
  then have "(content e, e) \<in> set (unique_info xs)" by (rule map_of_SomeD)
  then show "e \<in> set (deduplicate_and_rank xs)"
    by (force simp: deduplicate_and_rank_def set_sorted_reverse)
qed

lemma distinct_content_deduplicate_and_rank:
  "distinct (map content (deduplicate_and_rank xs))"
proof -
  have d: "distinct (map content (map snd (unique_info xs)))"
    by (simp only: unique_info_values_content unique_info_distinct)
  then have "distinct (map snd (unique_info xs))"
    and "inj_on content (set (map snd (unique_info xs)))"
    by (simp_all only: distinct_map)
  then show ?thesis
    by (simp only: deduplicate_and_rank_def distinct_map distinct_sorted_reverse
                   set_sorted_reverse simp_thms)
qed

lemma content_set_deduplicate_and_rank:
  "content ` set (deduplicate_and_rank xs) = content ` set xs"
proof -
  have "content ` set (deduplicate_and_rank xs) = set (map content (map snd (unique_info xs)))"
    by (simp only: deduplicate_and_rank_def set_sorted_reverse set_map)
  also have "\<dots> = fst ` set (unique_info xs)"
    by (simp only: unique_info_values_content set_map)
  finally show ?thesis by (simp add: unique_info_keys)
qed

text \<open>
  Claim C2. The list returned by \<open>_deduplicate_and_rank\<close> has no two entries with the
  same content, keeps exactly the contents of its input, each surviving entry is an
  input entry whose score is the maximum among the input entries with that content, and
  the list is in descending order of score.
\<close>

theorem deduplicate_and_rank_correct:
  "distinct (map content (deduplicate_and_rank xs)) \<and>
   content ` set (deduplicate_and_rank xs) = content ` set xs \<and>
   (\<forall>e \<in> set (deduplicate_and_rank xs).
      e \<in> set xs \<and> score e = Max {score i | i. i \<in> set xs \<and> content i = content e}) \<and>
   sorted_wrt (\<lambda>a b. score a \<ge> score b) (deduplicate_and_rank xs)"
proof -
  have "e \<in> set xs \<and> score e = Max {score i | i. i \<in> set xs \<and> content i = content e}"
    if "e \<in> set (deduplicate_and_rank xs)" for e
  proof -
    from that have "map_of (unique_info xs) (content e) = Some e"
      by (simp add: set_deduplicate_and_rank)
    from unique_info_best[OF this]
    have mem: "e \<in> set xs"
      and best: "\<forall>i \<in> set xs. content i = content e \<longrightarrow> score i \<le> score e"
      by auto
    have "Max {score i | i. i \<in> set xs \<and> content i = content e} = score e"
    proof (rule Max_eqI)
      show "finite {score i | i. i \<in> set xs \<and> content i = content e}" by simp
      show "y \<le> score e" if "y \<in> {score i | i. i \<in> set xs \<and> content i = content e}" for y
        using that best by auto
      show "score e \<in> {score i | i. i \<in> set xs \<and> content i = content e}"
        using mem by auto
    qed
    with mem show ?thesis by simp
  qed
  moreover have "sorted_wrt (\<lambda>a b. score a \<ge> score b) (deduplicate_and_rank xs)"
    unfolding deduplicate_and_rank_def by (rule sorted_reverse_descending)
  ultimately show ?thesis
    using distinct_content_deduplicate_and_rank content_set_deduplicate_and_rank by blast
qed

lemma sample_infos_ranked:
  "deduplicate_and_rank sample_infos =
     [\<lparr>content = ''b'', score = 9 / 10, source = ''web''\<rparr>,
      \<lparr>content = ''a'', score = 4 / 5, source = ''web''\<rparr>]"
  by (simp add: sample_infos_def deduplicate_and_rank_def unique_info_def dedup_step_def
                sorted_reverse_def)

theorem deduplicate_and_rank_witness:
  "deduplicate_and_rank sample_infos =
     [\<lparr>content = ''b'', score = 9 / 10, source = ''web''\<rparr>,
      \<lparr>content = ''a'', score = 4 / 5, source = ''web''\<rparr>] \<and>
   distinct (map content (deduplicate_and_rank sample_infos)) \<and>
   Max {score i | i. i \<in> set sample_infos \<and> content i = ''a''} = 4 / 5 \<and>
   Max {score i | i. i \<in> set sample_infos \<and> content i = ''b''} = 9 / 10"
proof -
  let ?a = "\<lparr>content = ''a'', score = 4 / 5, source = ''web''\<rparr>"
  let ?b = "\<lparr>content = ''b'', score = 9 / 10, source = ''web''\<rparr>"
  note inst = deduplicate_and_rank_correct [of sample_infos]
  have "?a \<in> set (deduplicate_and_rank sample_infos)"
    and "?b \<in> set (deduplicate_and_rank sample_infos)"
    by (simp_all add: sample_infos_ranked)
  with inst have "score ?a = Max {score i | i. i \<in> set sample_infos \<and> content i = content ?a}"
    and "score ?b = Max {score i | i. i \<in> set sample_infos \<and> content i = content ?b}"
    by blast+
  then have "Max {score i | i. i \<in> set sample_infos \<and> content i = ''a''} = 4 / 5"
    and "Max {score i | i. i \<in> set sample_infos \<and> content i = ''b''} = 9 / 10"
    by simp_all
  with inst sample_infos_ranked show ?thesis by blast
qed

section \<open>Properties of the generation backend adapter\<close>

lemma openai_choice_well_formed:
  "choices_well_formed result \<Longrightarrow> openai_choice result = Inr (choice_text result)"
  by (auto simp: choices_well_formed_def choice_text_def openai_choice_def ebind_def
           split: option.splits json.splits list.splits)

lemma openai_choice_total:
  "openai_choice result = Inr (choice_text result) \<or>
   openai_choice result = Inl TypeError \<or> openai_choice result = Inl KeyError"
proof (cases "map_of result ''choices''")
  case None
  then show ?thesis by (simp add: openai_choice_def choice_text_def)
next
  case (Some c)
  show ?thesis
  proof (cases c)
    case JNull
    with Some show ?thesis by (simp add: openai_choice_def ebind_def)
  next
    case (JBool b)
    with Some show ?thesis by (simp add: openai_choice_def ebind_def)
  next
    case (JNum n)
    with Some show ?thesis by (simp add: openai_choice_def ebind_def)
  next
    case (JStr s)
    with Some show ?thesis
      by (cases s) (auto simp: openai_choice_def ebind_def choice_text_def py_len_def)
  next
    case (JObj kvs)
    with Some show ?thesis
      by (cases kvs) (auto simp: openai_choice_def ebind_def choice_text_def)
  next
    case (JArr xs)
    show ?thesis
    proof (cases xs)
      case Nil
      with Some JArr show ?thesis by (simp add: openai_choice_def ebind_def choice_text_def)
    next
      case (Cons c0 rest)
      show ?thesis
      proof (cases c0)
        case (JObj kv)
        show ?thesis
        proof (cases "map_of kv ''message''")
          case None
          with Some JArr Cons JObj show ?thesis
            by (auto simp: openai_choice_def ebind_def choice_text_def split: option.splits)
        next
          case (Some m)
          with \<open>map_of result ''choices'' = Some c\<close> JArr Cons JObj show ?thesis
            by (cases m)
               (auto simp: openai_choice_def ebind_def choice_text_def split: option.splits)
        qed
      qed (use Some JArr Cons in
            \<open>auto simp: openai_choice_def ebind_def choice_text_def split: option.splits\<close>)
    qed
  qed
qed

lemma openai_choice_unsized:
  "map_of result ''choices'' = Some c \<Longrightarrow> c = JNull \<or> c = JBool b \<or> c = JNum n \<Longrightarrow>
   openai_choice result = Inl TypeError"
  by (auto simp: openai_choice_def ebind_def)

lemma openai_choice_object:
  "map_of result ''choices'' = Some (JObj (kv # kvs)) \<Longrightarrow> openai_choice result = Inl KeyError"
  by (simp add: openai_choice_def ebind_def)

lemma model_families:
  "gpt_family ascii_lower ''gpt-4''" "\<not> gpt_family ascii_lower ''claude-3''"
  "claude_family ascii_lower ''claude-3''"
  "\<not> gpt_family ascii_lower ''llama-2''" "\<not> claude_family ascii_lower ''llama-2''"
  "gpt_family ascii_lower ''OpenAI-X''"
  by code_simp+

text \<open>
  Claim C9, as the code has it, for every response, every model name and whatever
  \<open>str.lower\<close> and \<open>json.dumps\<close> compute. The probes depend on the requested model. For
  a model whose lower-cased name contains "openai" or "gpt" the \<open>completion\<close> field is
  not probed; the outcome is the message content of the first choice, else the \<open>text\<close>
  of the first choice, else the generic probes, or the exception \<open>TypeError\<close> or
  \<open>KeyError\<close>; it is a value whenever the \<open>choices\<close> entry is absent, an empty list, or
  a list whose first element is an object with no \<open>message\<close> or an object-valued one,
  and it is an exception when \<open>choices\<close> is null, a boolean, a number or a non-empty
  object. For another model whose name contains "anthropic" or "claude", the
  \<open>completion\<close> field is probed and the chat-completion shape is not. For every model
  the generic probes are \<open>text\<close>, \<open>generated_text\<close> and \<open>output\<close>, in this order, and
  the serialised response when none is present.
\<close>

theorem extract_generated_text_by_model:
  "(gpt_family lower model \<longrightarrow>
      extract_generated_text lower dumps result model =
        Inr (case choice_text result of
               Some v \<Rightarrow> v
             | None \<Rightarrow> generic_text dumps result) \<or>
      extract_generated_text lower dumps result model = Inl TypeError \<or>
      extract_generated_text lower dumps result model = Inl KeyError) \<and>
   (gpt_family lower model \<and> choices_well_formed result \<longrightarrow>
      extract_generated_text lower dumps result model =
        Inr (case choice_text result of
               Some v \<Rightarrow> v
             | None \<Rightarrow> generic_text dumps result)) \<and>
   (gpt_family lower model \<and> map_of result ''choices'' = Some c \<and>
    (c = JNull \<or> c = JBool b \<or> c = JNum n) \<longrightarrow>
      extract_generated_text lower dumps result model = Inl TypeError) \<and>
   (gpt_family lower model \<and> map_of result ''choices'' = Some (JObj (kv # kvs)) \<longrightarrow>
      extract_generated_text lower dumps result model = Inl KeyError) \<and>
   (\<not> gpt_family lower model \<and> claude_family lower model \<longrightarrow>
      extract_generated_text lower dumps result model =
        Inr (case map_of result ''completion'' of
               Some c \<Rightarrow> c
             | None \<Rightarrow> generic_text dumps result)) \<and>
   (\<not> gpt_family lower model \<and> \<not> claude_family lower model \<longrightarrow>
      extract_generated_text lower dumps result model = Inr (generic_text dumps result)) \<and>
   generic_text dumps result =
     (case map_of result ''text'' of
        Some t \<Rightarrow> t
      | None \<Rightarrow>
          (case map_of result ''generated_text'' of
             Some t \<Rightarrow> t
           | None \<Rightarrow>
               (case map_of result ''output'' of
                  Some t \<Rightarrow> t
                | None \<Rightarrow> JStr (dumps (JObj result)))))"
proof -
  have gpt: "extract_generated_text lower dumps result model =
               ebind (openai_choice result) (\<lambda>found.
                 case found of Some v \<Rightarrow> Inr v | None \<Rightarrow> Inr (generic_text dumps result))"
    if "gpt_family lower model"
    using that by (simp add: extract_generated_text_def gpt_family_def)
  have a: "extract_generated_text lower dumps result model =
        Inr (case choice_text result of
               Some v \<Rightarrow> v
             | None \<Rightarrow> generic_text dumps result) \<or>
      extract_generated_text lower dumps result model = Inl TypeError \<or>
      extract_generated_text lower dumps result model = Inl KeyError"
    if "gpt_family lower model"
    using openai_choice_total [of result]
    by (auto simp: gpt [OF that] ebind_def split: option.splits)
  have b: "extract_generated_text lower dumps result model =
        Inr (case choice_text result of
               Some v \<Rightarrow> v
             | None \<Rightarrow> generic_text dumps result)"
    if "gpt_family lower model" "choices_well_formed result"
    using that
    by (simp add: gpt openai_choice_well_formed ebind_def split: option.splits)
  have c: "extract_generated_text lower dumps result model = Inl TypeError"
    if "gpt_family lower model" "map_of result ''choices'' = Some c"
      "c = JNull \<or> c = JBool b \<or> c = JNum n"
    using that(1) openai_choice_unsized [OF that(2) that(3)] by (simp add: gpt ebind_def)
  have d: "extract_generated_text lower dumps result model = Inl KeyError"
    if "gpt_family lower model" "map_of result ''choices'' = Some (JObj (kv # kvs))"
    using that(1) openai_choice_object [OF that(2)] by (simp add: gpt ebind_def)
  have e: "extract_generated_text lower dumps result model =
        Inr (case map_of result ''completion'' of
               Some c \<Rightarrow> c
             | None \<Rightarrow> generic_text dumps result)"
    if "\<not> gpt_family lower model" "claude_family lower model"
    using that
    by (simp add: extract_generated_text_def gpt_family_def claude_family_def
             split: option.splits)
  have f: "extract_generated_text lower dumps result model = Inr (generic_text dumps result)"
    if "\<not> gpt_family lower model" "\<not> claude_family lower model"
    using that by (simp add: extract_generated_text_def gpt_family_def claude_family_def)
  have g: "generic_text dumps result =
     (case map_of result ''text'' of
        Some t \<Rightarrow> t
      | None \<Rightarrow>
          (case map_of result ''generated_text'' of
             Some t \<Rightarrow> t
           | None \<Rightarrow>
               (case map_of result ''output'' of
                  Some t \<Rightarrow> t
                | None \<Rightarrow> JStr (dumps (JObj result)))))"
    by (simp add: generic_text_def)
  from a b c d e f g show ?thesis by blast
qed

theorem extract_generated_text_witness:
  "extract_generated_text ascii_lower show_json chat_response ''gpt-4'' = Inr (JStr ''hi'') \<and>
   extract_generated_text ascii_lower show_json completion_and_text ''gpt-4'' = Inr (JStr ''B'') \<and>
   extract_generated_text ascii_lower show_json completion_and_text ''claude-3'' = Inr (JStr ''A'') \<and>
   extract_generated_text ascii_lower show_json unknown_response ''llama-2'' = Inr (JStr ''<json>'') \<and>
   extract_generated_text ascii_lower show_json legacy_response ''gpt-4'' = Inr (JStr ''legacy'') \<and>
   extract_generated_text ascii_lower show_json generated_response ''llama-2'' = Inr (JStr ''g'') \<and>
   extract_generated_text ascii_lower show_json output_response ''llama-2'' = Inr (JStr ''o'') \<and>
   extract_generated_text ascii_lower show_json empty_choices_response ''OpenAI-X'' =
     Inr (JStr ''t'') \<and>
   extract_generated_text ascii_lower show_json message_without_content ''gpt-4'' =
     Inr (JStr ''o'') \<and>
   extract_generated_text ascii_lower show_json numeric_choices_response ''gpt-4'' =
     Inl TypeError \<and>
   extract_generated_text ascii_lower show_json object_choices_response ''gpt-4'' =
     Inl KeyError"
proof -
  note fam = model_families
  have wf: "choices_well_formed chat_response" "choices_well_formed completion_and_text"
    "choices_well_formed legacy_response" "choices_well_formed empty_choices_response"
    "choices_well_formed message_without_content"
    by (simp_all add: choices_well_formed_def chat_response_def completion_and_text_def
                      legacy_response_def empty_choices_response_def
                      message_without_content_def)
  have ct: "choice_text chat_response = Some (JStr ''hi'')"
    "choice_text completion_and_text = None"
    "choice_text legacy_response = Some (JStr ''legacy'')"
    "choice_text empty_choices_response = None"
    "choice_text message_without_content = None"
    by (simp_all add: choice_text_def chat_response_def completion_and_text_def
                      legacy_response_def empty_choices_response_def
                      message_without_content_def)
  have gen: "generic_text show_json completion_and_text = JStr ''B''"
    "generic_text show_json unknown_response = JStr ''<json>''"
    "generic_text show_json generated_response = JStr ''g''"
    "generic_text show_json output_response = JStr ''o''"
    "generic_text show_json empty_choices_response = JStr ''t''"
    "generic_text show_json message_without_content = JStr ''o''"
    by (simp_all add: generic_text_def completion_and_text_def unknown_response_def
                      generated_response_def output_response_def show_json_def
                      empty_choices_response_def message_without_content_def)
  have comp: "map_of completion_and_text ''completion'' = Some (JStr ''A'')"
    by (simp add: completion_and_text_def)
  have nc: "map_of numeric_choices_response ''choices'' = Some (JNum 3)"
    "map_of object_choices_response ''choices'' = Some (JObj ((''a'', JNull) # []))"
    by (simp_all add: numeric_choices_response_def object_choices_response_def)
  from extract_generated_text_by_model [of ascii_lower "''gpt-4''" show_json chat_response]
       fam wf ct
  have 1: "extract_generated_text ascii_lower show_json chat_response ''gpt-4'' =
             Inr (JStr ''hi'')"
    by simp
  from extract_generated_text_by_model
         [of ascii_lower "''gpt-4''" show_json completion_and_text]
       fam wf ct gen
  have 2: "extract_generated_text ascii_lower show_json completion_and_text ''gpt-4'' =
             Inr (JStr ''B'')"
    by simp
  from extract_generated_text_by_model
         [of ascii_lower "''claude-3''" show_json completion_and_text]
       fam comp
  have 3: "extract_generated_text ascii_lower show_json completion_and_text ''claude-3'' =
             Inr (JStr ''A'')"
    by simp
  from extract_generated_text_by_model
         [of ascii_lower "''llama-2''" show_json unknown_response]
       fam gen
  have 4: "extract_generated_text ascii_lower show_json unknown_response ''llama-2'' =
             Inr (JStr ''<json>'')"
    by simp
  from extract_generated_text_by_model
         [of ascii_lower "''gpt-4''" show_json legacy_response]
       fam wf ct
  have 5: "extract_generated_text ascii_lower show_json legacy_response ''gpt-4'' =
             Inr (JStr ''legacy'')"
    by simp
  from extract_generated_text_by_model
         [of ascii_lower "''llama-2''" show_json generated_response]
       fam gen
  have 6: "extract_generated_text ascii_lower show_json generated_response ''llama-2'' =
             Inr (JStr ''g'')"
    by simp
  from extract_generated_text_by_model
         [of ascii_lower "''llama-2''" show_json output_response]
       fam gen
  have 7: "extract_generated_text ascii_lower show_json output_response ''llama-2'' =
             Inr (JStr ''o'')"
    by simp
  from extract_generated_text_by_model
         [of ascii_lower "''OpenAI-X''" show_json empty_choices_response]
       fam wf ct gen
  have 8: "extract_generated_text ascii_lower show_json empty_choices_response ''OpenAI-X'' =
             Inr (JStr ''t'')"
    by simp
  from extract_generated_text_by_model
         [of ascii_lower "''gpt-4''" show_json message_without_content]
       fam wf ct gen
  have 9: "extract_generated_text ascii_lower show_json message_without_content ''gpt-4'' =
             Inr (JStr ''o'')"
    by simp
  from extract_generated_text_by_model
         [of ascii_lower "''gpt-4''" show_json numeric_choices_response "JNum 3" _ 3]
       fam nc
  have 10: "extract_generated_text ascii_lower show_json numeric_choices_response ''gpt-4'' =
              Inl TypeError"
    by simp
  from extract_generated_text_by_model
         [of ascii_lower "''gpt-4''" show_json object_choices_response _ _ _
             "(''a'', JNull)" "[]"]
       fam nc
  have 11: "extract_generated_text ascii_lower show_json object_choices_response ''gpt-4'' =
              Inl KeyError"
    by simp
  from 1 2 3 4 5 6 7 8 9 10 11 show ?thesis by simp
qed

text \<open>
  The order is not the same for every model: on the response
  \<open>{"completion": "A", "text": "B"}\<close> a gpt model yields "B" and a claude model "A", and
  a chat-completion response requested with a claude model is returned serialised, where
  the single fixed order of the specification yields its message content. A response
  whose \<open>choices\<close> entry is a number makes the extraction raise for a gpt model.
\<close>

theorem extract_generated_text_model_dependent:
  "extract_generated_text ascii_lower show_json completion_and_text ''gpt-4'' =
     Inr (JStr ''B'') \<and>
   extract_generated_text ascii_lower show_json completion_and_text ''claude-3'' =
     Inr (JStr ''A'') \<and>
   spec_extract show_json completion_and_text = JStr ''A'' \<and>
   extract_generated_text ascii_lower show_json chat_response ''claude-3'' =
     Inr (JStr ''<json>'') \<and>
   spec_extract show_json chat_response = JStr ''hi'' \<and>
   extract_generated_text ascii_lower show_json numeric_choices_response ''gpt-4'' =
     Inl TypeError"
  by (simp add: extract_generated_text_def completion_and_text_def chat_response_def
                ascii_lower_def lower_char_def openai_choice_def ebind_def generic_text_def
                spec_extract_def chat_content_def show_json_def
                numeric_choices_response_def)

section \<open>Properties of the generation stage\<close>

subsection \<open>Parameter precedence\<close>

lemma map_add_upd_left: "m(k \<mapsto> v) ++ n = m ++ ([k \<mapsto> v] ++ n)"
  by (rule ext) (simp add: map_add_def split: option.splits)

lemma key_map_setitem: "key_map (py_setitem d k v) = (key_map d)(norm_key k \<mapsto> v)"
proof (induction d)
  case Nil
  show ?case by (simp add: key_map_def)
next
  case (Cons kv d)
  obtain k' v' where kv: "kv = (k', v')" by (cases kv)
  show ?case
  proof (cases "norm_key k' = norm_key k")
    case True
    with kv show ?thesis by (auto simp: key_map_def)
  next
    case False
    with kv Cons.IH show ?thesis
      by (auto simp: key_map_def fun_upd_twist)
  qed
qed

lemma key_map_snoc: "key_map (kvs @ [kv]) = [norm_key (fst kv) \<mapsto> snd kv] ++ key_map kvs"
  by (simp add: key_map_def)

lemma key_map_set_items: "key_map (set_items d kvs) = key_map d ++ key_map (rev kvs)"
proof (induction kvs arbitrary: d)
  case Nil
  show ?case by (simp add: set_items_def key_map_def)
next
  case (Cons kv kvs)
  have "key_map (set_items d (kv # kvs)) =
          key_map (set_items (py_setitem d (fst kv) (snd kv)) kvs)"
    by (simp add: set_items_def)
  also have "\<dots> = (key_map d)(norm_key (fst kv) \<mapsto> snd kv) ++ key_map (rev kvs)"
    by (simp only: Cons.IH key_map_setitem)
  also have "\<dots> = key_map d ++ ([norm_key (fst kv) \<mapsto> snd kv] ++ key_map (rev kvs))"
    by (rule map_add_upd_left)
  also have "[norm_key (fst kv) \<mapsto> snd kv] ++ key_map (rev kvs) = key_map (rev (kv # kvs))"
    by (simp add: key_map_snoc)
  finally show ?case .
qed

lemma update_with_options:
  "truthy (dict_get d ''options'') \<Longrightarrow> update_with params (dict_get d ''options'') = Inr r \<Longrightarrow>
     key_map r = key_map params ++ options_of d"
  by (auto simp: update_with_def options_of_def key_map_set_items ebind_def
           split: sum.splits)

lemma options_of_falsy: "\<not> truthy (dict_get d ''options'') \<Longrightarrow> options_of d = Map.empty"
  by (simp add: options_of_def)

lemma key_map_hint:
  "key_map (if truthy (dict_get d k) then py_setitem params (JStr name) (dict_get d k)
            else params) =
     key_map params ++ hint d k name"
  by (simp add: hint_def key_map_setitem map_add_upd_left flip: map_add_upd_left)

lemma prepare_generation_params_layers:
  assumes "prepare_generation_params prompt rr kc ctx = Inr params"
  shows "key_map params =
           context_defaults ctx ++ reasoning_hints rr ++ knowledge_hints kc ++ options_of ctx"
proof -
  let ?p0 = "[(JStr ''format'', dict_get_default ctx ''format'' (JStr ''text'')),
              (JStr ''domain'', dict_get ctx ''domain'')]"
  let ?p1 = "if truthy (dict_get rr ''suggested_format'')
             then py_setitem ?p0 (JStr ''format'') (dict_get rr ''suggested_format'') else ?p0"
  let ?p2 = "if truthy (dict_get rr ''tone'')
             then py_setitem ?p1 (JStr ''tone'') (dict_get rr ''tone'') else ?p1"
  let ?p3 = "if truthy (dict_get kc ''sources'')
             then py_setitem ?p2 (JStr ''sources'') (dict_get kc ''sources'') else ?p2"
  have p0: "key_map ?p0 = context_defaults ctx"
    by (rule ext) (simp add: context_defaults_def key_map_def)
  have p3: "key_map ?p3 = context_defaults ctx ++ reasoning_hints rr ++ knowledge_hints kc"
    by (simp only: key_map_hint p0 reasoning_hints_def knowledge_hints_def map_add_assoc)
  show ?thesis
  proof (cases "truthy (dict_get ctx ''options'')")
    case True
    with assms have "update_with ?p3 (dict_get ctx ''options'') = Inr params"
      by (simp add: prepare_generation_params_def Let_def)
    from update_with_options[OF True this] p3 show ?thesis by simp
  next
    case False
    with assms have "params = ?p3"
      by (simp add: prepare_generation_params_def Let_def)
    with p3 options_of_falsy[OF False] show ?thesis by simp
  qed
qed

lemma apply_llm_config_options:
  assumes "apply_llm_config ctx params cfg = Inr s"
  shows "key_map (s_options s) = key_map params ++ override_options cfg"
proof (cases cfg)
  case None
  with assms show ?thesis by (auto simp: apply_llm_config_def override_options_def)
next
  case (Some c)
  show ?thesis
  proof (cases "c = []")
    case True
    with Some assms show ?thesis
      by (auto simp: apply_llm_config_def override_options_def options_of_def dict_get_def)
  next
    case False
    show ?thesis
    proof (cases "truthy (dict_get c ''options'')")
      case t: True
      with Some False assms obtain opts where
        "update_with params (dict_get c ''options'') = Inr opts" "s_options s = opts"
        by (auto simp: apply_llm_config_def Let_def ebind_def split: sum.splits if_splits)
      with update_with_options[OF t] Some show ?thesis
        by (simp add: override_options_def)
    next
      case f: False
      with Some False assms have "s_options s = params"
        by (auto simp: apply_llm_config_def Let_def split: if_splits)
      with options_of_falsy[OF f] Some show ?thesis
        by (simp add: override_options_def)
    qed
  qed
qed

lemma apply_llm_config_scalars:
  assumes "apply_llm_config ctx params cfg = Inr s"
  shows "s_temperature s =
           (if override_value cfg ''temperature'' \<noteq> JNull then override_value cfg ''temperature''
            else dict_get_default ctx ''temperature'' (JNum (7 / 10)))"
    and "s_max_tokens s =
           (if truthy (override_value cfg ''max_tokens'') then override_value cfg ''max_tokens''
            else dict_get_default ctx ''max_tokens'' (JNum 1000))"
    and "s_model s = override_value cfg ''model''"
  using assms
  by (auto simp: apply_llm_config_def Let_def ebind_def override_value_def dict_get_def
           split: option.splits if_splits sum.splits)

lemma foldl_add_option:
  "pl_temperature (foldl add_option pl options) = pl_temperature pl \<and>
   pl_max_tokens (foldl add_option pl options) = pl_max_tokens pl \<and>
   pl_model (foldl add_option pl options) = pl_model pl"
  by (induction options arbitrary: pl) (simp_all add: add_option_def)

lemma prepare_payload_scalars:
  "pl_temperature (prepare_payload pr max_tokens temperature model options) = temperature"
  "pl_max_tokens (prepare_payload pr max_tokens temperature model options) = max_tokens"
  "pl_model (prepare_payload pr max_tokens temperature model options) = model"
  by (simp_all add: prepare_payload_def Let_def foldl_add_option split: option.splits)

lemma generate_begin_request:
  assumes "prepare_generation_params prompt rr kc ctx = Inr params"
    and "apply_llm_config ctx params cfg = Inr s"
    and "build_enhanced_prompt prompt rr kc = Inr enhanced"
  shows "map_sum id pc_request (snd (generate_begin st p prompt rr kc ctx cfg key)) =
           Inr \<lparr>gr_prompt = enhanced, gr_max_tokens = s_max_tokens s,
                gr_temperature = s_temperature s, gr_model = s_model s,
                gr_options = s_options s\<rparr>"
  using assms by (simp add: generate_begin_def Let_def)

lemma generate_raises_before_call:
  "prepare_generation_params prompt rr kc ctx = Inl e \<Longrightarrow>
     snd (generate backend st now p prompt rr kc ctx cfg key) = Inl e"
  "prepare_generation_params prompt rr kc ctx = Inr params \<Longrightarrow>
   apply_llm_config ctx params cfg = Inl e \<Longrightarrow>
     snd (generate backend st now p prompt rr kc ctx cfg key) = Inl e"
  by (simp_all add: generate_def generate_begin_def resume_def Let_def)

text \<open>
  Claim C4, as the code has it. The parameters of a call of \<open>generate\<close> that reaches the
  backend are resolved in two groups that do not mix. The options dict is built with the
  precedence context format and domain < reasoning hints < knowledge hints < the
  context's options < the override's options, merged key by key, the override's
  options on top. The temperature, max_tokens and model are resolved apart: the value
  of the context (default 0.7, 1000, none) is replaced by the override's own
  temperature (when not \<open>None\<close>), max_tokens (when truthy) and model, and by nothing
  else; an entry of either options map named \<open>temperature\<close> or \<open>max_tokens\<close> stays in
  the options dict, and the payload built from the request keeps the resolved value. A
  call whose options cannot be merged raises. In the example of the specification the
  request runs with temperature 0.2 and its options hold tone "formal" and x = 1.
\<close>

theorem generation_parameter_precedence:
  "(prepare_generation_params prompt rr kc ctx = Inr params \<and>
    apply_llm_config ctx params cfg = Inr s \<longrightarrow>
      key_map (s_options s) = options_layers ctx rr kc cfg \<and>
      s_temperature s =
        (if override_value cfg ''temperature'' \<noteq> JNull then override_value cfg ''temperature''
         else dict_get_default ctx ''temperature'' (JNum (7 / 10))) \<and>
      s_max_tokens s =
        (if truthy (override_value cfg ''max_tokens'') then override_value cfg ''max_tokens''
         else dict_get_default ctx ''max_tokens'' (JNum 1000)) \<and>
      s_model s = override_value cfg ''model'' \<and>
      (build_enhanced_prompt prompt rr kc = Inr enhanced \<longrightarrow>
         map_sum id pc_request (snd (generate_begin st p prompt rr kc ctx cfg key)) =
           Inr \<lparr>gr_prompt = enhanced, gr_max_tokens = s_max_tokens s,
                gr_temperature = s_temperature s, gr_model = s_model s,
                gr_options = s_options s\<rparr>)) \<and>
   pl_temperature (prepare_payload pr max_tokens temperature model options) = temperature \<and>
   pl_max_tokens (prepare_payload pr max_tokens temperature model options) = max_tokens \<and>
   pl_model (prepare_payload pr max_tokens temperature model options) = model \<and>
   (prepare_generation_params prompt rr kc ctx = Inl e \<longrightarrow>
      snd (generate backend st now p prompt rr kc ctx cfg key) = Inl e) \<and>
   (prepare_generation_params prompt rr kc ctx = Inr params \<and>
    apply_llm_config ctx params cfg = Inl e \<longrightarrow>
      snd (generate backend st now p prompt rr kc ctx cfg key) = Inl e)"
proof -
  have a: "key_map (s_options s) = options_layers ctx rr kc cfg \<and>
      s_temperature s =
        (if override_value cfg ''temperature'' \<noteq> JNull then override_value cfg ''temperature''
         else dict_get_default ctx ''temperature'' (JNum (7 / 10))) \<and>
      s_max_tokens s =
        (if truthy (override_value cfg ''max_tokens'') then override_value cfg ''max_tokens''
         else dict_get_default ctx ''max_tokens'' (JNum 1000)) \<and>
      s_model s = override_value cfg ''model'' \<and>
      (build_enhanced_prompt prompt rr kc = Inr enhanced \<longrightarrow>
         map_sum id pc_request (snd (generate_begin st p prompt rr kc ctx cfg key)) =
           Inr \<lparr>gr_prompt = enhanced, gr_max_tokens = s_max_tokens s,
                gr_temperature = s_temperature s, gr_model = s_model s,
                gr_options = s_options s\<rparr>)"
    if prep: "prepare_generation_params prompt rr kc ctx = Inr params"
      and app: "apply_llm_config ctx params cfg = Inr s"
  proof -
    have "key_map (s_options s) = options_layers ctx rr kc cfg"
      by (simp add: apply_llm_config_options[OF app] prepare_generation_params_layers[OF prep]
                    options_layers_def)
    with apply_llm_config_scalars[OF app] generate_begin_request[OF prep app]
    show ?thesis by simp
  qed
  note b = prepare_payload_scalars [of pr max_tokens temperature model options]
  have c: "snd (generate backend st now p prompt rr kc ctx cfg key) = Inl e"
    if "prepare_generation_params prompt rr kc ctx = Inl e"
    using that by (rule generate_raises_before_call(1))
  have d: "snd (generate backend st now p prompt rr kc ctx cfg key) = Inl e"
    if "prepare_generation_params prompt rr kc ctx = Inr params"
      "apply_llm_config ctx params cfg = Inl e"
    using that by (rule generate_raises_before_call(2))
  show ?thesis
    apply (intro conjI)
         apply (intro impI, elim conjE, erule (1) a)
        apply (rule b(1))
       apply (rule b(2))
      apply (rule b(3))
     apply (intro impI, erule c)
    apply (intro impI, elim conjE, erule (1) d)
    done
qed

lemma example_resolution:
  "prepare_generation_params ''q'' example_reasoning [] example_context = Inr example_params"
  "apply_llm_config example_context example_params (Some example_override) = Inr example_sampling"
  by (simp_all add: prepare_generation_params_def example_reasoning_def example_context_def
        example_params_def example_override_def example_sampling_def apply_llm_config_def
        dict_get_def dict_get_default_def Let_def update_with_def pairs_of_def set_items_def
        ebind_def)

lemma example_enhanced:
  "build_enhanced_prompt ''q'' example_reasoning [] = Inr (Enhanced ''q'' [] [])"
  by (simp add: build_enhanced_prompt_def dict_get_def example_reasoning_def ebind_def)

lemma example_paired_options:
  "prepare_generation_params ''q'' [] [] paired_options_context =
     Inr [(JStr ''format'', JStr ''text''), (JStr ''domain'', JNull), (JStr ''x'', JNum 1),
          (JBool True, JStr ''b'')]"
  by (simp add: prepare_generation_params_def paired_options_context_def dict_get_def
        dict_get_default_def Let_def update_with_def pairs_of_def pair_of_def set_items_def
        ebind_def)

theorem generation_parameter_precedence_witness:
  "s_temperature example_sampling = JNum (2 / 10) \<and>
   options_layers example_context example_reasoning [] (Some example_override)
     (JStr ''tone'') = Some (JStr ''formal'') \<and>
   options_layers example_context example_reasoning [] (Some example_override)
     (JStr ''x'') = Some (JNum 1) \<and>
   map_sum id pc_request
     (snd (generate_begin config_settings (ContentGenerationProtocol_init config_settings)
             ''q'' example_reasoning [] example_context (Some example_override) None)) =
     Inr \<lparr>gr_prompt = Enhanced ''q'' [] [], gr_max_tokens = JNum 1000,
          gr_temperature = JNum (2 / 10), gr_model = JNull,
          gr_options = [(JStr ''format'', JStr ''text''), (JStr ''domain'', JNull),
                        (JStr ''tone'', JStr ''formal''), (JStr ''x'', JNum 1)]\<rparr> \<and>
   snd (generate expecting_backend config_settings ''t''
          (ContentGenerationProtocol_init config_settings) ''q'' example_reasoning []
          example_context (Some example_override) None) = Inr ''ok'' \<and>
   options_layers paired_options_context [] [] None (JNum 1) = Some (JStr ''b'') \<and>
   snd (generate echo_backend config_settings ''t''
          (ContentGenerationProtocol_init config_settings) ''q'' [] []
          [(''options'', JNum 5)] None None) = Inl TypeError"
proof -
  note inst = generation_parameter_precedence
         [of "''q''" example_reasoning "[]" example_context example_params
             "Some example_override" example_sampling "Enhanced ''q'' [] []" config_settings
             "ContentGenerationProtocol_init config_settings" None]
  from inst example_resolution
  have m: "key_map (s_options example_sampling) =
             options_layers example_context example_reasoning [] (Some example_override)"
    and t: "s_temperature example_sampling =
              (if override_value (Some example_override) ''temperature'' \<noteq> JNull
               then override_value (Some example_override) ''temperature''
               else dict_get_default example_context ''temperature'' (JNum (7 / 10)))"
    by blast+
  from inst example_resolution example_enhanced
  have r: "map_sum id pc_request
     (snd (generate_begin config_settings (ContentGenerationProtocol_init config_settings)
             ''q'' example_reasoning [] example_context (Some example_override) None)) =
     Inr \<lparr>gr_prompt = Enhanced ''q'' [] [], gr_max_tokens = s_max_tokens example_sampling,
          gr_temperature = s_temperature example_sampling, gr_model = s_model example_sampling,
          gr_options = s_options example_sampling\<rparr>"
    by blast
  from t have 1: "s_temperature example_sampling = JNum (2 / 10)"
    by (simp add: override_value_def example_override_def dict_get_def)
  from m [symmetric]
  have 2: "options_layers example_context example_reasoning [] (Some example_override)
             (JStr ''tone'') = Some (JStr ''formal'')"
    and 3: "options_layers example_context example_reasoning [] (Some example_override)
             (JStr ''x'') = Some (JNum 1)"
    by (simp_all add: example_sampling_def key_map_def)
  from r have 4: "map_sum id pc_request
     (snd (generate_begin config_settings (ContentGenerationProtocol_init config_settings)
             ''q'' example_reasoning [] example_context (Some example_override) None)) =
     Inr \<lparr>gr_prompt = Enhanced ''q'' [] [], gr_max_tokens = JNum 1000,
          gr_temperature = JNum (2 / 10), gr_model = JNull,
          gr_options = [(JStr ''format'', JStr ''text''), (JStr ''domain'', JNull),
                        (JStr ''tone'', JStr ''formal''), (JStr ''x'', JNum 1)]\<rparr>"
    by (simp add: example_sampling_def)
  have 5: "snd (generate expecting_backend config_settings ''t''
          (ContentGenerationProtocol_init config_settings) ''q'' example_reasoning []
          example_context (Some example_override) None) = Inr ''ok''"
    by (simp add: generate_def generate_begin_def resume_def generate_end_def
          example_resolution example_enhanced Let_def key_override_def
          expecting_backend_def example_sampling_def py_lookup_def key_map_def)
  note inst2 = generation_parameter_precedence
         [of "''q''" "[]" "[]" paired_options_context
             "[(JStr ''format'', JStr ''text''), (JStr ''domain'', JNull), (JStr ''x'', JNum 1),
               (JBool True, JStr ''b'')]" None
             "\<lparr>s_model = JNull, s_max_tokens = JNum 1000, s_temperature = JNum (7 / 10),
               s_options = [(JStr ''format'', JStr ''text''), (JStr ''domain'', JNull),
                            (JStr ''x'', JNum 1), (JBool True, JStr ''b'')]\<rparr>"]
  have ap: "apply_llm_config paired_options_context
              [(JStr ''format'', JStr ''text''), (JStr ''domain'', JNull), (JStr ''x'', JNum 1),
               (JBool True, JStr ''b'')] None =
            Inr \<lparr>s_model = JNull, s_max_tokens = JNum 1000, s_temperature = JNum (7 / 10),
                 s_options = [(JStr ''format'', JStr ''text''), (JStr ''domain'', JNull),
                              (JStr ''x'', JNum 1), (JBool True, JStr ''b'')]\<rparr>"
    by (simp add: apply_llm_config_def paired_options_context_def dict_get_default_def)
  from inst2 [THEN conjunct1, THEN mp, OF conjI, OF example_paired_options ap,
              THEN conjunct1, symmetric]
  have 6: "options_layers paired_options_context [] [] None (JNum 1) = Some (JStr ''b'')"
    by (simp add: key_map_def)
  have pe: "prepare_generation_params ''q'' [] [] [(''options'', JNum 5)] = Inl TypeError"
    by (simp add: prepare_generation_params_def dict_get_def dict_get_default_def Let_def
          update_with_def pairs_of_def ebind_def)
  from generation_parameter_precedence
         [of "''q''" "[]" "[]" "[(''options'', JNum 5)]" _ None _ _ config_settings
             "ContentGenerationProtocol_init config_settings" None _ _ _ _ _ TypeError
             echo_backend "''t''",
          THEN conjunct2, THEN conjunct2, THEN conjunct2, THEN conjunct2, THEN conjunct1,
          THEN mp, OF pe]
  have 7: "snd (generate echo_backend config_settings ''t''
          (ContentGenerationProtocol_init config_settings) ''q'' [] []
          [(''options'', JNum 5)] None None) = Inl TypeError"
    by this
  from 1 2 3 4 5 6 7 show ?thesis by simp
qed

text \<open>
  The options maps do not rank above the context's temperature. With the context
  \<open>{temperature: 0.7, options: {temperature: 0.1}}\<close> and no override, and with the context
  \<open>{temperature: 0.7}\<close> and the override \<open>{options: {temperature: 0.1}}\<close>, the request
  has temperature 0.7; the entry 0.1 is in its options dict, and the payload built from
  the request has temperature 0.7 and leaves the entry out.
\<close>

theorem options_do_not_set_temperature:
  "map_sum id pc_request
     (snd (generate_begin config_settings (ContentGenerationProtocol_init config_settings)
             ''q'' [] [] options_temperature_context None None)) =
     Inr options_temperature_request \<and>
   map_sum id pc_request
     (snd (generate_begin config_settings (ContentGenerationProtocol_init config_settings)
             ''q'' [] [] example_context (Some options_temperature_override) None)) =
     Inr options_temperature_request \<and>
   gr_temperature options_temperature_request = JNum (7 / 10) \<and>
   py_lookup (gr_options options_temperature_request) (JStr ''temperature'') =
     Some (JNum (1 / 10)) \<and>
   options_layers options_temperature_context [] [] None (JStr ''temperature'') =
     Some (JNum (1 / 10)) \<and>
   pl_temperature
     (request_payload (LLMService_init config_settings None) options_temperature_request) =
     JNum (7 / 10) \<and>
   pl_extra
     (request_payload (LLMService_init config_settings None) options_temperature_request) =
     [(JStr ''domain'', JNull)]"
proof -
  have 1: "map_sum id pc_request
     (snd (generate_begin config_settings (ContentGenerationProtocol_init config_settings)
             ''q'' [] [] options_temperature_context None None)) =
     Inr options_temperature_request"
    by (simp add: generate_begin_def prepare_generation_params_def apply_llm_config_def
          build_enhanced_prompt_def options_temperature_context_def
          options_temperature_request_def dict_get_def dict_get_default_def Let_def
          update_with_def pairs_of_def set_items_def ebind_def key_override_def)
  have 2: "map_sum id pc_request
     (snd (generate_begin config_settings (ContentGenerationProtocol_init config_settings)
             ''q'' [] [] example_context (Some options_temperature_override) None)) =
     Inr options_temperature_request"
    by (simp add: generate_begin_def prepare_generation_params_def apply_llm_config_def
          build_enhanced_prompt_def example_context_def options_temperature_override_def
          options_temperature_request_def dict_get_def dict_get_default_def Let_def
          update_with_def pairs_of_def set_items_def ebind_def key_override_def)
  have 3: "gr_temperature options_temperature_request = JNum (7 / 10)"
    "py_lookup (gr_options options_temperature_request) (JStr ''temperature'') =
       Some (JNum (1 / 10))"
    by (simp_all add: options_temperature_request_def py_lookup_def key_map_def)
  have 4: "options_layers options_temperature_context [] [] None (JStr ''temperature'') =
     Some (JNum (1 / 10))"
    by (simp add: options_layers_def options_of_def override_options_def
          options_temperature_context_def dict_get_def pairs_of_def key_map_def)
  have 5: "request_payload (LLMService_init config_settings None) options_temperature_request =
     \<lparr>pl_model = JStr ''gpt-3.5-turbo'',
      pl_system_content = JStr ''You are a helpful assistant.'',
      pl_user_content = Enhanced ''q'' [] [], pl_max_tokens = JNum 1000,
      pl_temperature = JNum (7 / 10), pl_response_format = None,
      pl_extra = [(JStr ''domain'', JNull)]\<rparr>"
    by (simp add: request_payload_def prepare_payload_def options_temperature_request_def
          Let_def py_lookup_def key_map_def add_option_def payload_has_key_def
          LLMService_init_def config_settings_def get_default_def key_override_def)
  from 1 2 3 4 5 show ?thesis by simp
qed

subsection \<open>The credential override\<close>

text \<open>
  A call during which no other call runs on the instance puts the stored key back,
  when it is not the empty string.
\<close>

lemma generate_keeps_stored_key:
  assumes "api_key (gp_llm_service p) \<noteq> []"
  shows "gp_llm_service (fst (generate backend st now p prompt rr kc ctx cfg key)) =
           gp_llm_service p"
proof (cases "key_override key")
  case None
  then show ?thesis
    by (simp add: generate_def generate_begin_def resume_def generate_end_def Let_def
          swap_api_key_def restore_api_key_def key_override_def
          gp_log_execution_def store_generation_history_def split: sum.splits)
next
  case (Some k)
  with assms show ?thesis
    by (simp add: generate_def generate_begin_def resume_def generate_end_def Let_def
          swap_api_key_def restore_api_key_def key_override_def
          gp_log_execution_def store_generation_history_def split: sum.splits)
qed

lemma init_key:
  "api_key (gp_llm_service (ContentGenerationProtocol_init st)) =
     get_default (LLM_API_KEY st) ''sk-test''"
  by (simp add: ContentGenerationProtocol_init_def LLMService_init_def key_override_def Let_def)

lemma begin_with_override:
  "generate_begin config_settings p prompt [] [] [] None (Some (c # cs)) =
     (gp_log_execution ''generation_start'' p
        \<lparr>gp_llm_service := (gp_llm_service p)\<lparr>api_key := c # cs\<rparr>\<rparr>,
      Inr \<lparr>pc_original_api_key = Some (api_key (gp_llm_service p)),
           pc_service = LLMService_init config_settings (Some (c # cs)),
           pc_request =
             \<lparr>gr_prompt = Enhanced prompt [] [], gr_max_tokens = JNum 1000,
              gr_temperature = JNum (7 / 10), gr_model = JNull,
              gr_options = [(JStr ''format'', JStr ''text''), (JStr ''domain'', JNull)]\<rparr>,
           pc_prompt = prompt, pc_context = []\<rparr>)"
  by (simp add: generate_begin_def prepare_generation_params_def apply_llm_config_def
        build_enhanced_prompt_def dict_get_def dict_get_default_def Let_def ebind_def
        key_override_def swap_api_key_def gp_log_execution_def)

lemma begin_without_override:
  "generate_begin config_settings p prompt [] [] [] None None =
     (gp_log_execution ''generation_start'' p,
      Inr \<lparr>pc_original_api_key = None,
           pc_service = gp_llm_service p,
           pc_request =
             \<lparr>gr_prompt = Enhanced prompt [] [], gr_max_tokens = JNum 1000,
              gr_temperature = JNum (7 / 10), gr_model = JNull,
              gr_options = [(JStr ''format'', JStr ''text''), (JStr ''domain'', JNull)]\<rparr>,
           pc_prompt = prompt, pc_context = []\<rparr>)"
  by (simp add: generate_begin_def prepare_generation_params_def apply_llm_config_def
        build_enhanced_prompt_def dict_get_def dict_get_default_def Let_def ebind_def
        key_override_def swap_api_key_def gp_log_execution_def)

text \<open>
  Claim C5, on the code. The instance is the one the constructor builds, with the
  stored key "sk-test". A call that runs alone puts the stored key back, on the normal
  and on the raising path. Two calls that overlap do not: when a call with the
  override "sk-A" is suspended in \<open>generate_text\<close> and a call with the override "sk-B"
  begins and the first call ends before the second, each call reaches the backend with
  its own key, and after both have returned the stored key is "sk-A"; the same holds
  when both calls raise. A call without an override that begins while the first is
  suspended calls the backend on the stored service, whose key is then "sk-A".
\<close>

theorem overlapping_calls_leak_override:
  "api_key (gp_llm_service (ContentGenerationProtocol_init config_settings)) = ''sk-test'' \<and>
   api_key (gp_llm_service (fst (generate echo_backend config_settings ''t''
          (ContentGenerationProtocol_init config_settings) ''q'' [] [] [] None
          (Some ''sk-A'')))) = ''sk-test'' \<and>
   api_key (gp_llm_service (fst (generate unavailable_backend config_settings ''t''
          (ContentGenerationProtocol_init config_settings) ''q'' [] [] [] None
          (Some ''sk-A'')))) = ''sk-test'' \<and>
   snd (overlapping echo_backend config_settings ''t''
          (ContentGenerationProtocol_init config_settings) ''qa'' (Some ''sk-A'')
          ''qb'' (Some ''sk-B'')) = (Inr ''sk-A'', Inr ''sk-B'') \<and>
   api_key (gp_llm_service (fst (overlapping echo_backend config_settings ''t''
          (ContentGenerationProtocol_init config_settings) ''qa'' (Some ''sk-A'')
          ''qb'' (Some ''sk-B'')))) = ''sk-A'' \<and>
   api_key (gp_llm_service (fst (overlapping unavailable_backend config_settings ''t''
          (ContentGenerationProtocol_init config_settings) ''qa'' (Some ''sk-A'')
          ''qb'' (Some ''sk-B'')))) = ''sk-A'' \<and>
   snd (overlapping echo_backend config_settings ''t''
          (ContentGenerationProtocol_init config_settings) ''qa'' (Some ''sk-A'')
          ''qb'' None) = (Inr ''sk-A'', Inr ''sk-A'')"
proof -
  have 1: "api_key (gp_llm_service (ContentGenerationProtocol_init config_settings)) =
             ''sk-test''"
    by (simp add: init_key config_settings_def get_default_def)
  then have ne: "api_key (gp_llm_service (ContentGenerationProtocol_init config_settings)) \<noteq> []"
    by simp
  have k: "api_key (LLMService_init config_settings (Some (c # cs))) = c # cs" for c cs
    by (simp add: LLMService_init_def key_override_def Let_def)
  have 4: "snd (overlapping echo_backend config_settings ''t''
          (ContentGenerationProtocol_init config_settings) ''qa'' (Some ''sk-A'')
          ''qb'' (Some ''sk-B'')) = (Inr ''sk-A'', Inr ''sk-B'')"
    by (simp add: overlapping_def Let_def begin_with_override resume_def generate_end_def
          echo_backend_def k)
  have 5: "api_key (gp_llm_service (fst (overlapping echo_backend config_settings ''t''
          (ContentGenerationProtocol_init config_settings) ''qa'' (Some ''sk-A'')
          ''qb'' (Some ''sk-B'')))) = ''sk-A''"
    by (simp add: overlapping_def Let_def begin_with_override resume_def generate_end_def
          echo_backend_def restore_api_key_def key_override_def gp_log_execution_def
          store_generation_history_def 1)
  have 6: "api_key (gp_llm_service (fst (overlapping unavailable_backend config_settings ''t''
          (ContentGenerationProtocol_init config_settings) ''qa'' (Some ''sk-A'')
          ''qb'' (Some ''sk-B'')))) = ''sk-A''"
    by (simp add: overlapping_def Let_def begin_with_override resume_def generate_end_def
          unavailable_backend_def restore_api_key_def key_override_def gp_log_execution_def
          1)
  have 7: "snd (overlapping echo_backend config_settings ''t''
          (ContentGenerationProtocol_init config_settings) ''qa'' (Some ''sk-A'')
          ''qb'' None) = (Inr ''sk-A'', Inr ''sk-A'')"
    by (simp add: overlapping_def Let_def begin_with_override begin_without_override
          resume_def generate_end_def echo_backend_def k gp_log_execution_def)
  from 1 generate_keeps_stored_key [OF ne] 4 5 6 7 show ?thesis by simp
qed

text \<open>
  The \<open>finally\<close> block tests the saved key for truthiness. An instance whose stored key
  is the empty string, which the constructor produces only when the configured default
  key is itself empty, keeps the override after a call that runs alone.
\<close>

lemma generate_empty_stored_key:
  "api_key (gp_llm_service p) = [] \<Longrightarrow>
   api_key (gp_llm_service (fst (generate echo_backend config_settings now p ''q'' [] [] []
          None (Some ''sk-user'')))) = ''sk-user''"
  by (simp add: generate_def begin_with_override resume_def generate_end_def Let_def
        echo_backend_def restore_api_key_def key_override_def
        gp_log_execution_def store_generation_history_def)

section \<open>Properties of the reasoning stage\<close>

lemma llm_json_parse_fails:
  "parse_fails backend loads svc req \<Longrightarrow> llm_json backend loads svc req dflt = dflt"
  by (simp add: parse_fails_def llm_json_def split: sum.splits)

lemma analyze_fallback:
  "analyze_chain backend loads st self_service query kc key = Inl e \<Longrightarrow>
     analyze backend loads st self_service query kc key = fallback_result"
  by (simp add: analyze_def)

text \<open>What a completed chain returns, step by step.\<close>

lemma analyze_chain_Inr:
  assumes "analyze_chain backend loads st self_service query kc key = Inr (r, steps)"
  defines "svc \<equiv> service_for st self_service key"
  defines "ra \<equiv> analyze_request backend loads svc query"
  shows "\<exists>ke kp rp intent domain complexity sufficiency points fmt tone structure.
           evaluate_knowledge backend loads svc query kc = Inr ke \<and>
           extract_key_points backend loads svc query kc ra = Inr kp \<and>
           plan_response backend loads svc query kp ra = Inr rp \<and>
           py_get ra ''intent'' JNull = Inr intent \<and>
           py_get ra ''domain'' JNull = Inr domain \<and>
           py_get ra ''complexity'' JNull = Inr complexity \<and>
           py_get ke ''sufficiency'' JNull = Inr sufficiency \<and>
           py_get kp ''points'' (JArr []) = Inr points \<and>
           py_get rp ''format'' JNull = Inr fmt \<and>
           py_get rp ''tone'' JNull = Inr tone \<and>
           py_get rp ''structure'' JNull = Inr structure \<and>
           r = [(''intent'', intent), (''domain'', domain), (''complexity'', complexity),
                (''knowledge_sufficiency'', sufficiency), (''key_points'', points),
                (''suggested_format'', fmt), (''tone'', tone), (''structure'', structure)] \<and>
           steps = [(''request_analysis'', ra), (''knowledge_evaluation'', ke),
                    (''key_points_extraction'', kp), (''response_planning'', rp)]"
  using assms(1) unfolding analyze_chain_def Let_def ebind_def svc_def ra_def
  by (simp split: sum.splits)


lemma chain_key_points:
  assumes "analyze_chain backend loads st self_service query kc key = Inr (r, steps)"
  shows "\<exists>kp. extract_key_points backend loads (service_for st self_service key) query kc
                (analyze_request backend loads (service_for st self_service key) query) = Inr kp \<and>
              py_get kp ''points'' (JArr []) = Inr (dict_get r ''key_points'')"
  using analyze_chain_Inr[OF assms] by (auto simp: dict_get_def)

lemma chain_plan:
  assumes "analyze_chain backend loads st self_service query kc key = Inr (r, steps)"
  shows "\<exists>kp rp. extract_key_points backend loads (service_for st self_service key) query kc
                (analyze_request backend loads (service_for st self_service key) query) = Inr kp \<and>
              plan_response backend loads (service_for st self_service key) query kp
                (analyze_request backend loads (service_for st self_service key) query) = Inr rp \<and>
              py_get rp ''format'' JNull = Inr (dict_get r ''suggested_format'') \<and>
              py_get rp ''tone'' JNull = Inr (dict_get r ''tone'') \<and>
              py_get rp ''structure'' JNull = Inr (dict_get r ''structure'')"
  using analyze_chain_Inr[OF assms] by (auto simp: dict_get_def)

lemma analyze_cases:
  "analyze backend loads st self_service query kc key = fallback_result \<or>
   (\<exists>r steps. analyze_chain backend loads st self_service query kc key = Inr (r, steps) \<and>
      analyze backend loads st self_service query kc key = r)"
  by (cases "analyze_chain backend loads st self_service query kc key")
     (auto simp: analyze_def)

lemma fallback_fields:
  "dict_get fallback_result ''intent'' = JStr ''unknown''"
  "dict_get fallback_result ''domain'' = JStr ''general''"
  "dict_get fallback_result ''complexity'' = JStr ''medium''"
  "dict_get fallback_result ''knowledge_sufficiency'' = JStr ''unknown''"
  "dict_get fallback_result ''key_points'' = JArr []"
  "dict_get fallback_result ''suggested_format'' = JStr ''text''"
  "dict_get fallback_result ''tone'' = JStr ''neutral''"
  "dict_get fallback_result ''structure'' = JStr ''default''"
  by (simp_all add: fallback_result_def dict_get_def)

lemma step1_default:
  assumes "parse_fails backend loads (service_for st self_service key) (step1_request query)"
  shows "dict_get (analyze backend loads st self_service query kc key) ''intent'' = JStr ''unknown'' \<and>
         dict_get (analyze backend loads st self_service query kc key) ''domain'' = JStr ''general'' \<and>
         dict_get (analyze backend loads st self_service query kc key) ''complexity'' = JStr ''medium''"
proof -
  from assms have ra: "analyze_request backend loads (service_for st self_service key) query =
      request_analysis_default"
    by (simp add: analyze_request_def step1_request_def llm_json_parse_fails)
  from analyze_cases[of backend loads st self_service query kc key] show ?thesis
  proof
    assume "analyze backend loads st self_service query kc key = fallback_result"
    then show ?thesis by (simp add: fallback_fields)
  next
    assume "\<exists>r steps. analyze_chain backend loads st self_service query kc key = Inr (r, steps) \<and>
      analyze backend loads st self_service query kc key = r"
    then obtain r steps where
      c: "analyze_chain backend loads st self_service query kc key = Inr (r, steps)"
      and a: "analyze backend loads st self_service query kc key = r" by blast
    from analyze_chain_Inr[OF c] ra a show ?thesis
      by (auto simp: request_analysis_default_def dict_get_def dict_get_default_def)
  qed
qed

lemma step2_default:
  assumes "truthy (dict_get kc ''relevant_info'')" and "knowledge_text kc = Inr kt"
    and "parse_fails backend loads (service_for st self_service key) (step2_request query kt)"
  shows "dict_get (analyze backend loads st self_service query kc key) ''knowledge_sufficiency'' =
           JStr ''unknown''"
proof -
  from assms have ke: "evaluate_knowledge backend loads (service_for st self_service key) query kc =
      Inr knowledge_evaluation_default"
    by (simp add: evaluate_knowledge_def step2_request_def llm_json_parse_fails ebind_def)
  from analyze_cases[of backend loads st self_service query kc key] show ?thesis
  proof
    assume "analyze backend loads st self_service query kc key = fallback_result"
    then show ?thesis by (simp add: fallback_fields)
  next
    assume "\<exists>r steps. analyze_chain backend loads st self_service query kc key = Inr (r, steps) \<and>
      analyze backend loads st self_service query kc key = r"
    then obtain r steps where
      c: "analyze_chain backend loads st self_service query kc key = Inr (r, steps)"
      and a: "analyze backend loads st self_service query kc key = r" by blast
    from analyze_chain_Inr[OF c] ke a show ?thesis
      by (auto simp: knowledge_evaluation_default_def dict_get_def dict_get_default_def)
  qed
qed

lemma extract_key_points_default:
  assumes "issued_step3 backend loads svc query kc = Inr req"
    and "parse_fails backend loads svc req"
  shows "extract_key_points backend loads svc query kc (analyze_request backend loads svc query) =
           Inr key_points_default"
  using assms
  by (auto simp: issued_step3_def extract_key_points_def ebind_def step3_request_def Let_def
        llm_json_parse_fails split: sum.splits)

lemma step3_default:
  assumes "issued_step3 backend loads (service_for st self_service key) query kc = Inr req"
    and "parse_fails backend loads (service_for st self_service key) req"
  shows "dict_get (analyze backend loads st self_service query kc key) ''key_points'' = JArr []"
proof -
  from analyze_cases[of backend loads st self_service query kc key] show ?thesis
  proof
    assume "analyze backend loads st self_service query kc key = fallback_result"
    then show ?thesis by (simp add: fallback_fields)
  next
    assume "\<exists>r steps. analyze_chain backend loads st self_service query kc key = Inr (r, steps) \<and>
      analyze backend loads st self_service query kc key = r"
    then obtain r steps where
      c: "analyze_chain backend loads st self_service query kc key = Inr (r, steps)"
      and a: "analyze backend loads st self_service query kc key = r" by blast
    from chain_key_points[OF c] obtain kp where
      e: "extract_key_points backend loads (service_for st self_service key) query kc
            (analyze_request backend loads (service_for st self_service key) query) = Inr kp"
      and g: "py_get kp ''points'' (JArr []) = Inr (dict_get r ''key_points'')" by blast
    from extract_key_points_default[OF assms] e have "kp = key_points_default" by simp
    with g a show ?thesis
      by (simp add: key_points_default_def dict_get_default_def)
  qed
qed

lemma plan_response_default:
  assumes "issued_step4 backend loads svc query kc = Inr req"
    and "parse_fails backend loads svc req"
    and "extract_key_points backend loads svc query kc (analyze_request backend loads svc query) =
           Inr kp"
  shows "plan_response backend loads svc query kp (analyze_request backend loads svc query) =
           Inr response_plan_default"
  using assms
  by (auto simp: issued_step4_def plan_response_def ebind_def step4_request_def Let_def
        llm_json_parse_fails split: sum.splits)

lemma step4_default:
  assumes "issued_step4 backend loads (service_for st self_service key) query kc = Inr req"
    and "parse_fails backend loads (service_for st self_service key) req"
  shows "dict_get (analyze backend loads st self_service query kc key) ''suggested_format'' =
           JStr ''text'' \<and>
         dict_get (analyze backend loads st self_service query kc key) ''tone'' = JStr ''neutral'' \<and>
         dict_get (analyze backend loads st self_service query kc key) ''structure'' =
           JStr ''default''"
proof -
  from analyze_cases[of backend loads st self_service query kc key] show ?thesis
  proof
    assume "analyze backend loads st self_service query kc key = fallback_result"
    then show ?thesis by (simp add: fallback_fields)
  next
    assume "\<exists>r steps. analyze_chain backend loads st self_service query kc key = Inr (r, steps) \<and>
      analyze backend loads st self_service query kc key = r"
    then obtain r steps where
      c: "analyze_chain backend loads st self_service query kc key = Inr (r, steps)"
      and a: "analyze backend loads st self_service query kc key = r" by blast
    from chain_plan[OF c] obtain kp rp where
      k: "extract_key_points backend loads (service_for st self_service key) query kc
            (analyze_request backend loads (service_for st self_service key) query) = Inr kp"
      and e: "plan_response backend loads (service_for st self_service key) query kp
            (analyze_request backend loads (service_for st self_service key) query) = Inr rp"
      and g: "py_get rp ''format'' JNull = Inr (dict_get r ''suggested_format'')"
             "py_get rp ''tone'' JNull = Inr (dict_get r ''tone'')"
             "py_get rp ''structure'' JNull = Inr (dict_get r ''structure'')" by blast
    from plan_response_default[OF assms k] e have "rp = response_plan_default" by simp
    with g a show ?thesis
      by (simp add: response_plan_default_def dict_get_default_def)
  qed
qed

lemma analyze_complete: "map fst (analyze backend loads st self_service query kc key) = result_keys"
proof -
  from analyze_cases[of backend loads st self_service query kc key] show ?thesis
  proof
    assume "analyze backend loads st self_service query kc key = fallback_result"
    then show ?thesis by (simp add: fallback_result_def result_keys_def)
  next
    assume "\<exists>r steps. analyze_chain backend loads st self_service query kc key = Inr (r, steps) \<and>
      analyze backend loads st self_service query kc key = r"
    then obtain r steps where
      c: "analyze_chain backend loads st self_service query kc key = Inr (r, steps)"
      and a: "analyze backend loads st self_service query kc key = r" by blast
    from analyze_chain_Inr[OF c] a show ?thesis
      by (auto simp: result_keys_def)
  qed
qed


subsection \<open>A parse failure does not abort the chain\<close>

lemma object_reply_defaults:
  "object_reply request_analysis_default" "object_reply knowledge_evaluation_default"
  "object_reply key_points_default" "object_reply response_plan_default"
  by (simp_all add: object_reply_def request_analysis_default_def
        knowledge_evaluation_default_def key_points_default_def response_plan_default_def)

lemma llm_json_object:
  assumes "\<forall>text v. loads text = Some v \<longrightarrow> object_reply v" and "object_reply dflt"
  shows "object_reply (llm_json backend loads svc req dflt)"
  using assms by (auto simp: llm_json_def split: sum.splits option.splits)

lemma object_reply_get: "object_reply v \<Longrightarrow> \<exists>w. py_get v k d = Inr w"
  by (cases v) (simp_all add: object_reply_def)

lemma object_reply_points:
  "object_reply v \<Longrightarrow> \<exists>xs. py_get v ''points'' (JArr []) = Inr (JArr xs)"
  by (cases v) (auto simp: object_reply_def dict_get_default_def split: option.splits json.splits)

lemma py_iter_length: "py_iter v = Inr xs \<Longrightarrow> \<exists>n. py_length v = Inr n"
  by (cases v) simp_all

lemma knowledge_text_length:
  assumes "knowledge_text kc = Inr kt"
  shows "\<exists>n. py_length (dict_get_default kc ''relevant_info'' (JArr [])) = Inr n"
proof -
  from assms obtain xs where "py_iter (dict_get_default kc ''relevant_info'' (JArr [])) = Inr xs"
    by (auto simp: knowledge_text_def py_join_def ebind_def split: sum.splits)
  then show ?thesis by (rule py_iter_length)
qed

lemma analyze_chain_completes:
  assumes obj: "\<forall>text v. loads text = Some v \<longrightarrow> object_reply v"
    and kt: "knowledge_text kc = Inr kt"
  shows "\<exists>r steps. analyze_chain backend loads st self_service query kc key = Inr (r, steps) \<and>
           map fst steps = [''request_analysis'', ''knowledge_evaluation'',
                            ''key_points_extraction'', ''response_planning'']"
proof -
  let ?svc = "service_for st self_service key"
  let ?ra = "analyze_request backend loads ?svc query"
  have ra: "object_reply ?ra"
    unfolding analyze_request_def by (rule llm_json_object[OF obj object_reply_defaults(1)])
  from knowledge_text_length[OF kt] obtain n where
    n: "py_length (dict_get_default kc ''relevant_info'' (JArr [])) = Inr n" by blast
  have "\<exists>ke. evaluate_knowledge backend loads ?svc query kc = Inr ke \<and> object_reply ke"
  proof (cases "truthy (dict_get kc ''relevant_info'')")
    case False
    then show ?thesis by (simp add: evaluate_knowledge_def object_reply_def)
  next
    case True
    with kt have "evaluate_knowledge backend loads ?svc query kc =
        Inr (llm_json backend loads ?svc (json_request (KnowledgeEvaluation query kt) 300)
               knowledge_evaluation_default)"
      by (simp add: evaluate_knowledge_def ebind_def)
    with llm_json_object[OF obj object_reply_defaults(2)] show ?thesis by simp
  qed
  then obtain ke where ke: "evaluate_knowledge backend loads ?svc query kc = Inr ke"
    and keo: "object_reply ke" by blast
  from object_reply_get[OF ra] obtain i d c where
    i: "py_get ?ra ''intent'' (JStr ''unknown'') = Inr i"
    and d: "py_get ?ra ''domain'' (JStr ''general'') = Inr d"
    and c: "py_get ?ra ''complexity'' (JStr ''medium'') = Inr c" by metis
  have "extract_key_points backend loads ?svc query kc ?ra =
      Inr (llm_json backend loads ?svc (json_request (KeyPointExtraction query i d c kt) 500)
             key_points_default)"
    by (simp add: extract_key_points_def ebind_def kt i d c)
  with llm_json_object[OF obj object_reply_defaults(3)]
  obtain kp where kp: "extract_key_points backend loads ?svc query kc ?ra = Inr kp"
    and kpo: "object_reply kp" by simp
  from object_reply_points[OF kpo] obtain xs where
    pts: "py_get kp ''points'' (JArr []) = Inr (JArr xs)" by blast
  have "plan_response backend loads ?svc query kp ?ra =
      Inr (llm_json backend loads ?svc (json_request (ResponsePlanning query i d c xs) 400)
             response_plan_default)"
    by (simp add: plan_response_def ebind_def pts i d c)
  with llm_json_object[OF obj object_reply_defaults(4)]
  obtain rp where rp: "plan_response backend loads ?svc query kp ?ra = Inr rp"
    and rpo: "object_reply rp" by simp
  from object_reply_get[OF ra] obtain i' d' c' where
    g1: "py_get ?ra ''intent'' JNull = Inr i'" "py_get ?ra ''domain'' JNull = Inr d'"
        "py_get ?ra ''complexity'' JNull = Inr c'" by metis
  from object_reply_get[OF keo] obtain su where
    g2: "py_get ke ''sufficiency'' JNull = Inr su" by metis
  from object_reply_get[OF rpo] obtain f t s where
    g3: "py_get rp ''format'' JNull = Inr f" "py_get rp ''tone'' JNull = Inr t"
        "py_get rp ''structure'' JNull = Inr s" by metis
  show ?thesis
    by (simp add: analyze_chain_def Let_def ebind_def n ke kp rp g1 g2 g3 pts)
qed

text \<open>
  What holds of the degradation. \<open>analyze\<close> always returns a result dict with its eight
  keys. When the reply to one step fails JSON parsing, the fields of the result that
  come from that step hold that step's defaults (intent "unknown", domain "general",
  complexity "medium"; knowledge sufficiency "unknown"; no key points; format "text",
  tone "neutral", structure "default"). With knowledge items that are strings and
  replies that, when they parse, are objects, all four steps are run and recorded
  whichever replies fail to parse. When an exception escapes the chain, \<open>analyze\<close>
  returns the one fallback result.
\<close>

lemma degradation_with_string_knowledge:
  "map fst (analyze backend loads st self_service query kc key) = result_keys \<and>
   (parse_fails backend loads (service_for st self_service key) (step1_request query) \<longrightarrow>
      dict_get (analyze backend loads st self_service query kc key) ''intent'' = JStr ''unknown'' \<and>
      dict_get (analyze backend loads st self_service query kc key) ''domain'' = JStr ''general'' \<and>
      dict_get (analyze backend loads st self_service query kc key) ''complexity'' =
        JStr ''medium'') \<and>
   (truthy (dict_get kc ''relevant_info'') \<and> knowledge_text kc = Inr kt \<and>
    parse_fails backend loads (service_for st self_service key) (step2_request query kt) \<longrightarrow>
      dict_get (analyze backend loads st self_service query kc key) ''knowledge_sufficiency'' =
        JStr ''unknown'') \<and>
   (issued_step3 backend loads (service_for st self_service key) query kc = Inr req3 \<and>
    parse_fails backend loads (service_for st self_service key) req3 \<longrightarrow>
      dict_get (analyze backend loads st self_service query kc key) ''key_points'' = JArr []) \<and>
   (issued_step4 backend loads (service_for st self_service key) query kc = Inr req4 \<and>
    parse_fails backend loads (service_for st self_service key) req4 \<longrightarrow>
      dict_get (analyze backend loads st self_service query kc key) ''suggested_format'' =
        JStr ''text'' \<and>
      dict_get (analyze backend loads st self_service query kc key) ''tone'' = JStr ''neutral'' \<and>
      dict_get (analyze backend loads st self_service query kc key) ''structure'' =
        JStr ''default'') \<and>
   ((\<forall>text v. loads text = Some v \<longrightarrow> object_reply v) \<and> knowledge_text kc = Inr kt \<longrightarrow>
      (\<exists>r steps. analyze_chain backend loads st self_service query kc key = Inr (r, steps) \<and>
         map fst steps = [''request_analysis'', ''knowledge_evaluation'',
                          ''key_points_extraction'', ''response_planning''] \<and>
         analyze backend loads st self_service query kc key = r)) \<and>
   (analyze_chain backend loads st self_service query kc key = Inl e \<longrightarrow>
      analyze backend loads st self_service query kc key = fallback_result)"
proof (intro conjI impI)
  show "map fst (analyze backend loads st self_service query kc key) = result_keys"
    by (rule analyze_complete)
next
  assume "parse_fails backend loads (service_for st self_service key) (step1_request query)"
  from step1_default[OF this]
  show "dict_get (analyze backend loads st self_service query kc key) ''intent'' = JStr ''unknown''"
    and "dict_get (analyze backend loads st self_service query kc key) ''domain'' = JStr ''general''"
    and "dict_get (analyze backend loads st self_service query kc key) ''complexity'' =
           JStr ''medium''"
    by simp_all
next
  assume "truthy (dict_get kc ''relevant_info'') \<and> knowledge_text kc = Inr kt \<and>
    parse_fails backend loads (service_for st self_service key) (step2_request query kt)"
  then show "dict_get (analyze backend loads st self_service query kc key)
               ''knowledge_sufficiency'' = JStr ''unknown''"
    using step2_default by blast
next
  assume "issued_step3 backend loads (service_for st self_service key) query kc = Inr req3 \<and>
    parse_fails backend loads (service_for st self_service key) req3"
  then show "dict_get (analyze backend loads st self_service query kc key) ''key_points'' = JArr []"
    using step3_default by blast
next
  assume "issued_step4 backend loads (service_for st self_service key) query kc = Inr req4 \<and>
    parse_fails backend loads (service_for st self_service key) req4"
  then have i4: "issued_step4 backend loads (service_for st self_service key) query kc = Inr req4"
    and p4: "parse_fails backend loads (service_for st self_service key) req4" by simp_all
  from step4_default[OF i4 p4]
  show "dict_get (analyze backend loads st self_service query kc key) ''suggested_format'' =
          JStr ''text''"
    and "dict_get (analyze backend loads st self_service query kc key) ''tone'' = JStr ''neutral''"
    and "dict_get (analyze backend loads st self_service query kc key) ''structure'' =
          JStr ''default''"
    by simp_all
next
  assume "(\<forall>text v. loads text = Some v \<longrightarrow> object_reply v) \<and> knowledge_text kc = Inr kt"
  then have "\<exists>r steps. analyze_chain backend loads st self_service query kc key = Inr (r, steps) \<and>
           map fst steps = [''request_analysis'', ''knowledge_evaluation'',
                            ''key_points_extraction'', ''response_planning'']"
    using analyze_chain_completes by blast
  then show "\<exists>r steps. analyze_chain backend loads st self_service query kc key = Inr (r, steps) \<and>
         map fst steps = [''request_analysis'', ''knowledge_evaluation'',
                          ''key_points_extraction'', ''response_planning''] \<and>
         analyze backend loads st self_service query kc key = r"
    by (auto simp: analyze_def)
next
  assume "analyze_chain backend loads st self_service query kc key = Inl e"
  then show "analyze backend loads st self_service query kc key = fallback_result"
    by (rule analyze_fallback)
qed

lemma example_step1_fails:
  "parse_fails example_backend example_loads (service_for config_settings example_service None)
     (step1_request ''What is MCP?'')"
  by (simp add: parse_fails_def example_backend_def step1_request_def json_request_def
        example_loads_def)

lemma example_chain_raises:
  "analyze_chain example_backend example_loads config_settings example_service
     ''What is MCP?'' dict_knowledge None = Inl TypeError"
  by (simp add: analyze_chain_def dict_knowledge_def dict_get_default_def dict_get_def Let_def
        ebind_def evaluate_knowledge_def knowledge_text_def py_join_def)

lemma example_analyze:
  "analyze example_backend example_loads config_settings example_service ''What is MCP?''
     text_knowledge None =
   [(''intent'', JStr ''unknown''), (''domain'', JStr ''general''),
    (''complexity'', JStr ''medium''), (''knowledge_sufficiency'', JStr ''sufficient''),
    (''key_points'', JArr [JStr ''p1'']), (''suggested_format'', JStr ''markdown''),
    (''tone'', JStr ''formal''), (''structure'', JStr ''sequential'')]"
  by (simp add: analyze_def analyze_chain_def text_knowledge_def dict_get_default_def
        dict_get_def Let_def ebind_def evaluate_knowledge_def knowledge_text_def py_join_def
        analyze_request_def extract_key_points_def plan_response_def llm_json_def
        json_request_def example_backend_def example_loads_def request_analysis_default_def)

lemma garbled_parse_fails: "parse_fails garbled_backend example_loads svc req"
  by (simp add: parse_fails_def garbled_backend_def example_loads_def)

lemma example_loads_objects: "\<forall>text v. example_loads text = Some v \<longrightarrow> object_reply v"
  by (auto simp: example_loads_def object_reply_def split: if_splits)

lemma example_knowledge_text:
  "truthy (dict_get text_knowledge ''relevant_info'')"
  "knowledge_text text_knowledge = Inr ''MCP is a protocol''"
  by (simp_all add: text_knowledge_def dict_get_def dict_get_default_def knowledge_text_def
        py_join_def ebind_def)

lemma garbled_issued:
  "issued_step3 garbled_backend example_loads (service_for config_settings example_service None)
     ''What is MCP?'' text_knowledge =
   Inr (step3_request ''What is MCP?'' (JStr ''unknown'') (JStr ''general'') (JStr ''medium'')
          ''MCP is a protocol'')"
  "issued_step4 garbled_backend example_loads (service_for config_settings example_service None)
     ''What is MCP?'' text_knowledge =
   Inr (step4_request ''What is MCP?'' (JStr ''unknown'') (JStr ''general'') (JStr ''medium'') [])"
  by (simp_all add: issued_step3_def issued_step4_def Let_def analyze_request_def
        llm_json_parse_fails garbled_parse_fails request_analysis_default_def
        extract_key_points_def key_points_default_def example_knowledge_text ebind_def
        dict_get_default_def)

lemma degradation_examples:
  "parse_fails example_backend example_loads (service_for config_settings example_service None)
     (step1_request ''What is MCP?'') \<and>
   analyze example_backend example_loads config_settings example_service ''What is MCP?''
     text_knowledge None =
   [(''intent'', JStr ''unknown''), (''domain'', JStr ''general''),
    (''complexity'', JStr ''medium''), (''knowledge_sufficiency'', JStr ''sufficient''),
    (''key_points'', JArr [JStr ''p1'']), (''suggested_format'', JStr ''markdown''),
    (''tone'', JStr ''formal''), (''structure'', JStr ''sequential'')] \<and>
   dict_get (analyze example_backend example_loads config_settings example_service
               ''What is MCP?'' text_knowledge None) ''intent'' = JStr ''unknown'' \<and>
   (case analyze_chain example_backend example_loads config_settings example_service
           ''What is MCP?'' text_knowledge None of
      Inl e \<Rightarrow> [] | Inr r \<Rightarrow> map fst (snd r)) =
     [''request_analysis'', ''knowledge_evaluation'', ''key_points_extraction'',
      ''response_planning''] \<and>
   dict_get (analyze garbled_backend example_loads config_settings example_service
               ''What is MCP?'' text_knowledge None) ''knowledge_sufficiency'' =
     JStr ''unknown'' \<and>
   dict_get (analyze garbled_backend example_loads config_settings example_service
               ''What is MCP?'' text_knowledge None) ''key_points'' = JArr [] \<and>
   dict_get (analyze garbled_backend example_loads config_settings example_service
               ''What is MCP?'' text_knowledge None) ''suggested_format'' = JStr ''text'' \<and>
   (case analyze_chain garbled_backend example_loads config_settings example_service
           ''What is MCP?'' text_knowledge None of
      Inl e \<Rightarrow> [] | Inr r \<Rightarrow> map fst (snd r)) =
     [''request_analysis'', ''knowledge_evaluation'', ''key_points_extraction'',
      ''response_planning''] \<and>
   analyze_chain example_backend example_loads config_settings example_service
     ''What is MCP?'' dict_knowledge None = Inl TypeError \<and>
   analyze example_backend example_loads config_settings example_service ''What is MCP?''
     dict_knowledge None = fallback_result"
proof -
  note t1 = degradation_with_string_knowledge
              [of example_backend example_loads config_settings example_service
                  "''What is MCP?''" text_knowledge None "''MCP is a protocol''"]
  note t2 = degradation_with_string_knowledge
              [of example_backend example_loads config_settings example_service
                  "''What is MCP?''" dict_knowledge None _ _ _ TypeError]
  note t3 = degradation_with_string_knowledge
              [of garbled_backend example_loads config_settings example_service
                  "''What is MCP?''" text_knowledge None "''MCP is a protocol''"
                  "step3_request ''What is MCP?'' (JStr ''unknown'') (JStr ''general'')
                     (JStr ''medium'') ''MCP is a protocol''"
                  "step4_request ''What is MCP?'' (JStr ''unknown'') (JStr ''general'')
                     (JStr ''medium'') []"]
  from t1 example_step1_fails
  have 1: "dict_get (analyze example_backend example_loads config_settings example_service
               ''What is MCP?'' text_knowledge None) ''intent'' = JStr ''unknown''"
    by blast
  from t1 [THEN conjunct2, THEN conjunct2, THEN conjunct2, THEN conjunct2, THEN conjunct2,
                 THEN conjunct1, THEN mp]
       conjI [OF example_loads_objects example_knowledge_text(2)]
  have "\<exists>r steps. analyze_chain example_backend example_loads config_settings example_service
           ''What is MCP?'' text_knowledge None = Inr (r, steps) \<and>
         map fst steps = [''request_analysis'', ''knowledge_evaluation'',
                          ''key_points_extraction'', ''response_planning''] \<and>
         analyze example_backend example_loads config_settings example_service
           ''What is MCP?'' text_knowledge None = r"
    by this
  then have 2: "(case analyze_chain example_backend example_loads config_settings example_service
           ''What is MCP?'' text_knowledge None of
      Inl e \<Rightarrow> [] | Inr r \<Rightarrow> map fst (snd r)) =
     [''request_analysis'', ''knowledge_evaluation'', ''key_points_extraction'',
      ''response_planning'']"
    by (elim exE conjE) simp
  from t2 example_chain_raises
  have 3: "analyze example_backend example_loads config_settings example_service ''What is MCP?''
     dict_knowledge None = fallback_result"
    by blast
  from t3 garbled_parse_fails example_knowledge_text garbled_issued
  have 4: "dict_get (analyze garbled_backend example_loads config_settings example_service
               ''What is MCP?'' text_knowledge None) ''knowledge_sufficiency'' =
     JStr ''unknown''"
    and 5: "dict_get (analyze garbled_backend example_loads config_settings example_service
               ''What is MCP?'' text_knowledge None) ''key_points'' = JArr []"
    and 6: "dict_get (analyze garbled_backend example_loads config_settings example_service
               ''What is MCP?'' text_knowledge None) ''suggested_format'' = JStr ''text''"
    by blast+
  from t3 [THEN conjunct2, THEN conjunct2, THEN conjunct2, THEN conjunct2, THEN conjunct2,
                 THEN conjunct1, THEN mp]
       conjI [OF example_loads_objects example_knowledge_text(2)]
  have "\<exists>r steps. analyze_chain garbled_backend example_loads config_settings example_service
           ''What is MCP?'' text_knowledge None = Inr (r, steps) \<and>
         map fst steps = [''request_analysis'', ''knowledge_evaluation'',
                          ''key_points_extraction'', ''response_planning''] \<and>
         analyze garbled_backend example_loads config_settings example_service
           ''What is MCP?'' text_knowledge None = r"
    by this
  then have 7: "(case analyze_chain garbled_backend example_loads config_settings example_service
           ''What is MCP?'' text_knowledge None of
      Inl e \<Rightarrow> [] | Inr r \<Rightarrow> map fst (snd r)) =
     [''request_analysis'', ''knowledge_evaluation'', ''key_points_extraction'',
      ''response_planning'']"
    by (elim exE conjE) simp
  from 1 2 3 4 5 6 7 example_step1_fails example_analyze example_chain_raises
  show ?thesis by simp
qed

subsection \<open>Knowledge as the knowledge stage returns it\<close>

text \<open>
  The knowledge stage returns \<open>relevant_info\<close> as a list of dicts with \<open>content\<close>,
  \<open>score\<close> and \<open>source\<close>. Step 2 and step 3 join the items as strings before their
  \<open>try\<close> block, so for such a list, whatever the replies of the model are, the join
  raises \<open>TypeError\<close> in step 2, the chain is aborted there, and \<open>analyze\<close> returns the
  fallback result.
\<close>

lemma as_strings_raises:
  "\<exists>x \<in> set items. \<forall>s. x \<noteq> JStr s \<Longrightarrow> as_strings items = Inl TypeError"
proof (induction items rule: as_strings.induct)
  case 1
  then show ?case by simp
next
  case (2 s xs)
  then show ?case by (auto simp: ebind_def)
qed simp_all

lemma analyze_aborts_on_items:
  assumes "map_of kc ''relevant_info'' = Some (JArr items)"
    and "\<exists>x \<in> set items. \<forall>s. x \<noteq> JStr s"
  shows "analyze_chain backend loads st self_service query kc key = Inl TypeError"
    and "analyze backend loads st self_service query kc key = fallback_result"
proof -
  from assms(2) have ne: "items \<noteq> []" by auto
  from assms have kt: "knowledge_text kc = Inl TypeError"
    by (simp add: knowledge_text_def dict_get_default_def py_join_def ebind_def
          as_strings_raises)
  with assms(1) ne
  have "evaluate_knowledge backend loads (service_for st self_service key) query kc =
          Inl TypeError"
    by (simp add: evaluate_knowledge_def dict_get_def ebind_def)
  with assms(1) show c: "analyze_chain backend loads st self_service query kc key = Inl TypeError"
    by (simp add: analyze_chain_def dict_get_default_def Let_def ebind_def)
  then show "analyze backend loads st self_service query kc key = fallback_result"
    by (simp add: analyze_def)
qed

lemma answering_analyze:
  "analyze answering_backend answering_loads config_settings example_service ''What is MCP?''
     text_knowledge None =
   [(''intent'', JStr ''question''), (''domain'', JStr ''protocols''),
    (''complexity'', JStr ''low''), (''knowledge_sufficiency'', JStr ''sufficient''),
    (''key_points'', JArr [JStr ''p1'']), (''suggested_format'', JStr ''markdown''),
    (''tone'', JStr ''formal''), (''structure'', JStr ''sequential'')]"
  by (simp add: analyze_def analyze_chain_def text_knowledge_def dict_get_default_def
        dict_get_def Let_def ebind_def evaluate_knowledge_def knowledge_text_def py_join_def
        analyze_request_def extract_key_points_def plan_response_def llm_json_def
        json_request_def answering_backend_def answering_loads_def example_loads_def)

text \<open>
  Claim C3, on the code. The knowledge context holds one item as the knowledge stage
  returns it. When the reply to step 1 is not JSON and the replies to the other steps
  are, the chain is aborted in step 2 by \<open>TypeError\<close> and \<open>analyze\<close> returns the fallback
  result: the fields of steps 2 to 4 are the fallback's, not the replies'. The same
  holds when all four replies are JSON. With the same item given as a string the chain
  is not aborted, and the fields of steps 2 to 4 are those of the replies.
\<close>

theorem analyze_aborts_on_retrieved_knowledge:
  "parse_fails example_backend example_loads (service_for config_settings example_service None)
     (step1_request ''What is MCP?'') \<and>
   analyze_chain example_backend example_loads config_settings example_service
     ''What is MCP?'' dict_knowledge None = Inl TypeError \<and>
   analyze example_backend example_loads config_settings example_service ''What is MCP?''
     dict_knowledge None = fallback_result \<and>
   analyze_chain answering_backend answering_loads config_settings example_service
     ''What is MCP?'' dict_knowledge None = Inl TypeError \<and>
   analyze answering_backend answering_loads config_settings example_service ''What is MCP?''
     dict_knowledge None = fallback_result \<and>
   dict_get fallback_result ''knowledge_sufficiency'' = JStr ''unknown'' \<and>
   dict_get fallback_result ''key_points'' = JArr [] \<and>
   dict_get fallback_result ''suggested_format'' = JStr ''text'' \<and>
   analyze example_backend example_loads config_settings example_service ''What is MCP?''
     text_knowledge None =
   [(''intent'', JStr ''unknown''), (''domain'', JStr ''general''),
    (''complexity'', JStr ''medium''), (''knowledge_sufficiency'', JStr ''sufficient''),
    (''key_points'', JArr [JStr ''p1'']), (''suggested_format'', JStr ''markdown''),
    (''tone'', JStr ''formal''), (''structure'', JStr ''sequential'')] \<and>
   analyze answering_backend answering_loads config_settings example_service ''What is MCP?''
     text_knowledge None =
   [(''intent'', JStr ''question''), (''domain'', JStr ''protocols''),
    (''complexity'', JStr ''low''), (''knowledge_sufficiency'', JStr ''sufficient''),
    (''key_points'', JArr [JStr ''p1'']), (''suggested_format'', JStr ''markdown''),
    (''tone'', JStr ''formal''), (''structure'', JStr ''sequential'')]"
proof -
  have k: "map_of dict_knowledge ''relevant_info'' =
             Some (JArr [JObj [(''content'', JStr ''MCP is a protocol''),
                               (''score'', JNum (9 / 10)), (''source'', JStr ''vector_db'')]])"
    by (simp add: dict_knowledge_def)
  have i: "\<exists>x \<in> set [JObj [(''content'', JStr ''MCP is a protocol''),
                            (''score'', JNum (9 / 10)), (''source'', JStr ''vector_db'')]].
             \<forall>s. x \<noteq> JStr s"
    by simp
  have f: "dict_get fallback_result ''knowledge_sufficiency'' = JStr ''unknown''"
    "dict_get fallback_result ''key_points'' = JArr []"
    "dict_get fallback_result ''suggested_format'' = JStr ''text''"
    by (simp_all add: fallback_result_def dict_get_def)
  from example_step1_fails analyze_aborts_on_items [OF k i] f example_analyze
    answering_analyze
  show ?thesis by simp
qed

section \<open>Properties of the formatting stage\<close>

lemma split_acc_no_sep:
  "c \<notin> set l \<Longrightarrow> split_acc c [] acc (l @ rest) = split_acc c [] (rev l @ acc) rest"
  by (induction l arbitrary: acc) auto

lemma split_acc_join:
  "\<forall>l \<in> set (x # xs). c \<notin> set l \<Longrightarrow>
     split_acc c [] acc (join_strings [c] (x # xs)) = (rev acc @ x) # xs"
proof (induction xs arbitrary: x acc)
  case Nil
  then have "split_acc c [] acc (x @ []) = split_acc c [] (rev x @ acc) []"
    by (intro split_acc_no_sep) simp
  then show ?case by simp
next
  case (Cons y ys)
  then have "split_acc c [] acc (x @ ([c] @ join_strings [c] (y # ys))) =
      split_acc c [] (rev x @ acc) ([c] @ join_strings [c] (y # ys))"
    by (intro split_acc_no_sep) simp
  also have "\<dots> = (rev acc @ x) # split_acc c [] [] (join_strings [c] (y # ys))"
    by simp
  also from Cons have "split_acc c [] [] (join_strings [c] (y # ys)) = y # ys"
    by simp
  finally show ?case by simp
qed

lemma split_lines_join:
  "\<forall>l \<in> set (x # xs). CHR 0x0A \<notin> set l \<Longrightarrow> split_lines (join_strings nl (x # xs)) = x # xs"
  using split_acc_join[of x xs "CHR 0x0A" "[]"] by (simp add: split_lines_def nl_def)

lemma join_blank_lines:
  "join_strings nl (concat (map (\<lambda>line. [line, []]) (x # xs))) =
     join_strings (nl @ nl) (x # xs) @ nl"
  by (induction xs arbitrary: x) simp_all

lemma markdown_fallback_shape:
  assumes "\<forall>l \<in> set (l0 # ls). CHR 0x0A \<notin> set l"
  shows "markdown_fallback (join_strings nl (l0 # ls)) =
           join_strings (nl @ nl) ((''# '' @ l0) # ls) @ nl"
proof -
  from assms have "split_lines (join_strings nl (l0 # ls)) = l0 # ls"
    by (rule split_lines_join)
  then have "markdown_fallback (join_strings nl (l0 # ls)) =
      join_strings nl (concat (map (\<lambda>line. [line, []]) ((''# '' @ l0) # ls)))"
    by (simp add: markdown_fallback_def Let_def del: join_strings.simps)
  then show ?thesis
    by (simp only: join_blank_lines)
qed

lemma format_markdown_failed:
  assumes "dict_get_default ctx ''format'' (JStr ''text'') = JStr ''markdown''"
    and "call_llm llm (markdown_request text) = Inl e"
  shows "format_dispatch render dumps llm text ctx = markdown_fallback text"
  using assms by (simp add: format_dispatch_def format_as_markdown_def)

text \<open>
  Claim C6. \<open>format_response\<close> never raises: it always returns a text. With format
  "markdown" and a language model whose call fails, it returns the heuristic fallback,
  in which the first line of the content is a heading and the lines are separated by
  empty lines (followed by the citation block when citations are requested and the
  sources can be listed). On an error inside its \<open>try\<close> block it returns the original
  content unchanged.
\<close>

theorem format_response_never_raises:
  "(\<exists>s. format_response render dumps loads llm text prompt ctx = Inr s) \<and>
   (dict_get_default ctx ''format'' (JStr ''text'') = JStr ''markdown'' \<and>
    call_llm llm (markdown_request text) = Inl e \<and>
    \<not> (truthy (dict_get_default ctx ''add_citations'' (JBool False)) \<and>
       truthy (dict_get ctx ''sources'')) \<longrightarrow>
      format_response render dumps loads llm text prompt ctx = Inr (markdown_fallback text)) \<and>
   (dict_get_default ctx ''format'' (JStr ''text'') = JStr ''markdown'' \<and>
    call_llm llm (markdown_request text) = Inl e \<and>
    truthy (dict_get_default ctx ''add_citations'' (JBool False)) \<and>
    truthy (dict_get ctx ''sources'') \<and> py_iter (dict_get ctx ''sources'') = Inr items \<longrightarrow>
      format_response render dumps loads llm text prompt ctx =
        Inr (markdown_citations render (markdown_fallback text) items)) \<and>
   ((\<forall>l \<in> set (l0 # ls). CHR 0x0A \<notin> set l) \<longrightarrow>
      markdown_fallback (join_strings nl (l0 # ls)) =
        join_strings (nl @ nl) ((''# '' @ l0) # ls) @ nl) \<and>
   (format_response_body render dumps loads llm text prompt ctx = Inl e' \<longrightarrow>
      format_response render dumps loads llm text prompt ctx = Inr text)"
proof (intro conjI impI)
  show "\<exists>s. format_response render dumps loads llm text prompt ctx = Inr s"
    by (simp add: format_response_def split: sum.splits)
next
  assume h: "dict_get_default ctx ''format'' (JStr ''text'') = JStr ''markdown'' \<and>
    call_llm llm (markdown_request text) = Inl e \<and>
    \<not> (truthy (dict_get_default ctx ''add_citations'' (JBool False)) \<and>
       truthy (dict_get ctx ''sources''))"
  then have "format_dispatch render dumps llm text ctx = markdown_fallback text"
    using format_markdown_failed by blast
  with h show "format_response render dumps loads llm text prompt ctx =
      Inr (markdown_fallback text)"
    by (auto simp: format_response_def format_response_body_def Let_def)
next
  assume h: "dict_get_default ctx ''format'' (JStr ''text'') = JStr ''markdown'' \<and>
    call_llm llm (markdown_request text) = Inl e \<and>
    truthy (dict_get_default ctx ''add_citations'' (JBool False)) \<and>
    truthy (dict_get ctx ''sources'') \<and> py_iter (dict_get ctx ''sources'') = Inr items"
  then have d: "format_dispatch render dumps llm text ctx = markdown_fallback text"
    using format_markdown_failed by blast
  from h have s: "dict_get_default ctx ''sources'' (JArr []) = dict_get ctx ''sources''"
    by (cases "map_of ctx ''sources''") (simp_all add: dict_get_def dict_get_default_def)
  from h d s show "format_response render dumps loads llm text prompt ctx =
        Inr (markdown_citations render (markdown_fallback text) items)"
    by (simp add: format_response_def format_response_body_def Let_def add_citations_def
          ebind_def markdown_citations_def)
next
  assume "\<forall>l \<in> set (l0 # ls). CHR 0x0A \<notin> set l"
  then show "markdown_fallback (join_strings nl (l0 # ls)) =
        join_strings (nl @ nl) ((''# '' @ l0) # ls) @ nl"
    by (rule markdown_fallback_shape)
next
  assume "format_response_body render dumps loads llm text prompt ctx = Inl e'"
  then show "format_response render dumps loads llm text prompt ctx = Inr text"
    by (simp add: format_response_def)
qed

lemma example_markdown_fallback:
  "markdown_fallback titled_content = ''# Title'' @ nl @ nl @ ''body'' @ nl"
  by (simp add: markdown_fallback_def titled_content_def split_lines_def nl_def)

lemma example_llm_fails:
  "call_llm unavailable_llm (markdown_request titled_content) = Inl (BackendError ''unavailable'')"
  "call_llm module_llm_service (markdown_request titled_content) = Inl NameError"
  by (simp_all add: call_llm_def unavailable_llm_def module_llm_service_def)

lemma example_bad_sources:
  "format_response_body show_json show_json example_loads unavailable_llm titled_content ''q''
     bad_sources_context = Inl TypeError"
  by (simp add: format_response_body_def bad_sources_context_def dict_get_def
        dict_get_default_def Let_def add_citations_def ebind_def)

theorem format_response_never_raises_witness:
  "format_response show_json show_json example_loads unavailable_llm titled_content ''q''
     markdown_context = Inr (''# Title'' @ nl @ nl @ ''body'' @ nl) \<and>
   format_response show_json show_json example_loads module_llm_service titled_content ''q''
     markdown_context = Inr (''# Title'' @ nl @ nl @ ''body'' @ nl) \<and>
   format_response_body show_json show_json example_loads unavailable_llm titled_content ''q''
     bad_sources_context = Inl TypeError \<and>
   format_response show_json show_json example_loads unavailable_llm titled_content ''q''
     bad_sources_context = Inr titled_content \<and>
   format_response show_json show_json example_loads unavailable_llm titled_content ''q''
     cited_context =
     Inr (markdown_citations show_json (''# Title'' @ nl @ nl @ ''body'' @ nl) [JStr ''doc1'']) \<and>
   markdown_fallback (join_strings nl [''Title'', ''body'']) =
     join_strings (nl @ nl) [''# Title'', ''body''] @ nl"
proof -
  have f: "dict_get_default markdown_context ''format'' (JStr ''text'') = JStr ''markdown''"
    and c: "\<not> (truthy (dict_get_default markdown_context ''add_citations'' (JBool False)) \<and>
       truthy (dict_get markdown_context ''sources''))"
    by (simp_all add: markdown_context_def dict_get_default_def dict_get_def)
  from format_response_never_raises
         [of show_json show_json example_loads unavailable_llm titled_content "''q''"
             markdown_context "BackendError ''unavailable''"]
       f c example_llm_fails(1)
  have 1: "format_response show_json show_json example_loads unavailable_llm titled_content
             ''q'' markdown_context = Inr (markdown_fallback titled_content)"
    by blast
  from format_response_never_raises
         [of show_json show_json example_loads module_llm_service titled_content "''q''"
             markdown_context NameError]
       f c example_llm_fails(2)
  have 2: "format_response show_json show_json example_loads module_llm_service titled_content
             ''q'' markdown_context = Inr (markdown_fallback titled_content)"
    by blast
  from format_response_never_raises
         [of show_json show_json example_loads unavailable_llm titled_content "''q''"
             bad_sources_context _ _ _ _ TypeError]
       example_bad_sources
  have 3: "format_response show_json show_json example_loads unavailable_llm titled_content
             ''q'' bad_sources_context = Inr titled_content"
    by blast
  have fc: "dict_get_default cited_context ''format'' (JStr ''text'') = JStr ''markdown''"
    and cc: "truthy (dict_get_default cited_context ''add_citations'' (JBool False))"
      "truthy (dict_get cited_context ''sources'')"
      "py_iter (dict_get cited_context ''sources'') = Inr [JStr ''doc1'']"
    by (simp_all add: cited_context_def dict_get_default_def dict_get_def)
  from format_response_never_raises
         [of show_json show_json example_loads unavailable_llm titled_content "''q''"
             cited_context "BackendError ''unavailable''" "[JStr ''doc1'']"]
       fc cc example_llm_fails(1)
  have 4: "format_response show_json show_json example_loads unavailable_llm titled_content
             ''q'' cited_context =
           Inr (markdown_citations show_json (markdown_fallback titled_content) [JStr ''doc1''])"
    by blast
  have "\<forall>l \<in> set [''Title'', ''body'']. CHR 0x0A \<notin> set l" by simp
  with format_response_never_raises [of _ _ _ _ _ _ _ _ _ "''Title''" "[''body'']"]
  have 5: "markdown_fallback (join_strings nl [''Title'', ''body'']) =
     join_strings (nl @ nl) ((''# '' @ ''Title'') # [''body'']) @ nl"
    by blast
  from 1 2 3 4 5 example_bad_sources example_markdown_fallback show ?thesis by simp
qed

section \<open>Properties of the learning stage with persistence\<close>

lemma analyze_feedback_sentiment:
  "sentiment (analyze_feedback fd) =
     (if get_default (fb_rating fd) 0 \<ge> 4 then ''positive''
      else if get_default (fb_rating fd) 0 \<le> 2 then ''negative'' else ''neutral'')"
  by (simp add: analyze_feedback_def Let_def rate_type_def)

lemma bump_metrics_formula:
  assumes "bump_metrics now m fd ar = Inr m'"
  shows "total_feedback_count m' = total_feedback_count m + 1 \<and>
         average_rating m' =
           (average_rating m * of_int (total_feedback_count m' - 1) +
            of_int (get_default (fb_rating fd) 0)) / of_int (total_feedback_count m')"
  using assms
  by (auto simp: bump_metrics_def Let_def split: if_splits option.splits)

lemma bump_metrics_ok:
  assumes "metrics_ok m"
  shows "\<exists>m'. bump_metrics now m fd (analyze_feedback fd) = Inr m' \<and> metrics_ok m'"
proof -
  from assms have n: "total_feedback_count m + 1 \<noteq> 0" by (simp add: metrics_ok_def)
  from assms have "map_of (sentiment_distribution m) (sentiment (analyze_feedback fd)) \<noteq> None"
    by (simp add: metrics_ok_def analyze_feedback_sentiment)
  then obtain c where
    c: "map_of (sentiment_distribution m) (sentiment (analyze_feedback fd)) = Some c"
    by blast
  from n c assms show ?thesis
    by (simp add: bump_metrics_def Let_def metrics_ok_def update_conv')
qed

lemma initial_metrics_ok: "metrics_ok (initial_metrics now)"
  by (simp add: initial_metrics_def metrics_ok_def)

text \<open>
  The arithmetic of the aggregate is the running average: three updates for the ratings
  5, 3 and 1, each applied to the result of the one before, give the count 3 and the
  average 3.
\<close>

lemma three_updates_running_average:
  assumes "fb_rating f1 = Some 5" "fb_rating f2 = Some 3" "fb_rating f3 = Some 1"
  shows "\<exists>m. three_updates t1 t2 t3 f1 f2 f3 = Inr m \<and>
             total_feedback_count m = 3 \<and> average_rating m = 3"
proof -
  from bump_metrics_ok [OF initial_metrics_ok, of t1 t1 f1] obtain m1 where
    b1: "bump_metrics t1 (initial_metrics t1) f1 (analyze_feedback f1) = Inr m1"
    and ok1: "metrics_ok m1" by blast
  from bump_metrics_formula [OF b1] assms(1)
  have v1: "total_feedback_count m1 = 1" "average_rating m1 = 5"
    by (simp_all add: initial_metrics_def get_default_def)
  from bump_metrics_ok [OF ok1, of t2 f2] obtain m2 where
    b2: "bump_metrics t2 m1 f2 (analyze_feedback f2) = Inr m2"
    and ok2: "metrics_ok m2" by blast
  from bump_metrics_formula [OF b2] assms(2) v1
  have v2: "total_feedback_count m2 = 2" "average_rating m2 = 4"
    by (simp_all add: get_default_def)
  from bump_metrics_ok [OF ok2, of t3 f3] obtain m3 where
    b3: "bump_metrics t3 m2 f3 (analyze_feedback f3) = Inr m3" by blast
  from bump_metrics_formula [OF b3] assms(3) v2
  have v3: "total_feedback_count m3 = 3" "average_rating m3 = 3"
    by (simp_all add: get_default_def)
  from b1 b2 b3 have "three_updates t1 t2 t3 f1 f2 f3 = Inr m3"
    by (simp add: three_updates_def ebind_def)
  with v3 show ?thesis by blast
qed

text \<open>
  With the persistence class of the repository no write is kept: \<open>update_one\<close> raises
  \<open>AttributeError\<close>, which \<open>_update_learning_metrics\<close> catches and logs, and
  \<open>insert_data\<close> stores nothing. Every call of \<open>process_feedback\<close> reports success and
  leaves the database as it was.
\<close>

lemma update_learning_metrics_DatabaseService:
  "update_learning_metrics DatabaseService now db fd ar = db"
  by (simp add: update_learning_metrics_def DatabaseService_def ebind_def
           split: sum.splits list.splits)

lemma process_feedback_DatabaseService:
  "process_feedback DatabaseService now db fd =
     (db, Success (fb_feedback_id fd) (analyze_feedback fd))"
proof -
  have "store_feedback DatabaseService now db (fb_feedback_id fd) (fb_request_id fd)
          (fb_session_id fd) (fb_user_id fd) (fb_rating fd) (fb_feedback_type fd)
          (fb_comment fd) (fb_metadata fd) = Inr db"
    by (simp add: store_feedback_def DatabaseService_def)
  then show ?thesis
    by (simp add: process_feedback_def Let_def update_learning_metrics_DatabaseService)
qed

lemma example_three_updates:
  "(case three_updates ''t1'' ''t2'' ''t3'' (rated 5) (rated 3) (rated 1) of
      Inl e \<Rightarrow> None
    | Inr m \<Rightarrow> Some (total_feedback_count m, average_rating m)) = Some (3, 3)"
proof -
  have "fb_rating (rated 5) = Some 5" "fb_rating (rated 3) = Some 3"
    "fb_rating (rated 1) = Some 1"
    by (simp_all add: rated_def)
  from three_updates_running_average [OF this, of "''t1''" "''t2''" "''t3''"]
  show ?thesis by (elim exE conjE) simp
qed

text \<open>
  Claim C7, on the code of the repository. The protocol is run with the
  \<open>DatabaseService\<close> it constructs, on a database without rows. Three feedback events
  with ratings 5, 3 and 1 are processed one after the other; each call reports success.
  Afterwards the database is still without rows, and \<open>get_learning_metrics\<close> returns
  the zero default: \<open>total_feedback_count\<close> 0 and \<open>average_rating\<close> 0, not 3 and 3.
  The three updates themselves are computed as the running average and would give the
  count 3 and the average 3; each is lost when \<open>update_one\<close>, which the class does not
  define, raises.
\<close>

theorem metrics_not_persisted:
  "fst (process_feedback DatabaseService ''t3''
          (fst (process_feedback DatabaseService ''t2''
             (fst (process_feedback DatabaseService ''t1'' empty_sql_db (rated 5)))
             (rated 3)))
          (rated 1)) = empty_sql_db \<and>
   snd (process_feedback DatabaseService ''t1'' empty_sql_db (rated 5)) =
     Success (Some ''f'') (analyze_feedback (rated 5)) \<and>
   get_learning_metrics DatabaseService ''t4''
     (fst (process_feedback DatabaseService ''t3''
             (fst (process_feedback DatabaseService ''t2''
                (fst (process_feedback DatabaseService ''t1'' empty_sql_db (rated 5)))
                (rated 3)))
             (rated 1))) = Inr (initial_metrics ''t4'') \<and>
   total_feedback_count (initial_metrics ''t4'') = 0 \<and>
   average_rating (initial_metrics ''t4'') = 0 \<and>
   update_one_metrics DatabaseService empty_sql_db (initial_metrics ''t4'') =
     Inl AttributeError \<and>
   (case three_updates ''t1'' ''t2'' ''t3'' (rated 5) (rated 3) (rated 1) of
      Inl e \<Rightarrow> None
    | Inr m \<Rightarrow> Some (total_feedback_count m, average_rating m)) = Some (3, 3)"
proof -
  have "get_learning_metrics DatabaseService ''t4'' empty_sql_db = Inr (initial_metrics ''t4'')"
    by (simp add: get_learning_metrics_def DatabaseService_def empty_sql_db_def ebind_def)
  moreover have "update_one_metrics DatabaseService empty_sql_db (initial_metrics ''t4'') =
     Inl AttributeError"
    by (simp add: DatabaseService_def)
  moreover have "fb_feedback_id (rated 5) = Some ''f''" by (simp add: rated_def)
  moreover have "total_feedback_count (initial_metrics ''t4'') = 0"
    "average_rating (initial_metrics ''t4'') = 0"
    by (simp_all add: initial_metrics_def)
  ultimately show ?thesis
    by (simp add: process_feedback_DatabaseService example_three_updates)
qed

section \<open>Properties of adaptive learning\<close>

lemma validate_feedback_clamps:
  "1 \<le> vf_rating (validate_feedback stamp now fb) \<and> vf_rating (validate_feedback stamp now fb) \<le> 5"
  by (simp add: validate_feedback_def)

lemma adaptive_process_feedback_history:
  "feedback_history (fst (adaptive_process_feedback backend loads stamp now p fb)) =
     feedback_history p @ [validate_feedback stamp now fb]"
  by (simp add: adaptive_process_feedback_def Let_def adaptive_store_feedback_def
        al_log_execution_def split: sum.splits)

lemma adaptive_process_feedback_no_suggestion:
  "\<not> get_default (rf_rating fb) 5 < 4 \<Longrightarrow>
     improvement_suggestions (fst (adaptive_process_feedback backend loads stamp now p fb)) =
       improvement_suggestions p"
  by (simp add: adaptive_process_feedback_def Let_def adaptive_store_feedback_def
        al_log_execution_def split: sum.splits)

lemma adaptive_process_feedback_analysis:
  "snd (adaptive_process_feedback backend loads stamp now p fb) = Inr res \<Longrightarrow>
     adaptive_analyze_feedback backend loads (al_llm_service p) (validate_feedback stamp now fb) =
       Inr (res_analysis res)"
  by (auto simp: adaptive_process_feedback_def Let_def adaptive_store_feedback_def
        al_log_execution_def split: sum.splits if_splits)

lemma adaptive_analyze_feedback_rating:
  "rf_type fb = Some ''rating_only'' \<or>
   rf_type fb \<noteq> Some ''text_feedback'' \<and> get_default (rf_content fb) [] = [] \<Longrightarrow>
   adaptive_analyze_feedback backend loads svc (validate_feedback stamp now fb) =
     Inr (analyze_rating (validate_feedback stamp now fb))"
  by (cases "rf_type fb")
     (auto simp: adaptive_analyze_feedback_def analyze_general_feedback_def Let_def
        validate_feedback_def get_default_def)

lemma adaptive_analyze_feedback_text:
  assumes "rf_type fb \<noteq> Some ''rating_only''"
    and "rf_type fb = Some ''text_feedback'' \<or> get_default (rf_content fb) [] \<noteq> []"
    and "adaptive_analyze_feedback backend loads svc (validate_feedback stamp now fb) = Inr a"
  shows "an_sentiment a =
           an_sentiment (analyze_text_feedback backend loads svc (validate_feedback stamp now fb))"
proof (cases "rf_type fb = Some ''text_feedback''")
  case True
  with assms(3) show ?thesis
    by (auto simp: adaptive_analyze_feedback_def validate_feedback_def get_default_def)
next
  case False
  with assms(2) have c: "vf_content (validate_feedback stamp now fb) \<noteq> []"
    by (simp add: validate_feedback_def)
  from False assms(1) have t: "vf_type (validate_feedback stamp now fb) \<noteq> ''rating_only''"
    "vf_type (validate_feedback stamp now fb) \<noteq> ''text_feedback''"
    by (cases "rf_type fb"; simp add: validate_feedback_def get_default_def)+
  from assms(3) t c show ?thesis
    by (auto simp: adaptive_analyze_feedback_def analyze_general_feedback_def Let_def
          ebind_def split: sum.splits)
qed

text \<open>
  Claim C10, as the code has it. When the feedback passed to the adaptive-learning
  \<open>process_feedback\<close> has no rating, validation substitutes the maximum rating 5: the
  feedback is stored with rating 5 and no improvement suggestion is generated. The
  analysis is run on the record with rating 5, but what is returned is the positive
  rating analysis only for feedback of type \<open>rating_only\<close> and for feedback of a type
  other than \<open>text_feedback\<close> with no text; for feedback of type \<open>text_feedback\<close> and
  for other feedback with text, the returned sentiment is the sentiment of the text
  analysis.
\<close>

theorem absent_rating_counts_as_five:
  "rf_rating fb = None \<longrightarrow>
     vf_rating (validate_feedback stamp now fb) = 5 \<and>
     feedback_history (fst (adaptive_process_feedback backend loads stamp now p fb)) =
       feedback_history p @ [validate_feedback stamp now fb] \<and>
     an_sentiment (analyze_rating (validate_feedback stamp now fb)) = JStr ''positive'' \<and>
     (snd (adaptive_process_feedback backend loads stamp now p fb) = Inr res \<longrightarrow>
        adaptive_analyze_feedback backend loads (al_llm_service p)
          (validate_feedback stamp now fb) = Inr (res_analysis res)) \<and>
     (snd (adaptive_process_feedback backend loads stamp now p fb) = Inr res \<and>
      (rf_type fb = Some ''rating_only'' \<or>
       rf_type fb \<noteq> Some ''text_feedback'' \<and> get_default (rf_content fb) [] = []) \<longrightarrow>
        res_analysis res = analyze_rating (validate_feedback stamp now fb) \<and>
        an_sentiment (res_analysis res) = JStr ''positive'') \<and>
     (snd (adaptive_process_feedback backend loads stamp now p fb) = Inr res \<and>
      rf_type fb \<noteq> Some ''rating_only'' \<and>
      (rf_type fb = Some ''text_feedback'' \<or> get_default (rf_content fb) [] \<noteq> []) \<longrightarrow>
        an_sentiment (res_analysis res) =
          an_sentiment (analyze_text_feedback backend loads (al_llm_service p)
                          (validate_feedback stamp now fb))) \<and>
     improvement_suggestions (fst (adaptive_process_feedback backend loads stamp now p fb)) =
       improvement_suggestions p"
proof
  assume r: "rf_rating fb = None"
  then have v5: "vf_rating (validate_feedback stamp now fb) = 5"
    by (simp add: validate_feedback_def get_default_def)
  then have pos: "an_sentiment (analyze_rating (validate_feedback stamp now fb)) = JStr ''positive''"
    by (simp add: analyze_rating_def)
  from r have no: "\<not> get_default (rf_rating fb) 5 < 4" by (simp add: get_default_def)
  have rated: "res_analysis res = analyze_rating (validate_feedback stamp now fb) \<and>
               an_sentiment (res_analysis res) = JStr ''positive''"
    if s: "snd (adaptive_process_feedback backend loads stamp now p fb) = Inr res"
      and t: "rf_type fb = Some ''rating_only'' \<or>
              rf_type fb \<noteq> Some ''text_feedback'' \<and> get_default (rf_content fb) [] = []"
    using adaptive_process_feedback_analysis [OF s]
      adaptive_analyze_feedback_rating [OF t, of backend loads "al_llm_service p" stamp now] pos
    by simp
  have texted: "an_sentiment (res_analysis res) =
          an_sentiment (analyze_text_feedback backend loads (al_llm_service p)
                          (validate_feedback stamp now fb))"
    if s: "snd (adaptive_process_feedback backend loads stamp now p fb) = Inr res"
      and t1: "rf_type fb \<noteq> Some ''rating_only''"
      and t2: "rf_type fb = Some ''text_feedback'' \<or> get_default (rf_content fb) [] \<noteq> []"
    using adaptive_analyze_feedback_text [OF t1 t2 adaptive_process_feedback_analysis [OF s]]
    by this
  show "vf_rating (validate_feedback stamp now fb) = 5 \<and>
     feedback_history (fst (adaptive_process_feedback backend loads stamp now p fb)) =
       feedback_history p @ [validate_feedback stamp now fb] \<and>
     an_sentiment (analyze_rating (validate_feedback stamp now fb)) = JStr ''positive'' \<and>
     (snd (adaptive_process_feedback backend loads stamp now p fb) = Inr res \<longrightarrow>
        adaptive_analyze_feedback backend loads (al_llm_service p)
          (validate_feedback stamp now fb) = Inr (res_analysis res)) \<and>
     (snd (adaptive_process_feedback backend loads stamp now p fb) = Inr res \<and>
      (rf_type fb = Some ''rating_only'' \<or>
       rf_type fb \<noteq> Some ''text_feedback'' \<and> get_default (rf_content fb) [] = []) \<longrightarrow>
        res_analysis res = analyze_rating (validate_feedback stamp now fb) \<and>
        an_sentiment (res_analysis res) = JStr ''positive'') \<and>
     (snd (adaptive_process_feedback backend loads stamp now p fb) = Inr res \<and>
      rf_type fb \<noteq> Some ''rating_only'' \<and>
      (rf_type fb = Some ''text_feedback'' \<or> get_default (rf_content fb) [] \<noteq> []) \<longrightarrow>
        an_sentiment (res_analysis res) =
          an_sentiment (analyze_text_feedback backend loads (al_llm_service p)
                          (validate_feedback stamp now fb))) \<and>
     improvement_suggestions (fst (adaptive_process_feedback backend loads stamp now p fb)) =
       improvement_suggestions p"
    using v5 pos rated texted adaptive_process_feedback_history
      adaptive_process_feedback_no_suggestion[OF no] adaptive_process_feedback_analysis
    by blast
qed

lemma example_unrated:
  "adaptive_process_feedback failing_backend example_loads ''s'' ''t'' new_adaptive_protocol
     unrated_feedback =
   (new_adaptive_protocol
      \<lparr>feedback_history := [validate_feedback ''s'' ''t'' unrated_feedback],
       al_last_feedback := Some (''f1'', ''t'', 5),
       al_average_rating := Some 5,
       al_execution_log := [''feedback_processing_start'', ''feedback_processing_complete'']\<rparr>,
    Inr \<lparr>res_feedback_id = ''f1'', res_status = ''processed'', res_timestamp = ''t'',
         res_analysis = \<lparr>an_sentiment = JStr ''positive'', an_summary = JStr summary_satisfied,
                          an_confidence = JNum (9 / 10), an_aspects = JObj []\<rparr>\<rparr>)"
  by (simp add: adaptive_process_feedback_def Let_def validate_feedback_def
        unrated_feedback_def get_default_def adaptive_store_feedback_def
        al_log_execution_def new_adaptive_protocol_def adaptive_analyze_feedback_def
        analyze_rating_def)

lemma example_unrated_text:
  "snd (adaptive_process_feedback failing_backend example_loads ''s'' ''t''
          new_adaptive_protocol unrated_text_feedback) =
   Inr \<lparr>res_feedback_id = ''f2'', res_status = ''processed'', res_timestamp = ''t'',
        res_analysis = failed_analysis\<rparr>"
  by (simp add: adaptive_process_feedback_def Let_def validate_feedback_def
        unrated_text_feedback_def unrated_feedback_def get_default_def
        adaptive_store_feedback_def al_log_execution_def new_adaptive_protocol_def
        adaptive_analyze_feedback_def analyze_text_feedback_def failing_backend_def)

lemma example_unrated_general:
  "snd (adaptive_process_feedback critic_backend critic_loads ''s'' ''t''
          new_adaptive_protocol unrated_general_feedback) =
   Inr \<lparr>res_feedback_id = ''f3'', res_status = ''processed'', res_timestamp = ''t'',
        res_analysis = \<lparr>an_sentiment = JStr ''negative'', an_summary = JStr summary_unavailable,
                         an_confidence = JNum (17 / 20), an_aspects = JObj []\<rparr>\<rparr>"
  by (simp add: adaptive_process_feedback_def Let_def validate_feedback_def
        unrated_general_feedback_def unrated_feedback_def get_default_def
        adaptive_store_feedback_def al_log_execution_def new_adaptive_protocol_def
        adaptive_analyze_feedback_def analyze_general_feedback_def analyze_rating_def
        analyze_text_feedback_def critic_backend_def critic_loads_def json_request_def
        dict_get_default_def ebind_def)

theorem absent_rating_counts_as_five_witness:
  "vf_rating (validate_feedback ''s'' ''t'' unrated_feedback) = 5 \<and>
   map vf_rating (feedback_history (fst (adaptive_process_feedback failing_backend example_loads
     ''s'' ''t'' new_adaptive_protocol unrated_feedback))) = [5] \<and>
   improvement_suggestions (fst (adaptive_process_feedback failing_backend example_loads
     ''s'' ''t'' new_adaptive_protocol unrated_feedback)) = [] \<and>
   an_sentiment (analyze_rating (validate_feedback ''s'' ''t'' unrated_feedback)) =
     JStr ''positive'' \<and>
   (case snd (adaptive_process_feedback failing_backend example_loads ''s'' ''t''
                new_adaptive_protocol unrated_feedback) of
      Inl e \<Rightarrow> JNull | Inr res \<Rightarrow> an_sentiment (res_analysis res)) = JStr ''positive'' \<and>
   an_sentiment (analyze_text_feedback failing_backend example_loads
                   (al_llm_service new_adaptive_protocol)
                   (validate_feedback ''s'' ''t'' unrated_text_feedback)) = JStr ''unknown'' \<and>
   improvement_suggestions (fst (adaptive_process_feedback failing_backend example_loads
     ''s'' ''t'' new_adaptive_protocol unrated_text_feedback)) = []"
proof -
  let ?res = "\<lparr>res_feedback_id = ''f1'', res_status = ''processed'', res_timestamp = ''t'',
         res_analysis = \<lparr>an_sentiment = JStr ''positive'', an_summary = JStr summary_satisfied,
                          an_confidence = JNum (9 / 10), an_aspects = JObj []\<rparr>\<rparr>"
  let ?res2 = "\<lparr>res_feedback_id = ''f2'', res_status = ''processed'', res_timestamp = ''t'',
         res_analysis = failed_analysis\<rparr>"
  note inst = absent_rating_counts_as_five
         [of unrated_feedback "''s''" "''t''" failing_backend example_loads
             new_adaptive_protocol ?res]
  note inst2 = absent_rating_counts_as_five
         [of unrated_text_feedback "''s''" "''t''" failing_backend example_loads
             new_adaptive_protocol ?res2]
  have r: "rf_rating unrated_feedback = None" by (simp add: unrated_feedback_def)
  have s: "snd (adaptive_process_feedback failing_backend example_loads ''s'' ''t''
                  new_adaptive_protocol unrated_feedback) = Inr ?res"
    by (simp add: example_unrated)
  have t: "rf_type unrated_feedback = Some ''rating_only''" by (simp add: unrated_feedback_def)
  have r2: "rf_rating unrated_text_feedback = None"
    and t2: "rf_type unrated_text_feedback = Some ''text_feedback''"
    by (simp_all add: unrated_text_feedback_def unrated_feedback_def)
  from inst r
  have 1: "vf_rating (validate_feedback ''s'' ''t'' unrated_feedback) = 5"
    and 2: "feedback_history (fst (adaptive_process_feedback failing_backend example_loads
           ''s'' ''t'' new_adaptive_protocol unrated_feedback)) =
         feedback_history new_adaptive_protocol @ [validate_feedback ''s'' ''t'' unrated_feedback]"
    and 3: "an_sentiment (analyze_rating (validate_feedback ''s'' ''t'' unrated_feedback)) =
           JStr ''positive''"
    and 4: "improvement_suggestions (fst (adaptive_process_feedback failing_backend example_loads
           ''s'' ''t'' new_adaptive_protocol unrated_feedback)) =
         improvement_suggestions new_adaptive_protocol"
    by simp_all
  from inst r s t have "an_sentiment (res_analysis ?res) = JStr ''positive''" by simp
  with s have 5: "(case snd (adaptive_process_feedback failing_backend example_loads ''s'' ''t''
                new_adaptive_protocol unrated_feedback) of
      Inl e \<Rightarrow> JNull | Inr res \<Rightarrow> an_sentiment (res_analysis res)) = JStr ''positive''"
    by simp
  from inst2 r2 t2 example_unrated_text
  have "an_sentiment (res_analysis ?res2) =
          an_sentiment (analyze_text_feedback failing_backend example_loads
                          (al_llm_service new_adaptive_protocol)
                          (validate_feedback ''s'' ''t'' unrated_text_feedback))"
    by simp
  then have 6: "an_sentiment (analyze_text_feedback failing_backend example_loads
                   (al_llm_service new_adaptive_protocol)
                   (validate_feedback ''s'' ''t'' unrated_text_feedback)) = JStr ''unknown''"
    by (simp add: failed_analysis_def)
  from inst2 r2
  have 7: "improvement_suggestions (fst (adaptive_process_feedback failing_backend example_loads
           ''s'' ''t'' new_adaptive_protocol unrated_text_feedback)) =
         improvement_suggestions new_adaptive_protocol"
    by simp
  from 1 2 3 4 5 6 7 show ?thesis by (simp add: new_adaptive_protocol_def)
qed

text \<open>
  Feedback without a rating is not always analyzed as positive: text feedback whose LLM
  call fails is returned with the sentiment "unknown", and general feedback with text
  for which the LLM reports a negative sentiment is returned as "negative". Both are
  stored with rating 5.
\<close>

theorem unrated_text_not_positive:
  "(case snd (adaptive_process_feedback failing_backend example_loads ''s'' ''t''
                new_adaptive_protocol unrated_text_feedback) of
      Inl e \<Rightarrow> JNull | Inr res \<Rightarrow> an_sentiment (res_analysis res)) = JStr ''unknown'' \<and>
   (case snd (adaptive_process_feedback critic_backend critic_loads ''s'' ''t''
                new_adaptive_protocol unrated_general_feedback) of
      Inl e \<Rightarrow> JNull | Inr res \<Rightarrow> an_sentiment (res_analysis res)) = JStr ''negative'' \<and>
   rf_rating unrated_text_feedback = None \<and>
   rf_rating unrated_general_feedback = None \<and>
   vf_rating (validate_feedback ''s'' ''t'' unrated_text_feedback) = 5 \<and>
   vf_rating (validate_feedback ''s'' ''t'' unrated_general_feedback) = 5"
proof -
  have "rf_rating unrated_text_feedback = None \<and>
        rf_rating unrated_general_feedback = None \<and>
        vf_rating (validate_feedback ''s'' ''t'' unrated_text_feedback) = 5 \<and>
        vf_rating (validate_feedback ''s'' ''t'' unrated_general_feedback) = 5"
    by (simp add: validate_feedback_def unrated_text_feedback_def
          unrated_general_feedback_def unrated_feedback_def get_default_def)
  then show ?thesis
    by (simp add: example_unrated_text example_unrated_general failed_analysis_def)
qed

section \<open>The rating range in the two feedback protocols\<close>

text \<open>
  Claim C8, as the code has it. The in-memory adaptive-learning protocol clamps: the
  rating it stores and analyzes is the submitted rating brought into the interval from
  1 to 5 (a rating below 1 becomes 1, a rating above 5 becomes 5). The protocol with
  persistence does not, whatever the persistence service is: the document that
  \<open>store_feedback\<close> builds and hands to \<open>insert_data\<close> holds the rating it is given, the
  sentiment of \<open>_analyze_feedback\<close> is decided on the submitted rating, and the update of
  the average adds the submitted rating.
\<close>

theorem rating_clamped_by_validation:
  "1 \<le> vf_rating (validate_feedback stamp now fb) \<and>
   vf_rating (validate_feedback stamp now fb) \<le> 5 \<and>
   (rf_rating fb = Some r \<and> r < 1 \<longrightarrow> vf_rating (validate_feedback stamp now fb) = 1) \<and>
   (rf_rating fb = Some r \<and> 5 < r \<longrightarrow> vf_rating (validate_feedback stamp now fb) = 5) \<and>
   (rf_rating fb = Some r \<and> 1 \<le> r \<and> r \<le> 5 \<longrightarrow>
      vf_rating (validate_feedback stamp now fb) = r) \<and>
   feedback_history (fst (adaptive_process_feedback backend loads stamp now p fb)) =
     feedback_history p @ [validate_feedback stamp now fb] \<and>
   (snd (adaptive_process_feedback backend loads stamp now p fb) = Inr res \<longrightarrow>
      adaptive_analyze_feedback backend loads (al_llm_service p)
        (validate_feedback stamp now fb) = Inr (res_analysis res)) \<and>
   store_feedback svc t db fid rid sid uid rating ftype comment md =
     insert_data svc db ''feedback''
       (feedback_document t fid rid sid uid rating ftype comment md) \<and>
   doc_rating (feedback_document t fid rid sid uid rating ftype comment md) = rating \<and>
   sentiment (analyze_feedback fd) =
     (if get_default (fb_rating fd) 0 \<ge> 4 then ''positive''
      else if get_default (fb_rating fd) 0 \<le> 2 then ''negative'' else ''neutral'') \<and>
   (bump_metrics t m fd ar = Inr m' \<longrightarrow>
      average_rating m' =
        (average_rating m * of_int (total_feedback_count m) +
         of_int (get_default (fb_rating fd) 0)) / of_int (total_feedback_count m + 1))"
proof -
  have "rf_rating fb = Some r \<and> r < 1 \<longrightarrow> vf_rating (validate_feedback stamp now fb) = 1"
    and "rf_rating fb = Some r \<and> 5 < r \<longrightarrow> vf_rating (validate_feedback stamp now fb) = 5"
    and "rf_rating fb = Some r \<and> 1 \<le> r \<and> r \<le> 5 \<longrightarrow>
           vf_rating (validate_feedback stamp now fb) = r"
    by (auto simp: validate_feedback_def get_default_def)
  moreover note validate_feedback_clamps [of stamp now fb]
    adaptive_process_feedback_history [of backend loads stamp now p fb]
  moreover have "snd (adaptive_process_feedback backend loads stamp now p fb) = Inr res \<longrightarrow>
      adaptive_analyze_feedback backend loads (al_llm_service p)
        (validate_feedback stamp now fb) = Inr (res_analysis res)"
    using adaptive_process_feedback_analysis by blast
  moreover have "store_feedback svc t db fid rid sid uid rating ftype comment md =
     insert_data svc db ''feedback''
       (feedback_document t fid rid sid uid rating ftype comment md)"
    by (simp add: store_feedback_def)
  moreover have
    "doc_rating (feedback_document t fid rid sid uid rating ftype comment md) = rating"
    by (simp add: feedback_document_def)
  moreover note analyze_feedback_sentiment [of fd]
  moreover have "bump_metrics t m fd ar = Inr m' \<longrightarrow>
      average_rating m' =
        (average_rating m * of_int (total_feedback_count m) +
         of_int (get_default (fb_rating fd) 0)) / of_int (total_feedback_count m + 1)"
    using bump_metrics_formula [of t m fd ar m'] by auto
  ultimately show ?thesis by simp
qed

lemma example_overrated:
  "snd (adaptive_process_feedback failing_backend example_loads ''s'' ''t''
          new_adaptive_protocol overrated_feedback) =
   Inr \<lparr>res_feedback_id = ''f1'', res_status = ''processed'', res_timestamp = ''t'',
        res_analysis = \<lparr>an_sentiment = JStr ''positive'', an_summary = JStr summary_satisfied,
                         an_confidence = JNum (9 / 10), an_aspects = JObj []\<rparr>\<rparr>"
  by (simp add: adaptive_process_feedback_def Let_def validate_feedback_def
        overrated_feedback_def unrated_feedback_def get_default_def adaptive_store_feedback_def
        al_log_execution_def new_adaptive_protocol_def adaptive_analyze_feedback_def
        analyze_rating_def)

lemma example_bump:
  "bump_metrics ''t'' (initial_metrics ''t0'') (rated 7) (analyze_feedback (rated 7)) =
     Inr ((initial_metrics ''t0'')
            \<lparr>total_feedback_count := 1, average_rating := 7,
             sentiment_distribution := [(''positive'', 1), (''neutral'', 0), (''negative'', 0)],
             m_improvement_areas := [], m_strengths := [(tag_high_accuracy, 1)],
             last_updated := ''t''\<rparr>)"
  by (simp add: bump_metrics_def initial_metrics_def rated_def analyze_feedback_def
        rate_type_def get_default_def Let_def count_tag_def)

theorem rating_clamped_by_validation_witness:
  "vf_rating (validate_feedback ''s'' ''t'' overrated_feedback) = 5 \<and>
   vf_rating (validate_feedback ''s'' ''t'' underrated_feedback) = 1 \<and>
   vf_rating (validate_feedback ''s'' ''t'' fair_feedback) = 3 \<and>
   map vf_rating (feedback_history (fst (adaptive_process_feedback failing_backend example_loads
     ''s'' ''t'' new_adaptive_protocol overrated_feedback))) = [5] \<and>
   adaptive_analyze_feedback failing_backend example_loads (al_llm_service new_adaptive_protocol)
     (validate_feedback ''s'' ''t'' overrated_feedback) =
     Inr \<lparr>an_sentiment = JStr ''positive'', an_summary = JStr summary_satisfied,
          an_confidence = JNum (9 / 10), an_aspects = JObj []\<rparr> \<and>
   store_feedback DatabaseService ''t'' empty_sql_db (Some ''f'') (Some ''r'') None None
     (Some 7) None None None =
     insert_data DatabaseService empty_sql_db ''feedback''
       (feedback_document ''t'' (Some ''f'') (Some ''r'') None None (Some 7) None None None) \<and>
   average_rating
     ((initial_metrics ''t0'')
        \<lparr>total_feedback_count := 1, average_rating := 7,
         sentiment_distribution := [(''positive'', 1), (''neutral'', 0), (''negative'', 0)],
         m_improvement_areas := [], m_strengths := [(tag_high_accuracy, 1)],
         last_updated := ''t''\<rparr>) =
     (average_rating (initial_metrics ''t0'') *
        of_int (total_feedback_count (initial_metrics ''t0'')) +
      of_int (get_default (fb_rating (rated 7)) 0)) /
     of_int (total_feedback_count (initial_metrics ''t0'') + 1)"
proof -
  have o: "rf_rating overrated_feedback = Some 9 \<and> (5::int) < 9"
    and u: "rf_rating underrated_feedback = Some (- 2) \<and> (- 2 :: int) < 1"
    and f: "rf_rating fair_feedback = Some 3 \<and> (1::int) \<le> 3 \<and> (3::int) \<le> 5"
    by (simp_all add: overrated_feedback_def underrated_feedback_def fair_feedback_def)
  note over = rating_clamped_by_validation
                [of "''s''" "''t''" overrated_feedback 9 failing_backend example_loads
                    new_adaptive_protocol _ DatabaseService "''t''" empty_sql_db
                    "Some ''f''" "Some ''r''" None None "Some 7" None None None
                    "rated 7" "initial_metrics ''t0''" "analyze_feedback (rated 7)"]
  note under = rating_clamped_by_validation [of "''s''" "''t''" underrated_feedback "- 2"]
  note fair = rating_clamped_by_validation [of "''s''" "''t''" fair_feedback 3]
  from over o have 1: "vf_rating (validate_feedback ''s'' ''t'' overrated_feedback) = 5"
    by simp
  from under [THEN conjunct2, THEN conjunct2, THEN conjunct1, THEN mp, OF u]
  have 2: "vf_rating (validate_feedback ''s'' ''t'' underrated_feedback) = 1"
    by this
  from fair [THEN conjunct2, THEN conjunct2, THEN conjunct2, THEN conjunct2, THEN conjunct1,
             THEN mp, OF f]
  have 3: "vf_rating (validate_feedback ''s'' ''t'' fair_feedback) = 3"
    by this
  from over have 4: "feedback_history (fst (adaptive_process_feedback failing_backend
     example_loads ''s'' ''t'' new_adaptive_protocol overrated_feedback)) =
     feedback_history new_adaptive_protocol @ [validate_feedback ''s'' ''t'' overrated_feedback]"
    by simp
  from over example_overrated
  have 5: "adaptive_analyze_feedback failing_backend example_loads
     (al_llm_service new_adaptive_protocol)
     (validate_feedback ''s'' ''t'' overrated_feedback) =
     Inr \<lparr>an_sentiment = JStr ''positive'', an_summary = JStr summary_satisfied,
          an_confidence = JNum (9 / 10), an_aspects = JObj []\<rparr>"
    by simp
  from over
  have 6: "store_feedback DatabaseService ''t'' empty_sql_db (Some ''f'') (Some ''r'') None None
     (Some 7) None None None =
     insert_data DatabaseService empty_sql_db ''feedback''
       (feedback_document ''t'' (Some ''f'') (Some ''r'') None None (Some 7) None None None)"
    by simp
  from over [THEN conjunct2, THEN conjunct2, THEN conjunct2, THEN conjunct2, THEN conjunct2,
             THEN conjunct2, THEN conjunct2, THEN conjunct2, THEN conjunct2, THEN conjunct2,
             THEN mp, OF example_bump]
  have 7: "average_rating
     ((initial_metrics ''t0'')
        \<lparr>total_feedback_count := 1, average_rating := 7,
         sentiment_distribution := [(''positive'', 1), (''neutral'', 0), (''negative'', 0)],
         m_improvement_areas := [], m_strengths := [(tag_high_accuracy, 1)],
         last_updated := ''t''\<rparr>) =
     (average_rating (initial_metrics ''t0'') *
        of_int (total_feedback_count (initial_metrics ''t0'')) +
      of_int (get_default (fb_rating (rated 7)) 0)) /
     of_int (total_feedback_count (initial_metrics ''t0'') + 1)"
    by this
  from 1 2 3 4 5 6 7 show ?thesis by (simp add: new_adaptive_protocol_def)
qed

text \<open>
  The protocol with persistence given a rating of 7: the document handed to
  \<open>insert_data\<close> holds 7, the analysis is positive as for any rating of 4 or more, and
  the metrics update computes the average 7.
\<close>

theorem learning_rating_not_clamped:
  "doc_rating (feedback_document ''t'' (Some ''f'') (Some ''r'') None None (Some 7)
                 (Some ''accuracy'') None None) = Some 7 \<and>
   sentiment (analyze_feedback (rated 7)) = ''positive'' \<and>
   (case bump_metrics ''t'' (initial_metrics ''t0'') (rated 7) (analyze_feedback (rated 7)) of
      Inl e \<Rightarrow> None
    | Inr m \<Rightarrow> Some (average_rating m)) = Some 7 \<and>
   vf_rating (validate_feedback ''s'' ''t'' (unrated_feedback\<lparr>rf_rating := Some 7\<rparr>)) = 5"
proof -
  have "doc_rating (feedback_document ''t'' (Some ''f'') (Some ''r'') None None (Some 7)
                 (Some ''accuracy'') None None) = Some 7"
    by (simp add: feedback_document_def)
  moreover have "sentiment (analyze_feedback (rated 7)) = ''positive''"
    by (simp add: analyze_feedback_sentiment rated_def get_default_def)
  moreover have
    "vf_rating (validate_feedback ''s'' ''t'' (unrated_feedback\<lparr>rf_rating := Some 7\<rparr>)) = 5"
    by (simp add: validate_feedback_def get_default_def)
  ultimately show ?thesis by (simp add: example_bump)
qed

end
